theory Spec2Isabelle
  imports Complex_Main
begin

section \<open>JavaScript numbers and helpers\<close>

text \<open>
  The analysis engine of PMtool is written in JavaScript. A JavaScript number is modelled
  as a \<^typ>\<open>real\<close>: the arithmetic of the model is the exact arithmetic on finite values.
  Division by zero, which gives \<open>Infinity\<close> or \<open>NaN\<close> in the source, is guarded by the
  source nearly everywhere; the few places where it is not carry a comment.
  A field that may be \<open>null\<close> or \<open>undefined\<close> is an \<open>option\<close>. Record fields carry a
  short prefix naming their record, since the source reuses field names
  (\<open>quantity\<close>, \<open>year\<close>, \<open>category\<close>) across its objects.
\<close>

definition js_or :: "real option \<Rightarrow> real \<Rightarrow> real" where
  \<comment> \<open>\<open>x || d\<close> on a number: \<open>null\<close>, \<open>undefined\<close> and \<open>0\<close> are falsy.\<close>
  "js_or x d = (case x of None \<Rightarrow> d | Some v \<Rightarrow> if v = 0 then d else v)"

definition js_or_opt :: "real option \<Rightarrow> real option \<Rightarrow> real option" where
  \<comment> \<open>\<open>x || y\<close> where \<open>y\<close> may itself be missing.\<close>
  "js_or_opt x y = (case x of None \<Rightarrow> y | Some v \<Rightarrow> if v = 0 then y else Some v)"

definition js_or_str :: "string option \<Rightarrow> string \<Rightarrow> string" where
  \<comment> \<open>\<open>s || d\<close> on a string: \<open>null\<close>, \<open>undefined\<close> and the empty string are falsy.\<close>
  "js_or_str s d = (case s of None \<Rightarrow> d | Some v \<Rightarrow> if v = [] then d else v)"

definition Math_round :: "real \<Rightarrow> real" where
  \<comment> \<open>\<open>Math.round\<close>: to the nearest integer, halves towards plus infinity.\<close>
  "Math_round x = of_int \<lfloor>x + 1 / 2\<rfloor>"

definition Math_ceil :: "real \<Rightarrow> real" where
  "Math_ceil x = of_int \<lceil>x\<rceil>"

definition Math_floor :: "real \<Rightarrow> real" where
  "Math_floor x = of_int \<lfloor>x\<rfloor>"

definition round2 :: "real \<Rightarrow> real" where
  \<comment> \<open>\<open>Math.round((val || 0) * 100) / 100\<close>\<close>
  "round2 val = Math_round (val * 100) / 100"

definition lower_char :: "char \<Rightarrow> char" where
  \<comment> \<open>The ASCII capitals are the only characters that \<open>toLowerCase\<close> maps to an ASCII
      letter; every other byte is left as it is.\<close>
  "lower_char c =
     (case map_of (zip ''ABCDEFGHIJKLMNOPQRSTUVWXYZ'' ''abcdefghijklmnopqrstuvwxyz'') c of
        Some l \<Rightarrow> l
      | None \<Rightarrow> c)"

definition toLowerCase :: "string \<Rightarrow> string" where
  "toLowerCase s = map lower_char s"

section \<open>Input records of runAnalysis (routes/maintenance.js)\<close>

record scenario =
  sc_id :: "nat option"
  sc_name :: string
  sc_fleet_name :: "string option"
  sc_analysis_period_years :: nat
  sc_labor_rate :: real
  sc_labor_rate_specialist :: real
  sc_labor_rate_engineer :: real
  sc_parts_discount_pct :: real
  sc_overhead_markup_pct :: real
  sc_working_days_per_year :: real
  sc_hours_per_day :: real
  sc_target_utilization_pct :: real
  sc_discount_rate_pct :: real
  sc_inflation_rate_pct :: real
  sc_fuel_cost_per_unit :: real
  sc_downtime_cost_per_hour :: real
  sc_include_fuel_costs :: bool
  sc_include_downtime_costs :: bool

record fleet_unit =
  fu_equipment_model_id :: nat
  fu_unit_name :: "string option"
  fu_model_number :: string
  fu_quantity :: real
  fu_power_rating_kw :: real
  fu_application_type :: "string option"
  fu_annual_hours :: "real option"
  fu_default_annual_hours_standby :: "real option"
  fu_default_annual_hours_prime :: "real option"
  fu_default_annual_hours_ltp :: "real option"
  fu_default_annual_hours_continuous :: "real option"
  fu_duty_cycle :: "real option"
  fu_fuel_consumption_rate_full :: "real option"
  fu_fuel_consumption_rate_75 :: "real option"
  fu_fuel_consumption_rate_50 :: "real option"
  fu_fuel_consumption_unit :: "string option"
  fu_commissioning_rate_per_month :: "real option"

record task_part =
  tp_part_number :: "string option"
  tp_description :: "string option"
  tp_quantity :: real
  tp_is_optional :: bool

record pm_task =
  t_id :: "nat option"
  t_name :: string
  t_skill_level :: "string option"
  t_is_one_time :: bool
  t_interval_hours :: "real option"
  t_interval_months :: "real option"
  t_labor_hours :: real
  t_parts :: "task_part list"

record component_lifecycle =
  cl_equipment_model_id :: nat
  cl_component_name :: string
  cl_category :: string
  cl_expected_life_hours :: real
  cl_replacement_labor_hours :: real
  cl_criticality :: string

text \<open>\<open>priceMap\<close>: part number to the unit price of its price-list item.\<close>

type_synonym price_map = "string \<Rightarrow> real option"

record analysis_data =
  d_scenario :: scenario
  d_fleetUnits :: "fleet_unit list"
  d_pmTasks :: "pm_task list"
  d_priceMap :: price_map
  d_componentLifecycles :: "component_lifecycle list"

section \<open>Helpers of runAnalysis\<close>

definition getLaborRate :: "scenario \<Rightarrow> string option \<Rightarrow> real" where
  "getLaborRate scenario skillLevel =
     (let s = toLowerCase (js_or_str skillLevel ''technician'') in
      if s = ''specialist'' then sc_labor_rate_specialist scenario
      else if s = ''engineer'' then sc_labor_rate_engineer scenario
      else sc_labor_rate scenario)"

definition getPartCost :: "price_map \<Rightarrow> string option \<Rightarrow> real \<Rightarrow> real \<Rightarrow> real" where
  "getPartCost priceMap partNumber quantity discountPct =
     (case partNumber of
        None \<Rightarrow> 0
      | Some pn \<Rightarrow>
          if pn = [] then 0
          else (case priceMap pn of
                  None \<Rightarrow> 0
                | Some unitPrice \<Rightarrow> unitPrice * (1 - discountPct / 100) * quantity))"

definition default_hours_field :: "fleet_unit \<Rightarrow> string \<Rightarrow> real option" where
  \<comment> \<open>\<open>unit[`default_annual_hours_${appType}`]\<close>: the four columns of the equipment model.\<close>
  "default_hours_field u appType =
     (if appType = ''standby'' then fu_default_annual_hours_standby u
      else if appType = ''prime'' then fu_default_annual_hours_prime u
      else if appType = ''ltp'' then fu_default_annual_hours_ltp u
      else if appType = ''continuous'' then fu_default_annual_hours_continuous u
      else None)"

definition getDefaultHours :: "fleet_unit \<Rightarrow> real" where
  "getDefaultHours u =
     (let appType = js_or_str (fu_application_type u) ''prime'' in
      js_or (js_or_opt (default_hours_field u appType) (fu_default_annual_hours_prime u)) 6500)"

definition unit_hours :: "fleet_unit \<Rightarrow> real" where
  \<comment> \<open>\<open>unit.annual_hours || getDefaultHours(unit)\<close>\<close>
  "unit_hours u = js_or (fu_annual_hours u) (getDefaultHours u)"

section \<open>Result records of runAnalysis\<close>

record part_detail =
  pd_part_number :: "string option"
  pd_description :: "string option"
  pd_quantity :: real
  pd_unit_cost :: real
  pd_discounted_cost :: real
  pd_total_cost_per_service :: real

record task_row =
  tr_task_id :: "nat option"
  tr_task_name :: string
  tr_skill_level :: "string option"
  tr_is_one_time :: bool
  tr_interval_hours :: "real option"
  tr_interval_months :: "real option"
  tr_services_per_year :: real
  tr_labor_hours_per_service :: real
  tr_labor_hours_per_year :: real
  tr_labor_rate :: real
  tr_labor_cost_per_year :: real
  tr_parts_cost_per_service :: real
  tr_parts_cost_per_year :: real
  tr_total_cost_per_year :: real
  tr_parts :: "part_detail list"

record staffing =
  st_total_annual_labor_hours :: real
  st_available_hours_per_technician :: real
  st_safety_factor :: real
  st_technicians_needed :: real
  st_utilization_without_safety :: real

record fuel_detail =
  fd_unit_name :: string
  fd_model_number :: string
  fd_quantity :: real
  fd_annual_hours :: real
  fd_duty_cycle :: real
  fd_fuel_rate :: real
  fd_fuel_unit :: string
  fd_annual_fuel_cost :: real

record schedule_entry =
  se_replacement_number :: nat
  se_year :: int
  se_estimated_cost :: real

record component_replacement =
  cr_component_name :: string
  cr_category :: string
  cr_model_number :: string
  cr_unit_name :: "string option"
  cr_quantity :: real
  cr_expected_life_hours :: real
  cr_years_per_replacement :: real
  cr_replacements_over_period :: nat
  cr_labor_hours :: real
  cr_cost_per_replacement :: real
  cr_criticality :: string
  cr_schedule :: "schedule_entry list"

record projection_row =
  pr_year :: nat
  pr_units_commissioned :: real
  pr_technicians_needed :: real
  pr_maintenance_cost :: real
  pr_fuel_cost :: real
  pr_downtime_cost :: real
  pr_component_replacement_cost :: real
  pr_total_cost :: real
  pr_cumulative_cost :: real
  pr_npv_of_year :: real

record fleet_summary =
  fs_fleet_name :: "string option"
  fs_total_units :: real
  fs_total_kw :: real
  fs_average_annual_hours :: real
  fs_total_annual_kwh :: real

record maintenance_cost_summary =
  ms_annual_labor_cost :: real
  ms_annual_parts_cost :: real
  ms_annual_overhead :: real
  ms_overhead_markup_pct :: real
  ms_total_annual_maintenance_cost :: real

record fuel_summary =
  fus_enabled :: bool
  fus_fuel_cost_per_unit :: real
  fus_annual_fuel_cost :: real
  fus_details :: "fuel_detail list"

record downtime_summary =
  ds_enabled :: bool
  ds_downtime_cost_per_hour :: real
  ds_annual_downtime_cost :: real

record component_replacements_summary =
  crs_total_cost_over_period :: real
  crs_components :: "component_replacement list"

record tco =
  tco_total_npv :: real
  tco_total_nominal :: real
  tco_analysis_period_years :: nat
  tco_average_annual_cost :: real
  tco_average_annual_cost_npv :: real

record parameters =
  pa_analysis_period_years :: nat
  pa_labor_rate :: real
  pa_labor_rate_specialist :: real
  pa_labor_rate_engineer :: real
  pa_parts_discount_pct :: real
  pa_overhead_markup_pct :: real
  pa_discount_rate_pct :: real
  pa_inflation_rate_pct :: real
  pa_fuel_cost_per_unit :: real
  pa_downtime_cost_per_hour :: real

record analysis_result =
  r_scenario_id :: "nat option"
  r_scenario_name :: string
  r_calculated_at :: string
  r_fleet_summary :: fleet_summary
  r_maintenance_cost_summary :: maintenance_cost_summary
  r_pm_task_breakdown :: "task_row list"
  r_staffing :: staffing
  r_fuel_summary :: fuel_summary
  r_downtime_summary :: downtime_summary
  r_component_replacements :: component_replacements_summary
  r_cost_per_kwh :: real
  r_tco :: tco
  r_annual_projections :: "projection_row list"
  r_parameters :: parameters

section \<open>runAnalysis: the core calculation engine of routes/maintenance.js\<close>

text \<open>
  Each local constant of \<open>runAnalysis\<close> is a definition over the resolved input
  \<open>data\<close>, under the name it has in the source; an accumulation loop is the sum of its
  summands.
\<close>

definition analysisPeriod :: "analysis_data \<Rightarrow> nat" where
  "analysisPeriod d = sc_analysis_period_years (d_scenario d)"

definition discountRate :: "analysis_data \<Rightarrow> real" where
  "discountRate d = sc_discount_rate_pct (d_scenario d) / 100"

definition inflationRate :: "analysis_data \<Rightarrow> real" where
  "inflationRate d = sc_inflation_rate_pct (d_scenario d) / 100"

definition overheadMarkup :: "analysis_data \<Rightarrow> real" where
  "overheadMarkup d = sc_overhead_markup_pct (d_scenario d) / 100"

definition partsDiscount :: "analysis_data \<Rightarrow> real" where
  "partsDiscount d = sc_parts_discount_pct (d_scenario d)"

definition availableHoursPerTech :: "analysis_data \<Rightarrow> real" where
  "availableHoursPerTech d =
     sc_working_days_per_year (d_scenario d) * sc_hours_per_day (d_scenario d)
       * (sc_target_utilization_pct (d_scenario d) / 100)"

definition totalUnits :: "analysis_data \<Rightarrow> real" where
  "totalUnits d = sum_list (map fu_quantity (d_fleetUnits d))"

definition totalKw :: "analysis_data \<Rightarrow> real" where
  "totalKw d = sum_list (map (\<lambda>u. fu_power_rating_kw u * fu_quantity u) (d_fleetUnits d))"

definition totalWeightedHours :: "analysis_data \<Rightarrow> real" where
  "totalWeightedHours d = sum_list (map (\<lambda>u. unit_hours u * fu_quantity u) (d_fleetUnits d))"

definition avgAnnualHours :: "analysis_data \<Rightarrow> real" where
  "avgAnnualHours d = (if totalUnits d > 0 then totalWeightedHours d / totalUnits d else 0)"

subsection \<open>PM cost breakdown by task\<close>

definition servicesPerYear :: "analysis_data \<Rightarrow> pm_task \<Rightarrow> real" where
  "servicesPerYear d task =
     (if t_is_one_time task then totalUnits d
      else (case t_interval_hours task of
              Some ih \<Rightarrow>
                if ih \<noteq> 0 then (totalUnits d * avgAnnualHours d) / ih
                else (case t_interval_months task of
                        Some im \<Rightarrow> if im \<noteq> 0 then totalUnits d * (12 / im) else 0
                      | None \<Rightarrow> 0)
            | None \<Rightarrow>
                (case t_interval_months task of
                   Some im \<Rightarrow> if im \<noteq> 0 then totalUnits d * (12 / im) else 0
                 | None \<Rightarrow> 0)))"

definition laborHoursPerYear :: "analysis_data \<Rightarrow> pm_task \<Rightarrow> real" where
  "laborHoursPerYear d task = servicesPerYear d task * t_labor_hours task"

definition laborCostPerYear :: "analysis_data \<Rightarrow> pm_task \<Rightarrow> real" where
  "laborCostPerYear d task =
     laborHoursPerYear d task * getLaborRate (d_scenario d) (t_skill_level task)"

definition price_item :: "price_map \<Rightarrow> string option \<Rightarrow> real option" where
  \<comment> \<open>\<open>priceMap[part.part_number]\<close>: a \<open>null\<close> key reads the property named \<open>null\<close>.\<close>
  "price_item priceMap pn = priceMap (case pn of None \<Rightarrow> ''null'' | Some s \<Rightarrow> s)"

definition part_cost :: "analysis_data \<Rightarrow> task_part \<Rightarrow> real" where
  "part_cost d part =
     getPartCost (d_priceMap d) (tp_part_number part) (tp_quantity part) (partsDiscount d)"

definition partsPerService :: "analysis_data \<Rightarrow> pm_task \<Rightarrow> real" where
  "partsPerService d task =
     sum_list (map (part_cost d) (filter (\<lambda>p. \<not> tp_is_optional p) (t_parts task)))"

definition partDetails :: "analysis_data \<Rightarrow> pm_task \<Rightarrow> part_detail list" where
  "partDetails d task =
     map (\<lambda>part.
            \<lparr> pd_part_number = tp_part_number part,
              pd_description = tp_description part,
              pd_quantity = tp_quantity part,
              pd_unit_cost =
                (case price_item (d_priceMap d) (tp_part_number part) of
                   Some up \<Rightarrow> up | None \<Rightarrow> 0),
              pd_discounted_cost =
                part_cost d part / (if tp_quantity part = 0 then 1 else tp_quantity part),
              pd_total_cost_per_service = part_cost d part \<rparr>)
         (filter (\<lambda>p. \<not> tp_is_optional p) (t_parts task))"

definition partsCostPerYear :: "analysis_data \<Rightarrow> pm_task \<Rightarrow> real" where
  "partsCostPerYear d task = partsPerService d task * servicesPerYear d task"

definition task_row_of :: "analysis_data \<Rightarrow> pm_task \<Rightarrow> task_row" where
  "task_row_of d task =
     \<lparr> tr_task_id = t_id task,
       tr_task_name = t_name task,
       tr_skill_level = t_skill_level task,
       tr_is_one_time = t_is_one_time task,
       tr_interval_hours = t_interval_hours task,
       tr_interval_months = t_interval_months task,
       tr_services_per_year = round2 (servicesPerYear d task),
       tr_labor_hours_per_service = t_labor_hours task,
       tr_labor_hours_per_year = round2 (laborHoursPerYear d task),
       tr_labor_rate = getLaborRate (d_scenario d) (t_skill_level task),
       tr_labor_cost_per_year = round2 (laborCostPerYear d task),
       tr_parts_cost_per_service = round2 (partsPerService d task),
       tr_parts_cost_per_year = round2 (partsCostPerYear d task),
       tr_total_cost_per_year = round2 (laborCostPerYear d task + partsCostPerYear d task),
       tr_parts = partDetails d task \<rparr>"

definition taskBreakdown :: "analysis_data \<Rightarrow> task_row list" where
  "taskBreakdown d = map (task_row_of d) (d_pmTasks d)"

definition totalAnnualLaborHours :: "analysis_data \<Rightarrow> real" where
  "totalAnnualLaborHours d = sum_list (map (laborHoursPerYear d) (d_pmTasks d))"

definition totalAnnualLaborCost :: "analysis_data \<Rightarrow> real" where
  "totalAnnualLaborCost d = sum_list (map (laborCostPerYear d) (d_pmTasks d))"

definition totalAnnualPartsCost :: "analysis_data \<Rightarrow> real" where
  "totalAnnualPartsCost d = sum_list (map (partsCostPerYear d) (d_pmTasks d))"

definition annualMaintenanceCostBase :: "analysis_data \<Rightarrow> real" where
  "annualMaintenanceCostBase d = totalAnnualLaborCost d + totalAnnualPartsCost d"

definition annualOverhead :: "analysis_data \<Rightarrow> real" where
  "annualOverhead d = annualMaintenanceCostBase d * overheadMarkup d"

definition totalAnnualMaintenanceCost :: "analysis_data \<Rightarrow> real" where
  "totalAnnualMaintenanceCost d = annualMaintenanceCostBase d + annualOverhead d"

subsection \<open>Staffing requirements\<close>

definition safetyFactor :: real where
  "safetyFactor = 115 / 100"

definition techniciansNeeded :: "analysis_data \<Rightarrow> real" where
  "techniciansNeeded d =
     (if availableHoursPerTech d > 0
      then Math_ceil ((totalAnnualLaborHours d * safetyFactor) / availableHoursPerTech d)
      else 0)"

definition staffing_of :: "analysis_data \<Rightarrow> staffing" where
  \<comment> \<open>Where \<open>techniciansNeeded\<close> is 0 the source divides by zero; with no labour hours that
      is \<open>NaN\<close>, which \<open>round2\<close> turns into 0, as the division of the model does.\<close>
  "staffing_of d =
     \<lparr> st_total_annual_labor_hours = round2 (totalAnnualLaborHours d),
       st_available_hours_per_technician = round2 (availableHoursPerTech d),
       st_safety_factor = safetyFactor,
       st_technicians_needed = techniciansNeeded d,
       st_utilization_without_safety =
         (if availableHoursPerTech d > 0
          then round2 ((totalAnnualLaborHours d
                         / (techniciansNeeded d * availableHoursPerTech d)) * 100)
          else 0) \<rparr>"

subsection \<open>Fuel cost projections\<close>

definition dutyCycle :: "fleet_unit \<Rightarrow> real" where
  "dutyCycle u = js_or (fu_duty_cycle u) (75 / 100)"

definition fuelRate :: "fleet_unit \<Rightarrow> real" where
  "fuelRate u =
     (if dutyCycle u \<ge> 85 / 100 then js_or (fu_fuel_consumption_rate_full u) 0
      else if dutyCycle u \<ge> 6 / 10
        then js_or (js_or_opt (fu_fuel_consumption_rate_75 u) (fu_fuel_consumption_rate_full u)) 0
      else js_or (js_or_opt (fu_fuel_consumption_rate_50 u)
                   (js_or_opt (fu_fuel_consumption_rate_75 u) (fu_fuel_consumption_rate_full u))) 0)"

definition unitFuelCost :: "analysis_data \<Rightarrow> fleet_unit \<Rightarrow> real" where
  "unitFuelCost d u =
     fuelRate u * unit_hours u * sc_fuel_cost_per_unit (d_scenario d) * fu_quantity u"

definition annualFuelCost :: "analysis_data \<Rightarrow> real" where
  "annualFuelCost d =
     (if sc_include_fuel_costs (d_scenario d)
      then sum_list (map (unitFuelCost d) (d_fleetUnits d)) else 0)"

definition fuel_detail_of :: "analysis_data \<Rightarrow> fleet_unit \<Rightarrow> fuel_detail" where
  "fuel_detail_of d u =
     \<lparr> fd_unit_name = js_or_str (fu_unit_name u) (fu_model_number u),
       fd_model_number = fu_model_number u,
       fd_quantity = fu_quantity u,
       fd_annual_hours = unit_hours u,
       fd_duty_cycle = dutyCycle u,
       fd_fuel_rate = fuelRate u,
       fd_fuel_unit = js_or_str (fu_fuel_consumption_unit u) ''therms/hr'',
       fd_annual_fuel_cost = round2 (unitFuelCost d u) \<rparr>"

definition fuelDetails :: "analysis_data \<Rightarrow> fuel_detail list" where
  "fuelDetails d =
     (if sc_include_fuel_costs (d_scenario d)
      then map (fuel_detail_of d) (d_fleetUnits d) else [])"

subsection \<open>Component replacement schedule\<close>

definition yearsPerReplacement :: "component_lifecycle \<Rightarrow> fleet_unit \<Rightarrow> real" where
  "yearsPerReplacement lifecycle u = cl_expected_life_hours lifecycle / unit_hours u"

definition replacementsOverPeriod :: "analysis_data \<Rightarrow> component_lifecycle \<Rightarrow> fleet_unit \<Rightarrow> int" where
  "replacementsOverPeriod d lifecycle u =
     \<lfloor>real (analysisPeriod d) / yearsPerReplacement lifecycle u\<rfloor>"

definition costPerReplacement :: "analysis_data \<Rightarrow> component_lifecycle \<Rightarrow> real" where
  "costPerReplacement d lifecycle =
     cl_replacement_labor_hours lifecycle * getLaborRate (d_scenario d) (Some ''specialist'')
       + getPartCost (d_priceMap d) (Some (cl_component_name lifecycle)) 1 (partsDiscount d)"

definition replacementYears :: "analysis_data \<Rightarrow> component_lifecycle \<Rightarrow> fleet_unit \<Rightarrow> (nat \<times> int) list" where
  \<comment> \<open>The loop \<open>for (r = 1; r <= replacementsOverPeriod; r++)\<close> with
      \<open>year = Math.ceil(yearsPerReplacement * r)\<close>, left by \<open>break\<close> at the first year
      beyond the analysis period.\<close>
  "replacementYears d lifecycle u =
     takeWhile (\<lambda>(r, year). \<not> year > int (analysisPeriod d))
       (map (\<lambda>r. (r, \<lceil>yearsPerReplacement lifecycle u * real r\<rceil>))
          [1 ..< Suc (nat (replacementsOverPeriod d lifecycle u))])"

definition inflatedCost :: "analysis_data \<Rightarrow> component_lifecycle \<Rightarrow> int \<Rightarrow> real" where
  "inflatedCost d lifecycle year =
     costPerReplacement d lifecycle * (1 + inflationRate d) ^ nat year"

definition schedule_of :: "analysis_data \<Rightarrow> component_lifecycle \<Rightarrow> fleet_unit \<Rightarrow> schedule_entry list" where
  "schedule_of d lifecycle u =
     map (\<lambda>(r, year).
            \<lparr> se_replacement_number = r,
              se_year = year,
              se_estimated_cost = round2 (inflatedCost d lifecycle year) \<rparr>)
         (replacementYears d lifecycle u)"

definition component_replacement_of ::
  "analysis_data \<Rightarrow> component_lifecycle \<Rightarrow> fleet_unit \<Rightarrow> component_replacement option" where
  \<comment> \<open>One pass of the inner loop over the matching units; \<open>None\<close> is \<open>continue\<close>.\<close>
  "component_replacement_of d lifecycle u =
     (if unit_hours u \<le> 0 \<or> cl_expected_life_hours lifecycle \<le> 0 then None
      else if replacementsOverPeriod d lifecycle u \<le> 0 then None
      else Some
        \<lparr> cr_component_name = cl_component_name lifecycle,
          cr_category = cl_category lifecycle,
          cr_model_number = fu_model_number u,
          cr_unit_name = fu_unit_name u,
          cr_quantity = fu_quantity u,
          cr_expected_life_hours = cl_expected_life_hours lifecycle,
          cr_years_per_replacement = round2 (yearsPerReplacement lifecycle u),
          cr_replacements_over_period = length (schedule_of d lifecycle u),
          cr_labor_hours = cl_replacement_labor_hours lifecycle,
          cr_cost_per_replacement = round2 (costPerReplacement d lifecycle),
          cr_criticality = cl_criticality lifecycle,
          cr_schedule = schedule_of d lifecycle u \<rparr>)"

definition matchingUnits :: "analysis_data \<Rightarrow> component_lifecycle \<Rightarrow> fleet_unit list" where
  "matchingUnits d lifecycle =
     filter (\<lambda>u. fu_equipment_model_id u = cl_equipment_model_id lifecycle) (d_fleetUnits d)"

definition componentReplacements :: "analysis_data \<Rightarrow> component_replacement list" where
  "componentReplacements d =
     concat (map (\<lambda>lifecycle.
                    List.map_filter (component_replacement_of d lifecycle)
                      (matchingUnits d lifecycle))
               (d_componentLifecycles d))"

definition unit_component_cost :: "analysis_data \<Rightarrow> component_lifecycle \<Rightarrow> fleet_unit \<Rightarrow> real" where
  \<comment> \<open>What one (lifecycle, unit) pair adds to \<open>totalComponentCostOverPeriod\<close>.\<close>
  "unit_component_cost d lifecycle u =
     (if unit_hours u \<le> 0 \<or> cl_expected_life_hours lifecycle \<le> 0 then 0
      else if replacementsOverPeriod d lifecycle u \<le> 0 then 0
      else sum_list (map (\<lambda>(r, year). inflatedCost d lifecycle year)
                       (replacementYears d lifecycle u)))"

definition totalComponentCostOverPeriod :: "analysis_data \<Rightarrow> real" where
  "totalComponentCostOverPeriod d =
     sum_list (map (\<lambda>lifecycle.
                      sum_list (map (unit_component_cost d lifecycle) (matchingUnits d lifecycle)))
                 (d_componentLifecycles d))"

subsection \<open>Downtime cost estimates\<close>

definition totalServicesPerYear :: "analysis_data \<Rightarrow> real" where
  "totalServicesPerYear d = sum_list (map tr_services_per_year (taskBreakdown d))"

definition avgDowntimePerService :: "analysis_data \<Rightarrow> real" where
  \<comment> \<open>With tasks that add up to no service at all the source divides by zero; no
      statement below is about the downtime cost of such an input.\<close>
  "avgDowntimePerService d =
     (if length (d_pmTasks d) > 0
      then (totalAnnualLaborHours d / totalServicesPerYear d) * (15 / 10)
      else 0)"

definition annualDowntimeCost :: "analysis_data \<Rightarrow> real" where
  "annualDowntimeCost d =
     (if sc_include_downtime_costs (d_scenario d)
      then (totalServicesPerYear d * avgDowntimePerService d)
             * sc_downtime_cost_per_hour (d_scenario d)
      else 0)"

subsection \<open>Annual cost projections\<close>

definition inflationMultiplier :: "analysis_data \<Rightarrow> nat \<Rightarrow> real" where
  "inflationMultiplier d year = (1 + inflationRate d) ^ (year - 1)"

definition discountMultiplier :: "analysis_data \<Rightarrow> nat \<Rightarrow> real" where
  "discountMultiplier d year = (1 + discountRate d) ^ year"

definition oneTimeCosts :: "analysis_data \<Rightarrow> real" where
  "oneTimeCosts d =
     sum_list (map tr_total_cost_per_year (filter tr_is_one_time (taskBreakdown d)))"

definition yearMaintenanceCost :: "analysis_data \<Rightarrow> nat \<Rightarrow> real" where
  "yearMaintenanceCost d year =
     (if year > 1
      then totalAnnualMaintenanceCost d * inflationMultiplier d year
             - oneTimeCosts d * inflationMultiplier d year
      else totalAnnualMaintenanceCost d * inflationMultiplier d year)"

definition yearFuelCost :: "analysis_data \<Rightarrow> nat \<Rightarrow> real" where
  "yearFuelCost d year =
     (if sc_include_fuel_costs (d_scenario d)
      then annualFuelCost d * inflationMultiplier d year else 0)"

definition yearDowntimeCost :: "analysis_data \<Rightarrow> nat \<Rightarrow> real" where
  "yearDowntimeCost d year =
     (if sc_include_downtime_costs (d_scenario d)
      then annualDowntimeCost d * inflationMultiplier d year else 0)"

definition yearComponentCost :: "analysis_data \<Rightarrow> nat \<Rightarrow> real" where
  "yearComponentCost d year =
     sum_list (map (\<lambda>component.
                      sum_list (map (\<lambda>sched. se_estimated_cost sched * cr_quantity component)
                                  (filter (\<lambda>sched. se_year sched = int year) (cr_schedule component))))
                 (componentReplacements d))"

definition yearTotalCost :: "analysis_data \<Rightarrow> nat \<Rightarrow> real" where
  "yearTotalCost d year =
     yearMaintenanceCost d year + yearFuelCost d year + yearDowntimeCost d year
       + yearComponentCost d year"

definition yearNpv :: "analysis_data \<Rightarrow> nat \<Rightarrow> real" where
  "yearNpv d year = yearTotalCost d year / discountMultiplier d year"

definition unit_commissioned :: "fleet_unit \<Rightarrow> nat \<Rightarrow> real" where
  "unit_commissioned u year =
     (let rate = js_or (fu_commissioning_rate_per_month u) 1;
          monthsToFullDeploy = Math_ceil (fu_quantity u / rate);
          yearsToFullDeploy = monthsToFullDeploy / 12
      in if real year \<ge> Math_ceil yearsToFullDeploy then fu_quantity u
         else min (fu_quantity u) (Math_floor (real (year * 12) * rate)))"

definition unitsCommissioned :: "analysis_data \<Rightarrow> nat \<Rightarrow> real" where
  "unitsCommissioned d year = sum_list (map (\<lambda>u. unit_commissioned u year) (d_fleetUnits d))"

definition yearLaborHoursScaled :: "analysis_data \<Rightarrow> nat \<Rightarrow> real" where
  "yearLaborHoursScaled d year =
     (if totalUnits d > 0
      then totalAnnualLaborHours d * (unitsCommissioned d year / totalUnits d) else 0)"

definition yearTechsNeeded :: "analysis_data \<Rightarrow> nat \<Rightarrow> real" where
  "yearTechsNeeded d year =
     (if availableHoursPerTech d > 0
      then Math_ceil ((yearLaborHoursScaled d year * safetyFactor) / availableHoursPerTech d)
      else 0)"

text \<open>
  The loop \<open>for (year = 1; year <= analysisPeriod; year++)\<close> threads the two accumulators
  \<open>cumulativeCost\<close> and \<open>npvTotal\<close>; it returns the rows and the final accumulators.
\<close>

fun projection_loop ::
  "analysis_data \<Rightarrow> nat list \<Rightarrow> real \<Rightarrow> real \<Rightarrow> projection_row list \<times> real \<times> real" where
  "projection_loop d [] cumulativeCost npvTotal = ([], cumulativeCost, npvTotal)"
| "projection_loop d (year # years) cumulativeCost npvTotal =
     (let cumulativeCost' = cumulativeCost + yearTotalCost d year;
          npvTotal' = npvTotal + yearNpv d year;
          row = \<lparr> pr_year = year,
                  pr_units_commissioned = unitsCommissioned d year,
                  pr_technicians_needed = yearTechsNeeded d year,
                  pr_maintenance_cost = round2 (yearMaintenanceCost d year),
                  pr_fuel_cost = round2 (yearFuelCost d year),
                  pr_downtime_cost = round2 (yearDowntimeCost d year),
                  pr_component_replacement_cost = round2 (yearComponentCost d year),
                  pr_total_cost = round2 (yearTotalCost d year),
                  pr_cumulative_cost = round2 cumulativeCost',
                  pr_npv_of_year = round2 (yearNpv d year) \<rparr>;
          (rows, c, n) = projection_loop d years cumulativeCost' npvTotal'
      in (row # rows, c, n))"

definition projection :: "analysis_data \<Rightarrow> projection_row list \<times> real \<times> real" where
  "projection d = projection_loop d [1 ..< Suc (analysisPeriod d)] 0 0"

definition annualProjections :: "analysis_data \<Rightarrow> projection_row list" where
  "annualProjections d = fst (projection d)"

definition cumulativeCost :: "analysis_data \<Rightarrow> real" where
  "cumulativeCost d = fst (snd (projection d))"

definition npvTotal :: "analysis_data \<Rightarrow> real" where
  "npvTotal d = snd (snd (projection d))"

definition totalAnnualKwh :: "analysis_data \<Rightarrow> real" where
  "totalAnnualKwh d = totalKw d * avgAnnualHours d"

definition costPerKwh :: "analysis_data \<Rightarrow> real" where
  "costPerKwh d =
     (if totalAnnualKwh d > 0 then totalAnnualMaintenanceCost d / totalAnnualKwh d else 0)"

definition tco_of :: "analysis_data \<Rightarrow> tco" where
  "tco_of d =
     \<lparr> tco_total_npv = round2 (npvTotal d),
       tco_total_nominal = round2 (cumulativeCost d),
       tco_analysis_period_years = analysisPeriod d,
       tco_average_annual_cost = round2 (cumulativeCost d / real (analysisPeriod d)),
       tco_average_annual_cost_npv = round2 (npvTotal d / real (analysisPeriod d)) \<rparr>"

text \<open>
  \<open>runAnalysis\<close> reads the clock once, for \<open>calculated_at: new Date().toISOString()\<close>.
  The reading is the first argument of the model; everything else is computed from
  \<open>data\<close>.
\<close>

definition runAnalysis :: "string \<Rightarrow> analysis_data \<Rightarrow> analysis_result" where
  "runAnalysis now d =
     \<lparr> r_scenario_id = sc_id (d_scenario d),
       r_scenario_name = sc_name (d_scenario d),
       r_calculated_at = now,
       r_fleet_summary =
         \<lparr> fs_fleet_name = sc_fleet_name (d_scenario d),
           fs_total_units = totalUnits d,
           fs_total_kw = round2 (totalKw d),
           fs_average_annual_hours = round2 (avgAnnualHours d),
           fs_total_annual_kwh = round2 (totalAnnualKwh d) \<rparr>,
       r_maintenance_cost_summary =
         \<lparr> ms_annual_labor_cost = round2 (totalAnnualLaborCost d),
           ms_annual_parts_cost = round2 (totalAnnualPartsCost d),
           ms_annual_overhead = round2 (annualOverhead d),
           ms_overhead_markup_pct = sc_overhead_markup_pct (d_scenario d),
           ms_total_annual_maintenance_cost = round2 (totalAnnualMaintenanceCost d) \<rparr>,
       r_pm_task_breakdown = taskBreakdown d,
       r_staffing = staffing_of d,
       r_fuel_summary =
         \<lparr> fus_enabled = sc_include_fuel_costs (d_scenario d),
           fus_fuel_cost_per_unit = sc_fuel_cost_per_unit (d_scenario d),
           fus_annual_fuel_cost = round2 (annualFuelCost d),
           fus_details = fuelDetails d \<rparr>,
       r_downtime_summary =
         \<lparr> ds_enabled = sc_include_downtime_costs (d_scenario d),
           ds_downtime_cost_per_hour = sc_downtime_cost_per_hour (d_scenario d),
           ds_annual_downtime_cost = round2 (annualDowntimeCost d) \<rparr>,
       r_component_replacements =
         \<lparr> crs_total_cost_over_period = round2 (totalComponentCostOverPeriod d),
           crs_components = componentReplacements d \<rparr>,
       r_cost_per_kwh = round2 (costPerKwh d),
       r_tco = tco_of d,
       r_annual_projections = annualProjections d,
       r_parameters =
         \<lparr> pa_analysis_period_years = analysisPeriod d,
           pa_labor_rate = sc_labor_rate (d_scenario d),
           pa_labor_rate_specialist = sc_labor_rate_specialist (d_scenario d),
           pa_labor_rate_engineer = sc_labor_rate_engineer (d_scenario d),
           pa_parts_discount_pct = sc_parts_discount_pct (d_scenario d),
           pa_overhead_markup_pct = sc_overhead_markup_pct (d_scenario d),
           pa_discount_rate_pct = sc_discount_rate_pct (d_scenario d),
           pa_inflation_rate_pct = sc_inflation_rate_pct (d_scenario d),
           pa_fuel_cost_per_unit = sc_fuel_cost_per_unit (d_scenario d),
           pa_downtime_cost_per_hour = sc_downtime_cost_per_hour (d_scenario d) \<rparr> \<rparr>"

section \<open>The comparison of scenarios (POST /compare of routes/maintenance.js)\<close>

record comparison_row =
  cmp_scenario_id :: "nat option"
  cmp_scenario_name :: string
  cmp_total_units :: real
  cmp_total_kw :: real
  cmp_annual_maintenance_cost :: real
  cmp_annual_fuel_cost :: real
  cmp_annual_downtime_cost :: real
  cmp_cost_per_kwh :: real
  cmp_technicians_needed :: real
  cmp_tco_npv :: real
  cmp_tco_nominal :: real
  cmp_average_annual_cost :: real

record lowest_tco =
  lt_scenario_id :: "nat option"
  lt_scenario_name :: string
  lt_tco_npv :: real
  lt_savings_vs_highest :: real

record comparison =
  co_scenarios :: "comparison_row list"
  co_full_results :: "analysis_result list"
  co_lowest_tco :: "lowest_tco option"

definition comparison_row_of :: "analysis_result \<Rightarrow> comparison_row" where
  "comparison_row_of r =
     \<lparr> cmp_scenario_id = r_scenario_id r,
       cmp_scenario_name = r_scenario_name r,
       cmp_total_units = fs_total_units (r_fleet_summary r),
       cmp_total_kw = fs_total_kw (r_fleet_summary r),
       cmp_annual_maintenance_cost =
         ms_total_annual_maintenance_cost (r_maintenance_cost_summary r),
       cmp_annual_fuel_cost = fus_annual_fuel_cost (r_fuel_summary r),
       cmp_annual_downtime_cost = ds_annual_downtime_cost (r_downtime_summary r),
       cmp_cost_per_kwh = r_cost_per_kwh r,
       cmp_technicians_needed = st_technicians_needed (r_staffing r),
       cmp_tco_npv = tco_total_npv (r_tco r),
       cmp_tco_nominal = tco_total_nominal (r_tco r),
       cmp_average_annual_cost = tco_average_annual_cost (r_tco r) \<rparr>"

definition sorted_by_npv :: "comparison_row list \<Rightarrow> comparison_row list" where
  \<comment> \<open>\<open>[...scenarios].sort((a, b) => a.tco_npv - b.tco_npv)\<close>: a stable sort, ascending.\<close>
  "sorted_by_npv scenarios = sort_key cmp_tco_npv scenarios"

definition lowest_tco_of :: "comparison_row list \<Rightarrow> lowest_tco option" where
  "lowest_tco_of scenarios =
     (if length scenarios \<ge> 2
      then (case sorted_by_npv scenarios of
              [] \<Rightarrow> None
            | s0 # rest \<Rightarrow>
                Some \<lparr> lt_scenario_id = cmp_scenario_id s0,
                       lt_scenario_name = cmp_scenario_name s0,
                       lt_tco_npv = cmp_tco_npv s0,
                       lt_savings_vs_highest =
                         round2 (cmp_tco_npv (last (s0 # rest)) - cmp_tco_npv s0) \<rparr>)
      else None)"

definition compare_results :: "analysis_result list \<Rightarrow> comparison" where
  \<comment> \<open>The comparison summary built from the results of the scenarios that were computed.\<close>
  "compare_results results =
     \<lparr> co_scenarios = map comparison_row_of results,
       co_full_results = results,
       co_lowest_tco = lowest_tco_of (map comparison_row_of results) \<rparr>"

section \<open>calculateFullAnalysis (services/calculator.js)\<close>

text \<open>
  The second engine of the repository takes one \<open>config\<close> object. A property that the
  destructuring pattern gives a default is an \<open>option\<close>, with \<open>None\<close> for \<open>undefined\<close>.
  The locals of \<open>calculateFullAnalysis\<close> carry the prefix \<open>cfa_\<close>, since several share
  their name with a local of \<open>runAnalysis\<close>.
\<close>

record cfg_unit =
  cu_quantity :: "real option"
  cu_annual_hours :: "real option"
  cu_duty_cycle :: "real option"
  cu_commissioning_rate_per_month :: "real option"
  cu_fuel_consumption_rate :: "real option"
  cu_fuel_consumption_unit :: "string option"
  cu_power_rating_kw :: "real option"

record cfg_part =
  cp_unit_price :: "real option"
  cp_quantity :: "real option"

record cfg_task =
  ct_name :: string
  ct_interval_hours :: "real option"
  ct_labor_hours :: real
  ct_skill_level :: "string option"
  ct_is_one_time :: bool
  ct_is_automated :: bool
  ct_enabled :: "bool option"
  ct_parts :: "cfg_part list"

record cfg_component =
  cc_component_name :: string
  cc_category :: string
  cc_expected_life_hours :: "real option"
  cc_replacement_labor_hours :: "real option"
  cc_replacement_cost :: "real option"

record config =
  cfg_fleet_units :: "cfg_unit list"
  cfg_pm_tasks :: "cfg_task list"
  cfg_labor_rate :: "real option"
  cfg_labor_rate_specialist :: "real option"
  cfg_labor_rate_engineer :: "real option"
  cfg_parts_discount_pct :: "real option"
  cfg_overhead_markup_pct :: "real option"
  cfg_working_days_per_year :: "real option"
  cfg_hours_per_day :: "real option"
  cfg_target_utilization_pct :: "real option"
  cfg_analysis_period_years :: "nat option"
  cfg_discount_rate_pct :: "real option"
  cfg_inflation_rate_pct :: "real option"
  cfg_fuel_cost_per_unit :: "real option"
  cfg_downtime_cost_per_hour :: "real option"
  cfg_include_fuel_costs :: "bool option"
  cfg_include_downtime_costs :: "bool option"
  cfg_component_lifecycles :: "cfg_component list option"
  cfg_energy_efficiency_cost_per_kw :: "real option"
  cfg_environmental_compliance_cost_per_unit :: "real option"
  cfg_training_cost_per_technician :: "real option"
  cfg_insurance_cost_pct :: "real option"
  cfg_warranty_cost_pct :: "real option"
  cfg_equipment_value_per_kw :: "real option"

definition js_default :: "'a option \<Rightarrow> 'a \<Rightarrow> 'a" where
  \<comment> \<open>A destructuring default: it replaces \<open>undefined\<close> only.\<close>
  "js_default x d = (case x of None \<Rightarrow> d | Some v \<Rightarrow> v)"

definition labor_rate :: "config \<Rightarrow> real" where
  "labor_rate c = js_default (cfg_labor_rate c) 120"

definition labor_rate_specialist :: "config \<Rightarrow> real" where
  "labor_rate_specialist c = js_default (cfg_labor_rate_specialist c) 180"

definition labor_rate_engineer :: "config \<Rightarrow> real" where
  "labor_rate_engineer c = js_default (cfg_labor_rate_engineer c) 250"

definition analysis_period_years :: "config \<Rightarrow> nat" where
  "analysis_period_years c = js_default (cfg_analysis_period_years c) 20"

definition fuel_cost_per_unit :: "config \<Rightarrow> real" where
  "fuel_cost_per_unit c = js_default (cfg_fuel_cost_per_unit c) 1"

definition downtime_cost_per_hour :: "config \<Rightarrow> real" where
  "downtime_cost_per_hour c = js_default (cfg_downtime_cost_per_hour c) 500"

definition include_fuel_costs :: "config \<Rightarrow> bool" where
  "include_fuel_costs c = js_default (cfg_include_fuel_costs c) True"

definition include_downtime_costs :: "config \<Rightarrow> bool" where
  "include_downtime_costs c = js_default (cfg_include_downtime_costs c) True"

definition component_lifecycles :: "config \<Rightarrow> cfg_component list" where
  "component_lifecycles c = js_default (cfg_component_lifecycles c) []"

definition cfa_partsDiscount :: "config \<Rightarrow> real" where
  "cfa_partsDiscount c = js_default (cfg_parts_discount_pct c) 20 / 100"

definition cfa_overheadMarkup :: "config \<Rightarrow> real" where
  "cfa_overheadMarkup c = js_default (cfg_overhead_markup_pct c) 15 / 100"

definition cfa_discountRate :: "config \<Rightarrow> real" where
  "cfa_discountRate c = js_default (cfg_discount_rate_pct c) 5 / 100"

definition cfa_inflationRate :: "config \<Rightarrow> real" where
  "cfa_inflationRate c = js_default (cfg_inflation_rate_pct c) 3 / 100"

definition cfa_utilization :: "config \<Rightarrow> real" where
  "cfa_utilization c = js_default (cfg_target_utilization_pct c) 75 / 100"

definition cfa_availableHoursPerTech :: "config \<Rightarrow> real" where
  "cfa_availableHoursPerTech c =
     js_default (cfg_working_days_per_year c) 250 * js_default (cfg_hours_per_day c) 8
       * cfa_utilization c"

subsection \<open>Aggregate fleet totals\<close>

definition unit_qty :: "cfg_unit \<Rightarrow> real" where
  "unit_qty u = js_or (cu_quantity u) 1"

definition unit_annual_hours :: "cfg_unit \<Rightarrow> real" where
  "unit_annual_hours u = js_or (cu_annual_hours u) 6500"

definition unit_rate :: "cfg_unit \<Rightarrow> real" where
  \<comment> \<open>\<open>unit.commissioning_rate_per_month || qty\<close>, and in the staffing ramp
      \<open>unit.commissioning_rate_per_month || unit.quantity || 1\<close>, which is the same value.\<close>
  "unit_rate u = js_or (cu_commissioning_rate_per_month u) (unit_qty u)"

definition normalizedFuelRate :: "cfg_unit \<Rightarrow> real" where
  "normalizedFuelRate u =
     (let fuelRate = js_or (cu_fuel_consumption_rate u) 0;
          fuelUnit = js_or_str (cu_fuel_consumption_unit u) ''CFH''
      in if fuelUnit = ''CFH'' then fuelRate / 100 else fuelRate)"

definition cfa_totalUnits :: "config \<Rightarrow> real" where
  "cfa_totalUnits c = sum_list (map unit_qty (cfg_fleet_units c))"

definition weightedAnnualHours :: "config \<Rightarrow> real" where
  "weightedAnnualHours c =
     sum_list (map (\<lambda>u. unit_qty u * unit_annual_hours u) (cfg_fleet_units c))"

definition totalPowerKw :: "config \<Rightarrow> real" where
  "totalPowerKw c =
     sum_list (map (\<lambda>u. unit_qty u * js_or (cu_power_rating_kw u) 0) (cfg_fleet_units c))"

definition maxCommissioningMonths :: "config \<Rightarrow> real" where
  "maxCommissioningMonths c =
     foldl (\<lambda>m u. if unit_rate u > 0 then max m (Math_ceil (unit_qty u / unit_rate u)) else m)
       0 (cfg_fleet_units c)"

definition totalFuelConsumptionPerHour :: "config \<Rightarrow> real" where
  "totalFuelConsumptionPerHour c =
     sum_list (map (\<lambda>u. unit_qty u * normalizedFuelRate u * js_or (cu_duty_cycle u) (75 / 100))
                 (cfg_fleet_units c))"

definition cfa_avgAnnualHours :: "config \<Rightarrow> real" where
  "cfa_avgAnnualHours c =
     (if cfa_totalUnits c > 0 then weightedAnnualHours c / cfa_totalUnits c else 6500)"

definition totalAnnualOperatingHours :: "config \<Rightarrow> real" where
  "totalAnnualOperatingHours c = weightedAnnualHours c"

subsection \<open>PM task cost breakdown\<close>

record cfa_task_row =
  ctr_name :: string
  ctr_status :: string
  ctr_type :: "string option"
  ctr_interval_hours :: "real option"
  ctr_services_per_year :: real
  ctr_labor_hours_per_year :: real
  ctr_labor_cost_per_year :: real
  ctr_parts_cost_per_year :: real
  ctr_total_cost_per_year :: real
  ctr_pct_of_workload :: real

definition task_active :: "cfg_task \<Rightarrow> bool" where
  \<comment> \<open>Neither \<open>task.is_automated\<close> nor \<open>task.enabled === false\<close>: the task is costed.\<close>
  "task_active task \<longleftrightarrow> \<not> ct_is_automated task \<and> ct_enabled task \<noteq> Some False"

definition task_rate :: "config \<Rightarrow> cfg_task \<Rightarrow> real" where
  "task_rate c task =
     (if ct_skill_level task = Some ''engineer'' then labor_rate_engineer c
      else if ct_skill_level task = Some ''specialist'' then labor_rate_specialist c
      else labor_rate c)"

definition cfa_partsPerService :: "config \<Rightarrow> cfg_task \<Rightarrow> real" where
  "cfa_partsPerService c task =
     sum_list (map (\<lambda>part. js_or (cp_unit_price part) 0 * js_or (cp_quantity part) 1
                              * (1 - cfa_partsDiscount c))
                 (ct_parts task))"

definition task_interval :: "cfg_task \<Rightarrow> real" where
  "task_interval task = js_or (ct_interval_hours task) 500"

definition cfa_servicesPerYear :: "config \<Rightarrow> cfg_task \<Rightarrow> real" where
  "cfa_servicesPerYear c task =
     (if \<not> task_active task then 0
      else if ct_is_one_time task then cfa_totalUnits c
      else Math_round (totalAnnualOperatingHours c / task_interval task))"

definition cfa_laborHoursPerYear :: "config \<Rightarrow> cfg_task \<Rightarrow> real" where
  "cfa_laborHoursPerYear c task =
     (if \<not> task_active task then 0
      else if ct_is_one_time task then (cfa_totalUnits c * ct_labor_hours task) / 3
      else cfa_servicesPerYear c task * ct_labor_hours task)"

definition cfa_laborCostPerYear :: "config \<Rightarrow> cfg_task \<Rightarrow> real" where
  "cfa_laborCostPerYear c task = cfa_laborHoursPerYear c task * task_rate c task"

definition cfa_partsCostPerYear :: "config \<Rightarrow> cfg_task \<Rightarrow> real" where
  "cfa_partsCostPerYear c task =
     (if \<not> task_active task then 0
      else if ct_is_one_time task then (cfa_totalUnits c * cfa_partsPerService c task) / 3
      else cfa_servicesPerYear c task * cfa_partsPerService c task)"

definition totalAnnualServices :: "config \<Rightarrow> real" where
  "totalAnnualServices c = sum_list (map (cfa_servicesPerYear c) (cfg_pm_tasks c))"

definition cfa_totalAnnualLaborHours :: "config \<Rightarrow> real" where
  "cfa_totalAnnualLaborHours c = sum_list (map (cfa_laborHoursPerYear c) (cfg_pm_tasks c))"

definition cfa_totalAnnualLaborCost :: "config \<Rightarrow> real" where
  "cfa_totalAnnualLaborCost c = sum_list (map (cfa_laborCostPerYear c) (cfg_pm_tasks c))"

definition cfa_totalAnnualPartsCost :: "config \<Rightarrow> real" where
  "cfa_totalAnnualPartsCost c = sum_list (map (cfa_partsCostPerYear c) (cfg_pm_tasks c))"

definition pct_of_workload :: "config \<Rightarrow> real \<Rightarrow> real" where
  \<comment> \<open>The second pass over the rows, from the rounded \<open>labor_hours_per_year\<close> of the row.\<close>
  "pct_of_workload c row_hours =
     (if cfa_totalAnnualLaborHours c > 0
      then Math_round (row_hours / cfa_totalAnnualLaborHours c * 1000) / 10 else 0)"

definition cfa_task_row_of :: "config \<Rightarrow> cfg_task \<Rightarrow> cfa_task_row" where
  "cfa_task_row_of c task =
     (if ct_is_automated task \<or> ct_enabled task = Some False then
        \<lparr> ctr_name = ct_name task,
          ctr_status = (if ct_is_automated task then ''automated'' else ''disabled''),
          ctr_type = None,
          ctr_interval_hours = ct_interval_hours task,
          ctr_services_per_year = 0,
          ctr_labor_hours_per_year = 0,
          ctr_labor_cost_per_year = 0,
          ctr_parts_cost_per_year = 0,
          ctr_total_cost_per_year = 0,
          ctr_pct_of_workload = pct_of_workload c 0 \<rparr>
      else
        \<lparr> ctr_name = ct_name task,
          ctr_status = ''active'',
          ctr_type = Some (if ct_is_one_time task then ''one-time'' else ''recurring''),
          ctr_interval_hours =
            (if ct_is_one_time task then ct_interval_hours task else Some (task_interval task)),
          ctr_services_per_year = cfa_servicesPerYear c task,
          ctr_labor_hours_per_year = Math_round (cfa_laborHoursPerYear c task * 10) / 10,
          ctr_labor_cost_per_year = Math_round (cfa_laborCostPerYear c task),
          ctr_parts_cost_per_year = Math_round (cfa_partsCostPerYear c task),
          ctr_total_cost_per_year =
            Math_round (cfa_laborCostPerYear c task + cfa_partsCostPerYear c task),
          ctr_pct_of_workload =
            pct_of_workload c (Math_round (cfa_laborHoursPerYear c task * 10) / 10) \<rparr>)"

definition cfa_taskBreakdown :: "config \<Rightarrow> cfa_task_row list" where
  "cfa_taskBreakdown c = map (cfa_task_row_of c) (cfg_pm_tasks c)"

subsection \<open>Overhead and staffing\<close>

definition maintenanceCostBeforeOverhead :: "config \<Rightarrow> real" where
  "maintenanceCostBeforeOverhead c = cfa_totalAnnualLaborCost c + cfa_totalAnnualPartsCost c"

definition cfa_annualOverhead :: "config \<Rightarrow> real" where
  "cfa_annualOverhead c = maintenanceCostBeforeOverhead c * cfa_overheadMarkup c"

definition cfa_totalAnnualMaintenanceCost :: "config \<Rightarrow> real" where
  "cfa_totalAnnualMaintenanceCost c = maintenanceCostBeforeOverhead c + cfa_annualOverhead c"

definition techsRequired :: "config \<Rightarrow> real" where
  "techsRequired c =
     (if cfa_availableHoursPerTech c > 0
      then Math_ceil (cfa_totalAnnualLaborHours c / cfa_availableHoursPerTech c * (115 / 100))
      else 0)"

subsection \<open>Staffing ramp timeline\<close>

fun string_of_nat :: "nat \<Rightarrow> string" where
  "string_of_nat n =
     (if n < 10 then [char_of (48 + n)]
      else string_of_nat (n div 10) @ [char_of (48 + n mod 10)])"

declare string_of_nat.simps [simp del]

record timeline_row =
  tl_month :: nat
  tl_label :: string
  tl_units_active :: real
  tl_technicians :: real

definition rampMonths :: "config \<Rightarrow> real" where
  "rampMonths c = min 36 (max 12 (maxCommissioningMonths c + 6))"

definition unitsActive :: "config \<Rightarrow> nat \<Rightarrow> real" where
  "unitsActive c m =
     sum_list (map (\<lambda>u. min (unit_qty u) (unit_rate u * real m)) (cfg_fleet_units c))"

definition proportionalTechs :: "config \<Rightarrow> nat \<Rightarrow> real" where
  "proportionalTechs c m =
     (if cfa_totalUnits c > 0
      then Math_ceil ((unitsActive c m / cfa_totalUnits c) * techsRequired c) else 0)"

definition staffingTimeline :: "config \<Rightarrow> timeline_row list" where
  \<comment> \<open>\<open>for (let m = 1; m <= rampMonths; m++)\<close>\<close>
  "staffingTimeline c =
     map (\<lambda>m. \<lparr> tl_month = m,
                 tl_label = ''Month '' @ string_of_nat m,
                 tl_units_active = unitsActive c m,
                 tl_technicians = proportionalTechs c m \<rparr>)
       [1 ..< Suc (nat \<lfloor>rampMonths c\<rfloor>)]"

subsection \<open>Fuel, downtime and the further cost categories\<close>

definition cfa_annualFuelCost :: "config \<Rightarrow> real" where
  "cfa_annualFuelCost c =
     (if include_fuel_costs c
      then totalFuelConsumptionPerHour c * cfa_avgAnnualHours c * fuel_cost_per_unit c
      else 0)"

definition estimatedDowntimeHours :: "config \<Rightarrow> real" where
  "estimatedDowntimeHours c = totalAnnualOperatingHours c * (2 / 100)"

definition cfa_annualDowntimeCost :: "config \<Rightarrow> real" where
  "cfa_annualDowntimeCost c =
     (if include_downtime_costs c
      then estimatedDowntimeHours c * downtime_cost_per_hour c else 0)"

definition annualEnergyEfficiencyCost :: "config \<Rightarrow> real" where
  "annualEnergyEfficiencyCost c =
     totalPowerKw c * js_default (cfg_energy_efficiency_cost_per_kw c) (2 / 100)"

definition annualEnvironmentalComplianceCost :: "config \<Rightarrow> real" where
  "annualEnvironmentalComplianceCost c =
     cfa_totalUnits c * js_default (cfg_environmental_compliance_cost_per_unit c) 50"

definition annualTrainingCost :: "config \<Rightarrow> real" where
  "annualTrainingCost c =
     techsRequired c * js_default (cfg_training_cost_per_technician c) 2000"

definition totalEquipmentValue :: "config \<Rightarrow> real" where
  "totalEquipmentValue c = totalPowerKw c * js_default (cfg_equipment_value_per_kw c) 1000"

definition annualInsuranceCost :: "config \<Rightarrow> real" where
  "annualInsuranceCost c =
     totalEquipmentValue c * (js_default (cfg_insurance_cost_pct c) (15 / 10) / 100)"

definition annualWarrantyCost :: "config \<Rightarrow> real" where
  "annualWarrantyCost c =
     totalEquipmentValue c * (js_default (cfg_warranty_cost_pct c) (5 / 10) / 100)"

subsection \<open>Component replacement costs\<close>

record cfa_schedule_entry =
  cse_year :: int
  cse_cost :: real

record cfa_component_replacement =
  ccr_component_name :: string
  ccr_category :: string
  ccr_expected_life_hours :: real
  ccr_years_to_replacement :: real
  ccr_replacements_in_period :: int
  ccr_cost_per_replacement :: real
  ccr_total_cost :: real
  ccr_schedule :: "cfa_schedule_entry list"

definition lifeHours :: "cfg_component \<Rightarrow> real" where
  "lifeHours component = js_or (cc_expected_life_hours component) 50000"

definition yearsToReplacement :: "config \<Rightarrow> cfg_component \<Rightarrow> real" where
  \<comment> \<open>The average annual hours of a fleet of valid units are positive.\<close>
  "yearsToReplacement c component = lifeHours component / cfa_avgAnnualHours c"

definition replacementsInPeriod :: "config \<Rightarrow> cfg_component \<Rightarrow> int" where
  "replacementsInPeriod c component =
     \<lfloor>real (analysis_period_years c) / yearsToReplacement c component\<rfloor>"

definition totalPerReplacement :: "config \<Rightarrow> cfg_component \<Rightarrow> real" where
  "totalPerReplacement c component =
     js_or (cc_replacement_cost component) 0
       + js_or (cc_replacement_labor_hours component) 8 * labor_rate c"

definition cfa_schedule_of :: "config \<Rightarrow> cfg_component \<Rightarrow> cfa_schedule_entry list" where
  \<comment> \<open>\<open>for (let r = 1; r <= replacementsInPeriod; r++)\<close>, keeping the years within the
      analysis period.\<close>
  "cfa_schedule_of c component =
     map (\<lambda>year. \<lparr> cse_year = year, cse_cost = totalPerReplacement c component \<rparr>)
       (filter (\<lambda>year. year \<le> int (analysis_period_years c))
          (map (\<lambda>r. \<lceil>yearsToReplacement c component * real r\<rceil>)
             [1 ..< Suc (nat (replacementsInPeriod c component))]))"

definition cfa_component_replacement_of :: "config \<Rightarrow> cfg_component \<Rightarrow> cfa_component_replacement" where
  "cfa_component_replacement_of c component =
     \<lparr> ccr_component_name = cc_component_name component,
       ccr_category = cc_category component,
       ccr_expected_life_hours = lifeHours component,
       ccr_years_to_replacement = Math_round (yearsToReplacement c component * 10) / 10,
       ccr_replacements_in_period = replacementsInPeriod c component,
       ccr_cost_per_replacement = Math_round (totalPerReplacement c component),
       ccr_total_cost =
         Math_round (totalPerReplacement c component * of_int (replacementsInPeriod c component)
                       * cfa_totalUnits c),
       ccr_schedule = cfa_schedule_of c component \<rparr>"

definition cfa_componentReplacements :: "config \<Rightarrow> cfa_component_replacement list" where
  "cfa_componentReplacements c = map (cfa_component_replacement_of c) (component_lifecycles c)"

subsection \<open>Year-by-year projection\<close>

record cfa_projection_row =
  cpr_year :: nat
  cpr_maintenance :: real
  cpr_fuel :: real
  cpr_downtime :: real
  cpr_replacements :: real
  cpr_total :: real
  cpr_cumulative :: real
  cpr_npv_cumulative :: real

definition inflationFactor :: "config \<Rightarrow> nat \<Rightarrow> real" where
  "inflationFactor c year = (1 + cfa_inflationRate c) ^ (year - 1)"

definition discountFactor :: "config \<Rightarrow> nat \<Rightarrow> real" where
  "discountFactor c year = (1 + cfa_discountRate c) ^ year"

definition maintenance :: "config \<Rightarrow> nat \<Rightarrow> real" where
  "maintenance c year = cfa_totalAnnualMaintenanceCost c * inflationFactor c year"

definition fuel :: "config \<Rightarrow> nat \<Rightarrow> real" where
  "fuel c year = cfa_annualFuelCost c * inflationFactor c year"

definition downtime :: "config \<Rightarrow> nat \<Rightarrow> real" where
  "downtime c year = cfa_annualDowntimeCost c * inflationFactor c year"

definition replacements :: "config \<Rightarrow> nat \<Rightarrow> real" where
  "replacements c year =
     sum_list (map (\<lambda>component.
                      sum_list (map (\<lambda>s. cse_cost s * cfa_totalUnits c * inflationFactor c year)
                                  (filter (\<lambda>s. cse_year s = int year) (ccr_schedule component))))
                 (cfa_componentReplacements c))"

definition yearTotal :: "config \<Rightarrow> nat \<Rightarrow> real" where
  "yearTotal c year = maintenance c year + fuel c year + downtime c year + replacements c year"

fun cfa_projection_loop ::
  "config \<Rightarrow> nat list \<Rightarrow> real \<Rightarrow> real \<Rightarrow> cfa_projection_row list \<times> real \<times> real" where
  "cfa_projection_loop c [] cumulative npvAcc = ([], cumulative, npvAcc)"
| "cfa_projection_loop c (year # years) cumulative npvAcc =
     (let cumulative' = cumulative + yearTotal c year;
          npvAcc' = npvAcc + yearTotal c year / discountFactor c year;
          row = \<lparr> cpr_year = year,
                  cpr_maintenance = Math_round (maintenance c year),
                  cpr_fuel = Math_round (fuel c year),
                  cpr_downtime = Math_round (downtime c year),
                  cpr_replacements = Math_round (replacements c year),
                  cpr_total = Math_round (yearTotal c year),
                  cpr_cumulative = Math_round cumulative',
                  cpr_npv_cumulative = Math_round npvAcc' \<rparr>;
          (rows, cc, n) = cfa_projection_loop c years cumulative' npvAcc'
      in (row # rows, cc, n))"

definition cfa_projection :: "config \<Rightarrow> cfa_projection_row list \<times> real \<times> real" where
  "cfa_projection c = cfa_projection_loop c [1 ..< Suc (analysis_period_years c)] 0 0"

definition yearlyProjection :: "config \<Rightarrow> cfa_projection_row list" where
  "yearlyProjection c = fst (cfa_projection c)"

definition npv :: "config \<Rightarrow> real" where
  "npv c = snd (snd (cfa_projection c))"

subsection \<open>Key figures and the result\<close>

definition annualEnergyKwh :: "config \<Rightarrow> real" where
  "annualEnergyKwh c = totalPowerKw c * cfa_avgAnnualHours c * (75 / 100)"

definition cfa_costPerKwh :: "config \<Rightarrow> real" where
  "cfa_costPerKwh c =
     (if annualEnergyKwh c > 0 then cfa_totalAnnualMaintenanceCost c / annualEnergyKwh c else 0)"

definition costPerOperatingHour :: "config \<Rightarrow> real" where
  "costPerOperatingHour c =
     (if totalAnnualOperatingHours c > 0
      then cfa_totalAnnualMaintenanceCost c / totalAnnualOperatingHours c else 0)"

definition costBreakdown :: "config \<Rightarrow> (string \<times> real) list" where
  "costBreakdown c =
     [(''Labor'', Math_round (cfa_totalAnnualLaborCost c)),
      (''Parts'', Math_round (cfa_totalAnnualPartsCost c)),
      (''Overhead'', Math_round (cfa_annualOverhead c))]
     @ (if include_fuel_costs c \<and> cfa_annualFuelCost c > 0
        then [(''Fuel'', Math_round (cfa_annualFuelCost c))] else [])
     @ (if include_downtime_costs c \<and> cfa_annualDowntimeCost c > 0
        then [(''Est. Downtime'', Math_round (cfa_annualDowntimeCost c))] else [])
     @ (if annualEnergyEfficiencyCost c > 0
        then [(''Energy Efficiency'', Math_round (annualEnergyEfficiencyCost c))] else [])
     @ (if annualEnvironmentalComplianceCost c > 0
        then [(''Environmental Compliance'', Math_round (annualEnvironmentalComplianceCost c))]
        else [])
     @ (if annualTrainingCost c > 0
        then [(''Training & Certification'', Math_round (annualTrainingCost c))] else [])
     @ (if annualInsuranceCost c > 0
        then [(''Insurance'', Math_round (annualInsuranceCost c))] else [])
     @ (if annualWarrantyCost c > 0
        then [(''Warranty'', Math_round (annualWarrantyCost c))] else [])"

record summary =
  su_total_units :: real
  su_avg_annual_hours :: real
  su_total_annual_operating_hours :: real
  su_total_power_kw :: real
  su_annual_maintenance_cost :: real
  su_annual_labor_cost :: real
  su_annual_parts_cost :: real
  su_annual_overhead :: real
  su_annual_fuel_cost :: real
  su_annual_downtime_cost :: real
  su_annual_energy_efficiency_cost :: real
  su_annual_environmental_compliance_cost :: real
  su_annual_training_cost :: real
  su_annual_insurance_cost :: real
  su_annual_warranty_cost :: real
  su_annual_total_cost :: real
  su_cost_per_kwh :: real
  su_cost_per_operating_hour :: real
  su_technicians_required :: real
  su_annual_services :: real
  su_total_labor_hours :: real
  su_npv_total_cost :: real
  su_analysis_period_years :: nat

record full_analysis =
  fa_summary :: summary
  fa_task_breakdown :: "cfa_task_row list"
  fa_cost_breakdown :: "(string \<times> real) list"
  fa_yearly_projection :: "cfa_projection_row list"
  fa_staffing_timeline :: "timeline_row list"
  fa_component_replacements :: "cfa_component_replacement list"

definition summary_of :: "config \<Rightarrow> summary" where
  "summary_of c =
     \<lparr> su_total_units = cfa_totalUnits c,
       su_avg_annual_hours = Math_round (cfa_avgAnnualHours c),
       su_total_annual_operating_hours = Math_round (totalAnnualOperatingHours c),
       su_total_power_kw = Math_round (totalPowerKw c),
       su_annual_maintenance_cost = Math_round (cfa_totalAnnualMaintenanceCost c),
       su_annual_labor_cost = Math_round (cfa_totalAnnualLaborCost c),
       su_annual_parts_cost = Math_round (cfa_totalAnnualPartsCost c),
       su_annual_overhead = Math_round (cfa_annualOverhead c),
       su_annual_fuel_cost = Math_round (cfa_annualFuelCost c),
       su_annual_downtime_cost = Math_round (cfa_annualDowntimeCost c),
       su_annual_energy_efficiency_cost = Math_round (annualEnergyEfficiencyCost c),
       su_annual_environmental_compliance_cost =
         Math_round (annualEnvironmentalComplianceCost c),
       su_annual_training_cost = Math_round (annualTrainingCost c),
       su_annual_insurance_cost = Math_round (annualInsuranceCost c),
       su_annual_warranty_cost = Math_round (annualWarrantyCost c),
       su_annual_total_cost =
         Math_round (cfa_totalAnnualMaintenanceCost c + cfa_annualFuelCost c
                       + cfa_annualDowntimeCost c + annualEnergyEfficiencyCost c
                       + annualEnvironmentalComplianceCost c + annualTrainingCost c
                       + annualInsuranceCost c + annualWarrantyCost c),
       su_cost_per_kwh = Math_round (cfa_costPerKwh c * 10000) / 10000,
       su_cost_per_operating_hour = Math_round (costPerOperatingHour c * 100) / 100,
       su_technicians_required = techsRequired c,
       su_annual_services = totalAnnualServices c,
       su_total_labor_hours = Math_round (cfa_totalAnnualLaborHours c),
       su_npv_total_cost = Math_round (npv c),
       su_analysis_period_years = analysis_period_years c \<rparr>"

definition calculateFullAnalysis :: "config \<Rightarrow> full_analysis" where
  "calculateFullAnalysis c =
     \<lparr> fa_summary = summary_of c,
       fa_task_breakdown = cfa_taskBreakdown c,
       fa_cost_breakdown = costBreakdown c,
       fa_yearly_projection = yearlyProjection c,
       fa_staffing_timeline = staffingTimeline c,
       fa_component_replacements = cfa_componentReplacements c \<rparr>"

section \<open>The reliability model (Weibull curves and the replacement interval)\<close>

text \<open>
  \<open>Math.pow\<close>, \<open>Math.exp\<close>, \<open>Math.sqrt\<close> and \<open>Math.sin\<close> are the functions of real analysis;
  \<open>Math.pow(x, y)\<close> is \<open>x powr y\<close>, which is the power of the source for a positive base.
  The source has no \<open>throw\<close>: in the result type \<open>js_error + 'a\<close> of the two operations,
  \<open>Inl\<close> stands for a thrown error and no branch of the model builds it.
\<close>

datatype js_error = Error string

definition weibullPDF :: "real \<Rightarrow> real \<Rightarrow> real \<Rightarrow> real" where
  "weibullPDF t beta eta =
     (if t \<le> 0 then 0
      else (beta / eta) * ((t / eta) powr (beta - 1)) * exp (- ((t / eta) powr beta)))"

definition weibullCDF :: "real \<Rightarrow> real \<Rightarrow> real \<Rightarrow> real" where
  "weibullCDF t beta eta = (if t \<le> 0 then 0 else 1 - exp (- ((t / eta) powr beta)))"

definition weibullReliability :: "real \<Rightarrow> real \<Rightarrow> real \<Rightarrow> real" where
  "weibullReliability t beta eta = 1 - weibullCDF t beta eta"

definition lanczos_c :: "real list" where
  "lanczos_c =
     [0.99999999999980993, 676.5203681218851, - 1259.1392167224028,
      771.32342877765313, - 176.61502916214059, 12.507343278686905,
      - 0.13857109526572012, 0.0000099843695780195716, 0.00000015056327351493116]"

definition lanczos_x :: "real \<Rightarrow> real" where
  \<comment> \<open>\<open>let x = c[0]; for (let i = 1; i < g + 2; i++) x += c[i] / (z + i)\<close> with \<open>g = 7\<close>\<close>
  "lanczos_x z = foldl (\<lambda>x i. x + lanczos_c ! i / (z + real i)) (lanczos_c ! 0) [1 ..< 7 + 2]"

function gammaFunction :: "real \<Rightarrow> real" where
  "gammaFunction z =
     (if z < 1 / 2 then pi / (sin (pi * z) * gammaFunction (1 - z))
      else (let z' = z - 1;
                x = lanczos_x z';
                t = z' + 7 + 1 / 2
            in sqrt (2 * pi) * (t powr (z' + 1 / 2)) * exp (- t) * x))"
  by pat_completeness auto
termination
  by (relation "measure (\<lambda>z. if z < 1 / 2 then 1 else 0)") auto

declare gammaFunction.simps [simp del]

record curve_point =
  pt_hours :: real
  pt_failure_probability :: real
  pt_reliability :: real
  pt_failure_rate :: real

record curve_parameters =
  cpa_beta :: real
  cpa_eta :: real
  cpa_mean_life :: real
  cpa_b10_life :: real
  cpa_b50_life :: real

record failure_curve =
  fc_curve :: "curve_point list"
  fc_parameters :: curve_parameters

definition weibull_eta :: "real \<Rightarrow> real \<Rightarrow> real" where
  \<comment> \<open>\<open>eta = expectedLifeHours / gammaFunction(1 + 1 / beta)\<close>\<close>
  "weibull_eta expectedLifeHours beta = expectedLifeHours / gammaFunction (1 + 1 / beta)"

definition b10_unrounded :: "real \<Rightarrow> real \<Rightarrow> real" where
  "b10_unrounded expectedLifeHours beta =
     weibull_eta expectedLifeHours beta * (0.1054 powr (1 / beta))"

definition b50_unrounded :: "real \<Rightarrow> real \<Rightarrow> real" where
  "b50_unrounded expectedLifeHours beta =
     weibull_eta expectedLifeHours beta * (0.6931 powr (1 / beta))"

definition curve_point_of :: "real \<Rightarrow> real \<Rightarrow> real \<Rightarrow> nat \<Rightarrow> curve_point" where
  "curve_point_of beta eta step i =
     (let t = real i * step in
      \<lparr> pt_hours = Math_round t,
        pt_failure_probability = Math_round (weibullCDF t beta eta * 10000) / 10000,
        pt_reliability = Math_round (weibullReliability t beta eta * 10000) / 10000,
        pt_failure_rate = Math_round (weibullPDF t beta eta * 1000000) / 1000000 \<rparr>)"

definition generateFailureCurve ::
  "real \<Rightarrow> real option \<Rightarrow> nat option \<Rightarrow> js_error + failure_curve" where
  "generateFailureCurve expectedLifeHours weibullShape points =
     (let beta = js_default weibullShape (5 / 2);
          n = js_default points 50;
          eta = weibull_eta expectedLifeHours beta;
          maxTime = expectedLifeHours * 2;
          step = maxTime / real n
      in Inr \<lparr> fc_curve = map (curve_point_of beta eta step) [0 ..< Suc n],
               fc_parameters =
                 \<lparr> cpa_beta = beta,
                   cpa_eta = Math_round eta,
                   cpa_mean_life = expectedLifeHours,
                   cpa_b10_life = Math_round (b10_unrounded expectedLifeHours beta),
                   cpa_b50_life = Math_round (b50_unrounded expectedLifeHours beta) \<rparr> \<rparr>)"

text \<open>
  The search loop of \<open>optimalReplacementInterval\<close>,
  \<open>for (let t = step; t <= expectedLifeHours * 1.5; t += step)\<close>. The best cost rate
  starts at \<open>Infinity\<close>, which is \<open>None\<close>; a loop that does not end is the value \<open>None\<close> of
  the search.
\<close>

definition costRate :: "real \<Rightarrow> real \<Rightarrow> real \<Rightarrow> real \<Rightarrow> real \<Rightarrow> real" where
  "costRate beta eta plannedCost unplannedCost t =
     (let pf = weibullCDF t beta eta;
          ps = 1 - pf;
          expectedCost = plannedCost * ps + unplannedCost * pf;
          expectedLength = t * ps + (t / 2) * pf
      in expectedCost / expectedLength)"

definition better :: "real \<Rightarrow> real option \<Rightarrow> bool" where
  \<comment> \<open>\<open>costRate < bestCostRate\<close>\<close>
  "better r best = (case best of None \<Rightarrow> True | Some b \<Rightarrow> r < b)"

partial_function (option) search_loop ::
  "real \<Rightarrow> real \<Rightarrow> real \<Rightarrow> real \<Rightarrow> real \<Rightarrow> real \<Rightarrow> real \<Rightarrow> real \<times> real option
     \<Rightarrow> (real \<times> real option) option" where
  "search_loop expectedLifeHours beta eta plannedCost unplannedCost step t best =
     (if t \<le> expectedLifeHours * (3 / 2)
      then search_loop expectedLifeHours beta eta plannedCost unplannedCost step (t + step)
             (if better (costRate beta eta plannedCost unplannedCost t) (snd best)
              then (t, Some (costRate beta eta plannedCost unplannedCost t)) else best)
      else Some best)"

record replacement_interval =
  ri_optimal_interval_hours :: real
  ri_cost_per_hour :: "real option"
  ri_vs_oem_interval :: real

definition optimalReplacementInterval ::
  "real \<Rightarrow> real \<Rightarrow> real \<Rightarrow> real option \<Rightarrow> (js_error + replacement_interval) option" where
  "optimalReplacementInterval expectedLifeHours weibullShape plannedCost unplannedCostMultiplier =
     (let beta = weibullShape;
          eta = weibull_eta expectedLifeHours beta;
          unplannedCost = plannedCost * js_default unplannedCostMultiplier 3;
          step = expectedLifeHours / 100
      in case search_loop expectedLifeHours beta eta plannedCost unplannedCost step step
                (expectedLifeHours, None) of
           None \<Rightarrow> None
         | Some (bestInterval, bestCostRate) \<Rightarrow>
             Some (Inr \<lparr> ri_optimal_interval_hours = Math_round bestInterval,
                         ri_cost_per_hour =
                           map_option (\<lambda>r. Math_round (r * 10000) / 10000) bestCostRate,
                         ri_vs_oem_interval =
                           Math_round ((bestInterval / expectedLifeHours) * 100) \<rparr>))"

section \<open>Example inputs\<close>

text \<open>
  Concrete inputs on which the theorems below are evaluated: the scenario carries the
  defaults of the quick calculation, the unit is ten generators of the seeded model
  \<open>PSI-8.8L-NG-100\<close>, whose fuel consumption rates are given in cubic feet per hour.
\<close>

definition demo_scenario :: scenario where
  "demo_scenario =
     \<lparr> sc_id = Some 1, sc_name = ''Baseline'', sc_fleet_name = Some ''Fleet A'',
       sc_analysis_period_years = 20,
       sc_labor_rate = 120, sc_labor_rate_specialist = 180, sc_labor_rate_engineer = 250,
       sc_parts_discount_pct = 20, sc_overhead_markup_pct = 15,
       sc_working_days_per_year = 250, sc_hours_per_day = 8, sc_target_utilization_pct = 75,
       sc_discount_rate_pct = 5, sc_inflation_rate_pct = 3,
       sc_fuel_cost_per_unit = 1, sc_downtime_cost_per_hour = 500,
       sc_include_fuel_costs = True, sc_include_downtime_costs = True \<rparr>"

definition demo_unit :: fleet_unit where
  "demo_unit =
     \<lparr> fu_equipment_model_id = 1, fu_unit_name = Some ''Site 1'',
       fu_model_number = ''PSI-8.8L-NG-100'', fu_quantity = 10, fu_power_rating_kw = 100,
       fu_application_type = Some ''prime'', fu_annual_hours = None,
       fu_default_annual_hours_standby = Some 200, fu_default_annual_hours_prime = Some 6500,
       fu_default_annual_hours_ltp = Some 4000, fu_default_annual_hours_continuous = Some 8760,
       fu_duty_cycle = Some (9 / 10),
       fu_fuel_consumption_rate_full = Some 1050, fu_fuel_consumption_rate_75 = Some 790,
       fu_fuel_consumption_rate_50 = Some 530, fu_fuel_consumption_unit = Some ''CFH'',
       fu_commissioning_rate_per_month = Some 2 \<rparr>"

definition demo_task :: pm_task where
  "demo_task =
     \<lparr> t_id = Some 1, t_name = ''Commissioning inspection'', t_skill_level = Some ''technician'',
       t_is_one_time = True, t_interval_hours = None, t_interval_months = None,
       t_labor_hours = 2, t_parts = [] \<rparr>"

definition demo_lifecycle :: component_lifecycle where
  "demo_lifecycle =
     \<lparr> cl_equipment_model_id = 1, cl_component_name = ''Spark plugs'', cl_category = ''ignition'',
       cl_expected_life_hours = 8760, cl_replacement_labor_hours = 2,
       cl_criticality = ''medium'' \<rparr>"

definition demo_data :: analysis_data where
  "demo_data =
     \<lparr> d_scenario = demo_scenario, d_fleetUnits = [demo_unit], d_pmTasks = [demo_task],
       d_priceMap = Map.empty, d_componentLifecycles = [demo_lifecycle] \<rparr>"

definition demo_cfg_unit :: cfg_unit where
  "demo_cfg_unit =
     \<lparr> cu_quantity = Some 10, cu_annual_hours = Some 6500, cu_duty_cycle = Some (9 / 10),
       cu_commissioning_rate_per_month = Some 2, cu_fuel_consumption_rate = Some 790,
       cu_fuel_consumption_unit = Some ''CFH'', cu_power_rating_kw = Some 100 \<rparr>"

definition demo_cfg_task :: cfg_task where
  "demo_cfg_task =
     \<lparr> ct_name = ''Commissioning inspection'', ct_interval_hours = None, ct_labor_hours = 2,
       ct_skill_level = Some ''technician'', ct_is_one_time = True, ct_is_automated = False,
       ct_enabled = Some True, ct_parts = [] \<rparr>"

definition demo_cfg_component :: cfg_component where
  "demo_cfg_component =
     \<lparr> cc_component_name = ''Spark plugs'', cc_category = ''ignition'',
       cc_expected_life_hours = Some 8760, cc_replacement_labor_hours = Some 2,
       cc_replacement_cost = Some 400 \<rparr>"

definition demo_config :: config where
  "demo_config =
     \<lparr> cfg_fleet_units = [demo_cfg_unit], cfg_pm_tasks = [demo_cfg_task],
       cfg_labor_rate = Some 100, cfg_labor_rate_specialist = None,
       cfg_labor_rate_engineer = None, cfg_parts_discount_pct = None,
       cfg_overhead_markup_pct = None, cfg_working_days_per_year = None,
       cfg_hours_per_day = None, cfg_target_utilization_pct = None,
       cfg_analysis_period_years = None, cfg_discount_rate_pct = None,
       cfg_inflation_rate_pct = None, cfg_fuel_cost_per_unit = None,
       cfg_downtime_cost_per_hour = None, cfg_include_fuel_costs = None,
       cfg_include_downtime_costs = None, cfg_component_lifecycles = Some [demo_cfg_component],
       cfg_energy_efficiency_cost_per_kw = None,
       cfg_environmental_compliance_cost_per_unit = None,
       cfg_training_cost_per_technician = None, cfg_insurance_cost_pct = None,
       cfg_warranty_cost_pct = None, cfg_equipment_value_per_kw = None \<rparr>"

definition demo_yearly_unit :: fleet_unit where
  \<comment> \<open>The unit run for 8760 hours a year.\<close>
  "demo_yearly_unit = demo_unit\<lparr>fu_annual_hours := Some 8760\<rparr>"

definition demo_yearly_data :: analysis_data where
  "demo_yearly_data = demo_data\<lparr>d_fleetUnits := [demo_yearly_unit]\<rparr>"

definition demo_yearly_config :: config where
  "demo_yearly_config =
     demo_config\<lparr>cfg_fleet_units := [demo_cfg_unit\<lparr>cu_annual_hours := Some 8760\<rparr>]\<rparr>"

definition demo_hours_task :: pm_task where
  \<comment> \<open>A recurring task with an interval of 500 operating hours.\<close>
  "demo_hours_task =
     demo_task\<lparr>t_name := ''Oil service'', t_is_one_time := False, t_interval_hours := Some 500\<rparr>"

definition demo_cfg_hours_task :: cfg_task where
  "demo_cfg_hours_task =
     demo_cfg_task\<lparr>ct_name := ''Oil service'', ct_is_one_time := False,
                     ct_interval_hours := Some 500\<rparr>"

definition demo_single_config :: config where
  \<comment> \<open>One unit run for 6600 hours a year.\<close>
  "demo_single_config =
     demo_config\<lparr>cfg_fleet_units :=
                   [demo_cfg_unit\<lparr>cu_quantity := Some 1, cu_annual_hours := Some 6600\<rparr>]\<rparr>"

definition demo_flat_scenario :: "string \<Rightarrow> real \<Rightarrow> scenario" where
  \<comment> \<open>One year, no inflation, discounting, overhead, fuel or downtime, at the given labor rate.\<close>
  "demo_flat_scenario name rate =
     demo_scenario\<lparr>sc_name := name, sc_analysis_period_years := 1, sc_labor_rate := rate,
                    sc_overhead_markup_pct := 0, sc_discount_rate_pct := 0,
                    sc_inflation_rate_pct := 0, sc_include_fuel_costs := False,
                    sc_include_downtime_costs := False\<rparr>"

definition demo_flat_data :: "string \<Rightarrow> real \<Rightarrow> analysis_data" where
  \<comment> \<open>A single unit with a one-time task of one labor hour: the cost of the run is the labor rate.\<close>
  "demo_flat_data name rate =
     \<lparr> d_scenario = demo_flat_scenario name rate,
       d_fleetUnits = [demo_unit\<lparr>fu_quantity := 1\<rparr>],
       d_pmTasks = [demo_task\<lparr>t_labor_hours := 1\<rparr>],
       d_priceMap = Map.empty, d_componentLifecycles = [] \<rparr>"

definition demo_now :: string where
  "demo_now = ''2026-11-03T09:00:00.000Z''"

definition demo_overhead_data :: analysis_data where
  \<comment> \<open>Ten units, the one-time task of two labor hours at a rate of 100, over two years
      without inflation; the overhead markup is the 15 per cent of the scenario.\<close>
  "demo_overhead_data =
     demo_data\<lparr>d_scenario :=
                 demo_scenario\<lparr>sc_labor_rate := 100, sc_analysis_period_years := 2,
                                sc_inflation_rate_pct := 0\<rparr>\<rparr>"



definition demo_slow_config :: config where
  \<comment> \<open>31 units commissioned one a month: a commissioning horizon of 31 months.\<close>
  "demo_slow_config =
     demo_config\<lparr>cfg_fleet_units :=
                   [demo_cfg_unit\<lparr>cu_quantity := Some 31,
                                   cu_commissioning_rate_per_month := Some 1\<rparr>]\<rparr>"

definition demo_long_config :: config where
  \<comment> \<open>100 units commissioned two a month: a commissioning horizon of 50 months.\<close>
  "demo_long_config =
     demo_config\<lparr>cfg_fleet_units := [demo_cfg_unit\<lparr>cu_quantity := Some 100\<rparr>]\<rparr>"

section \<open>Shared lemmas\<close>

lemmas js_defs = js_or_def js_or_opt_def js_or_str_def js_default_def

lemmas round_defs = Math_round_def Math_ceil_def Math_floor_def round2_def

lemma replacementYears_yearly:
  assumes "unit_hours u = h" "cl_expected_life_hours lifecycle = h" "h > 0"
  shows "replacementYears d lifecycle u = map (\<lambda>r. (r, int r)) [1 ..< Suc (analysisPeriod d)]"
proof -
  have ypr: "yearsPerReplacement lifecycle u = 1"
    using assms by (simp add: yearsPerReplacement_def)
  have rop: "replacementsOverPeriod d lifecycle u = int (analysisPeriod d)"
    by (simp add: replacementsOverPeriod_def ypr)
  show ?thesis
    unfolding replacementYears_def ypr rop
    by (auto simp add: takeWhile_eq_all_conv simp del: upt_Suc)
qed

lemma schedule_of_yearly:
  assumes "unit_hours u = h" "cl_expected_life_hours lifecycle = h" "h > 0"
  shows "map se_year (schedule_of d lifecycle u) = map int [1 ..< Suc (analysisPeriod d)]"
    and "map se_replacement_number (schedule_of d lifecycle u) = [1 ..< Suc (analysisPeriod d)]"
  by (simp_all add: schedule_of_def replacementYears_yearly [OF assms] comp_def map_idI
      del: upt_Suc)

lemma cfa_schedule_of_yearly:
  assumes "cfa_avgAnnualHours c = h" "lifeHours component = h" "h > 0"
  shows "map cse_year (cfa_schedule_of c component) = map int [1 ..< Suc (analysis_period_years c)]"
proof -
  have ytr: "yearsToReplacement c component = 1"
    using assms by (simp add: yearsToReplacement_def)
  have rip: "replacementsInPeriod c component = int (analysis_period_years c)"
    by (simp add: replacementsInPeriod_def ytr)
  have "filter (\<lambda>year. year \<le> int (analysis_period_years c))
          (map int [1 ..< Suc (analysis_period_years c)])
        = map int [1 ..< Suc (analysis_period_years c)]"
    by (rule filter_True) auto
  then show ?thesis
    by (simp add: cfa_schedule_of_def ytr rip comp_def del: upt_Suc)
qed

lemma demo_yearly_hours: "unit_hours demo_yearly_unit = 8760"
  by (simp add: unit_hours_def demo_yearly_unit_def demo_unit_def js_or_def)

lemma demo_yearly_avg: "cfa_avgAnnualHours demo_yearly_config = 8760"
  by (simp add: cfa_avgAnnualHours_def cfa_totalUnits_def weightedAnnualHours_def
      demo_yearly_config_def demo_config_def demo_cfg_unit_def unit_qty_def
      unit_annual_hours_def js_or_def)

section \<open>Figures of the example inputs\<close>

lemma demo_totalUnits: "totalUnits demo_data = 10"
  by (simp add: totalUnits_def demo_data_def demo_unit_def)

lemma demo_unit_hours: "unit_hours demo_unit = 6500"
  by (simp add: unit_hours_def getDefaultHours_def default_hours_field_def demo_unit_def js_defs)

lemma demo_avgAnnualHours: "avgAnnualHours demo_data = 6500"
  by (simp add: avgAnnualHours_def totalWeightedHours_def demo_totalUnits demo_unit_hours)
     (simp add: demo_data_def demo_unit_hours, simp add: demo_unit_def)

lemma demo_cfa_totalUnits: "cfa_totalUnits demo_config = 10"
  by (simp add: cfa_totalUnits_def demo_config_def demo_cfg_unit_def unit_qty_def js_defs)

lemma demo_weightedAnnualHours: "weightedAnnualHours demo_config = 65000"
  by (simp add: weightedAnnualHours_def demo_config_def demo_cfg_unit_def unit_qty_def
      unit_annual_hours_def js_defs)

lemma demo_cfa_avgAnnualHours: "cfa_avgAnnualHours demo_config = 6500"
  by (simp add: cfa_avgAnnualHours_def demo_cfa_totalUnits demo_weightedAnnualHours)

section \<open>C1: the replacement schedule at the horizon\<close>

text \<open>
  Claim C1 as stated (19 events for a life of 8760 hours at 8760 hours a year over 20
  years) fails on both engines: the event of year 20 is kept, since the loop of
  \<open>runAnalysis\<close> leaves only at \<open>year > analysisPeriod\<close> and \<open>calculateFullAnalysis\<close> keeps
  \<open>year <= analysis_period_years\<close>. On the example the schedule has 20 entries and its last
  entry is the one of year 20.
\<close>

theorem C1_nineteen_events_counterexample:
  "length (schedule_of demo_yearly_data demo_lifecycle demo_yearly_unit) \<noteq> 19
   \<and> se_year (last (schedule_of demo_yearly_data demo_lifecycle demo_yearly_unit)) = 20
   \<and> length (cfa_schedule_of demo_yearly_config demo_cfg_component) \<noteq> 19"
proof -
  have p: "analysisPeriod demo_yearly_data = 20"
    by (simp add: analysisPeriod_def demo_yearly_data_def demo_data_def demo_scenario_def)
  have q: "analysis_period_years demo_yearly_config = 20"
    by (simp add: analysis_period_years_def demo_yearly_config_def demo_config_def js_default_def)
  have l: "cl_expected_life_hours demo_lifecycle = 8760"
    by (simp add: demo_lifecycle_def)
  have l': "lifeHours demo_cfg_component = 8760"
    by (simp add: lifeHours_def demo_cfg_component_def js_or_def)
  have y: "map se_year (schedule_of demo_yearly_data demo_lifecycle demo_yearly_unit)
             = map int [1 ..< 21]"
    using schedule_of_yearly(1) [OF demo_yearly_hours l, of demo_yearly_data]
    by (simp add: p del: upt_Suc)
  have y': "map cse_year (cfa_schedule_of demo_yearly_config demo_cfg_component)
             = map int [1 ..< 21]"
    using cfa_schedule_of_yearly [OF demo_yearly_avg l'] by (simp add: q del: upt_Suc)
  have n: "length (schedule_of demo_yearly_data demo_lifecycle demo_yearly_unit) = 20"
    using arg_cong [OF y, of length] by simp
  have n': "length (cfa_schedule_of demo_yearly_config demo_cfg_component) = 20"
    using arg_cong [OF y', of length] by simp
  have ne: "schedule_of demo_yearly_data demo_lifecycle demo_yearly_unit \<noteq> []"
    using n by auto
  have "se_year (last (schedule_of demo_yearly_data demo_lifecycle demo_yearly_unit))
          = last (map se_year (schedule_of demo_yearly_data demo_lifecycle demo_yearly_unit))"
    using ne by (simp add: last_map)
  also have "\<dots> = 20"
    unfolding y by (simp add: last_map del: upt_Suc)
  finally show ?thesis using n n' by simp
qed

text \<open>
  Claim C1, amended: for a component life of 8760 hours on a unit (in
  \<open>calculateFullAnalysis\<close>, a fleet average) of 8760 annual hours and a period of 20 years,
  the schedule has exactly 20 replacement events, numbered 1 to 20, in the years 1 to 20:
  the event that falls on the horizon is included.
\<close>

theorem C1_twenty_events:
  "(unit_hours u = 8760 \<longrightarrow> cl_expected_life_hours lifecycle = 8760 \<longrightarrow> analysisPeriod d = 20
      \<longrightarrow> map se_year (schedule_of d lifecycle u) = map int [1 ..< 21]
          \<and> map se_replacement_number (schedule_of d lifecycle u) = [1 ..< 21])
   \<and> (cfa_avgAnnualHours c = 8760 \<longrightarrow> lifeHours component = 8760
      \<longrightarrow> analysis_period_years c = 20
      \<longrightarrow> map cse_year (cfa_schedule_of c component) = map int [1 ..< 21])"
  using schedule_of_yearly [of u 8760 lifecycle d] cfa_schedule_of_yearly [of c 8760 component]
  by (simp del: upt_Suc)

theorem C1_twenty_events_witness:
  "map se_year (schedule_of demo_yearly_data demo_lifecycle demo_yearly_unit) = map int [1 ..< 21]
   \<and> map cse_year (cfa_schedule_of demo_yearly_config demo_cfg_component) = map int [1 ..< 21]"
  using C1_twenty_events [of demo_yearly_unit demo_lifecycle demo_yearly_data demo_yearly_config
                   demo_cfg_component]
    demo_yearly_hours demo_yearly_avg
  by (simp add: analysisPeriod_def demo_yearly_data_def demo_data_def demo_scenario_def
      analysis_period_years_def demo_yearly_config_def demo_config_def js_default_def
      demo_lifecycle_def lifeHours_def demo_cfg_component_def js_or_def)

section \<open>C2: a one-time task in the cost of the later years\<close>

text \<open>The per-task figures read the scenario, the fleet and the price map, not the task list.\<close>

lemma fleet_pmTasks_update [simp]:
  "totalUnits (d\<lparr>d_pmTasks := ts\<rparr>) = totalUnits d"
  "avgAnnualHours (d\<lparr>d_pmTasks := ts\<rparr>) = avgAnnualHours d"
  "overheadMarkup (d\<lparr>d_pmTasks := ts\<rparr>) = overheadMarkup d"
  "inflationMultiplier (d\<lparr>d_pmTasks := ts\<rparr>) year = inflationMultiplier d year"
  "part_cost (d\<lparr>d_pmTasks := ts\<rparr>) = part_cost d"
  by (simp_all add: totalUnits_def avgAnnualHours_def totalWeightedHours_def overheadMarkup_def
      inflationMultiplier_def inflationRate_def part_cost_def partsDiscount_def fun_eq_iff)

lemma servicesPerYear_pmTasks_update [simp]:
  "servicesPerYear (d\<lparr>d_pmTasks := ts\<rparr>) = servicesPerYear d"
  by (rule ext) (simp add: servicesPerYear_def split: option.splits)

lemma cost_pmTasks_update [simp]:
  "laborHoursPerYear (d\<lparr>d_pmTasks := ts\<rparr>) = laborHoursPerYear d"
  "laborCostPerYear (d\<lparr>d_pmTasks := ts\<rparr>) = laborCostPerYear d"
  "partsPerService (d\<lparr>d_pmTasks := ts\<rparr>) = partsPerService d"
  "partsCostPerYear (d\<lparr>d_pmTasks := ts\<rparr>) = partsCostPerYear d"
  by (simp_all add: laborHoursPerYear_def laborCostPerYear_def partsPerService_def
      partsCostPerYear_def fun_eq_iff)

lemma row_total_pmTasks_update [simp]:
  "tr_total_cost_per_year (task_row_of (d\<lparr>d_pmTasks := ts\<rparr>) task)
     = tr_total_cost_per_year (task_row_of d task)"
  "tr_is_one_time (task_row_of d task) = t_is_one_time task"
  by (simp_all add: task_row_of_def)



lemma one_time_labor_cost:
  assumes "t_is_one_time task" "t_labor_hours task = 2"
    "getLaborRate (d_scenario d) (t_skill_level task) = 100" "totalUnits d = 10"
  shows "laborCostPerYear d task = 2000"
  using assms by (simp add: laborCostPerYear_def laborHoursPerYear_def servicesPerYear_def)


lemma cfg_fleet_tasks_update [simp]:
  "cfa_totalUnits (c\<lparr>cfg_pm_tasks := ts\<rparr>) = cfa_totalUnits c"
  "totalAnnualOperatingHours (c\<lparr>cfg_pm_tasks := ts\<rparr>) = totalAnnualOperatingHours c"
  "cfa_partsDiscount (c\<lparr>cfg_pm_tasks := ts\<rparr>) = cfa_partsDiscount c"
  "cfa_overheadMarkup (c\<lparr>cfg_pm_tasks := ts\<rparr>) = cfa_overheadMarkup c"
  "inflationFactor (c\<lparr>cfg_pm_tasks := ts\<rparr>) year = inflationFactor c year"
  "task_rate (c\<lparr>cfg_pm_tasks := ts\<rparr>) task = task_rate c task"
  by (simp_all add: cfa_totalUnits_def totalAnnualOperatingHours_def weightedAnnualHours_def
      cfa_partsDiscount_def cfa_overheadMarkup_def inflationFactor_def cfa_inflationRate_def
      task_rate_def labor_rate_def labor_rate_engineer_def labor_rate_specialist_def)

lemma cfg_cost_tasks_update [simp]:
  "cfa_laborCostPerYear (c\<lparr>cfg_pm_tasks := ts\<rparr>) = cfa_laborCostPerYear c"
  "cfa_partsCostPerYear (c\<lparr>cfg_pm_tasks := ts\<rparr>) = cfa_partsCostPerYear c"
  by (simp_all add: cfa_laborCostPerYear_def cfa_laborHoursPerYear_def cfa_partsCostPerYear_def
      cfa_servicesPerYear_def cfa_partsPerService_def fun_eq_iff)






text \<open>
  Where the scenario has an overhead markup, the overhead charged on a one-time task stays
  in the later years: for the task above alone at the markup of 15 per cent, the
  maintenance cost of year 2 is 300.
\<close>

lemma one_time_overhead_residue: "yearMaintenanceCost demo_overhead_data 2 = 300"
proof -
  have ts: "d_pmTasks demo_overhead_data = [demo_task]"
    by (simp add: demo_overhead_data_def demo_data_def)
  have r: "getLaborRate (d_scenario demo_overhead_data) (t_skill_level demo_task) = 100"
    by (simp add: getLaborRate_def toLowerCase_def lower_char_def js_or_str_def demo_task_def
        demo_overhead_data_def demo_data_def demo_scenario_def)
  have u: "totalUnits demo_overhead_data = 10"
    by (simp add: totalUnits_def demo_overhead_data_def demo_data_def demo_unit_def)
  have l: "laborCostPerYear demo_overhead_data demo_task = 2000"
    using _ _ r u by (rule one_time_labor_cost) (simp_all add: demo_task_def)
  have p: "partsCostPerYear demo_overhead_data demo_task = 0"
    by (simp add: partsCostPerYear_def partsPerService_def demo_task_def)
  have o: "overheadMarkup demo_overhead_data = 15 / 100"
    by (simp add: overheadMarkup_def demo_overhead_data_def demo_data_def demo_scenario_def)
  have i: "inflationMultiplier demo_overhead_data 2 = 1"
    by (simp add: inflationMultiplier_def inflationRate_def demo_overhead_data_def demo_data_def
        demo_scenario_def)
  have m: "totalAnnualMaintenanceCost demo_overhead_data = 2300"
    by (simp add: totalAnnualMaintenanceCost_def annualOverhead_def annualMaintenanceCostBase_def
        totalAnnualLaborCost_def totalAnnualPartsCost_def ts l p o)
  have t: "t_is_one_time demo_task"
    by (simp add: demo_task_def)
  have c: "oneTimeCosts demo_overhead_data = 2000"
    by (simp add: oneTimeCosts_def taskBreakdown_def ts t)
       (simp add: task_row_of_def l p round2_def Math_round_def)
  show ?thesis
    by (simp add: yearMaintenanceCost_def m c i)
qed

section \<open>C4: the annual service count of an hours-based task\<close>

text \<open>
  Claim C4 as stated fails for \<open>calculateFullAnalysis\<close>, which rounds the service count
  with \<open>Math.round\<close>: for one unit at 6600 annual hours and an interval of 500 hours the
  quotient is 13.2 and the computed count is 13.
\<close>

theorem C4_rounded_counterexample:
  "cfa_servicesPerYear demo_single_config demo_cfg_hours_task
     \<noteq> (cfa_totalUnits demo_single_config * cfa_avgAnnualHours demo_single_config) / 500
   \<and> cfa_servicesPerYear demo_single_config demo_cfg_hours_task = 13
   \<and> (cfa_totalUnits demo_single_config * cfa_avgAnnualHours demo_single_config) / 500 = 66 / 5"
  by (simp add: cfa_servicesPerYear_def task_active_def demo_cfg_hours_task_def demo_cfg_task_def
      demo_single_config_def demo_config_def cfa_totalUnits_def cfa_avgAnnualHours_def
      demo_cfg_unit_def totalAnnualOperatingHours_def weightedAnnualHours_def unit_qty_def
      unit_annual_hours_def task_interval_def js_or_def Math_round_def)

lemma weighted_eq: "cfa_totalUnits c > 0 \<Longrightarrow> totalAnnualOperatingHours c = cfa_totalUnits c * cfa_avgAnnualHours c"
  by (simp add: totalAnnualOperatingHours_def cfa_avgAnnualHours_def)

text \<open>
  Claim C4, amended: for a task that is not one-time and has a non-zero hours interval,
  \<open>runAnalysis\<close> computes the annual service count
  (totalUnits * avgAnnualHours) / intervalHours exactly; for an enabled, non-automated task
  that is not one-time, \<open>calculateFullAnalysis\<close> computes that quotient (with an interval
  of 500 where the task has none) rounded to the nearest integer. For an interval of 500
  and 10 units at 6500 annual hours both give 130.
\<close>

theorem C4_services_per_year:
  "(\<not> t_is_one_time task \<longrightarrow> t_interval_hours task = Some ih \<longrightarrow> ih \<noteq> 0
      \<longrightarrow> servicesPerYear d task = (totalUnits d * avgAnnualHours d) / ih
          \<and> (totalUnits d = 10 \<longrightarrow> avgAnnualHours d = 6500 \<longrightarrow> ih = 500
               \<longrightarrow> servicesPerYear d task = 130))
   \<and> (task_active ctask \<longrightarrow> \<not> ct_is_one_time ctask \<longrightarrow> cfa_totalUnits c > 0
      \<longrightarrow> cfa_servicesPerYear c ctask
            = Math_round ((cfa_totalUnits c * cfa_avgAnnualHours c) / task_interval ctask)
          \<and> (cfa_totalUnits c = 10 \<longrightarrow> cfa_avgAnnualHours c = 6500 \<longrightarrow> task_interval ctask = 500
               \<longrightarrow> cfa_servicesPerYear c ctask = 130))"
proof (intro conjI impI)
  assume h: "\<not> t_is_one_time task" "t_interval_hours task = Some ih" "ih \<noteq> 0"
  show s: "servicesPerYear d task = (totalUnits d * avgAnnualHours d) / ih"
    using h by (simp add: servicesPerYear_def)
  assume "totalUnits d = 10" "avgAnnualHours d = 6500" "ih = 500"
  then show "servicesPerYear d task = 130" by (simp add: s)
next
  assume h: "task_active ctask" "\<not> ct_is_one_time ctask" "cfa_totalUnits c > 0"
  show s: "cfa_servicesPerYear c ctask
            = Math_round ((cfa_totalUnits c * cfa_avgAnnualHours c) / task_interval ctask)"
    using h by (simp add: cfa_servicesPerYear_def weighted_eq)
  assume "cfa_totalUnits c = 10" "cfa_avgAnnualHours c = 6500" "task_interval ctask = 500"
  then show "cfa_servicesPerYear c ctask = 130" by (simp add: s Math_round_def)
qed

theorem C4_services_per_year_witness:
  "servicesPerYear demo_data demo_hours_task = 130
   \<and> cfa_servicesPerYear demo_config demo_cfg_hours_task = 130"
  using C4_services_per_year [of demo_hours_task 500 demo_data demo_cfg_hours_task demo_config]
    demo_totalUnits demo_avgAnnualHours demo_cfa_totalUnits demo_cfa_avgAnnualHours
  by (simp add: demo_hours_task_def demo_task_def demo_cfg_hours_task_def demo_cfg_task_def
      task_active_def task_interval_def js_or_def)

section \<open>C5: the fuel cost of a unit\<close>

text \<open>
  Claim C5 on the example unit, ten generators of the seeded model with rates in cubic
  feet per hour and a duty cycle of 0.9: \<open>runAnalysis\<close> selects the full-load rate by the
  duty cycle, reports the unit \<open>CFH\<close>, and multiplies the rate as it is by hours, price
  and quantity; the rate is not brought to the basis of the fuel price, as the division by
  100 of \<open>calculateFullAnalysis\<close> does for a \<open>CFH\<close> rate.
\<close>

theorem C5_fuel_rate_not_normalized:
  "fuelRate demo_unit = 1050
   \<and> fd_fuel_unit (fuel_detail_of demo_data demo_unit) = ''CFH''
   \<and> unitFuelCost demo_data demo_unit = 1050 * 6500 * 1 * 10
   \<and> unitFuelCost demo_data demo_unit \<noteq> (1050 / 100) * 6500 * 1 * 10
   \<and> normalizedFuelRate demo_cfg_unit = 790 / 100"
  by (simp add: fuelRate_def dutyCycle_def unitFuelCost_def demo_unit_hours fuel_detail_of_def
      normalizedFuelRate_def js_defs)
     (simp add: demo_unit_def demo_data_def demo_scenario_def demo_cfg_unit_def)

section \<open>C6: the B10 life, the median life and the mean life\<close>

subsection \<open>The Lanczos approximation is positive\<close>

lemma lanczos_x_unfold:
  "lanczos_x z =
     0.99999999999980993 + 676.5203681218851 / (z + 1) + - 1259.1392167224028 / (z + 2)
     + 771.32342877765313 / (z + 3) + - 176.61502916214059 / (z + 4)
     + 12.507343278686905 / (z + 5) + - 0.13857109526572012 / (z + 6)
     + 0.0000099843695780195716 / (z + 7) + 0.00000015056327351493116 / (z + 8)"
  by (simp add: lanczos_x_def lanczos_c_def upt_rec)

lemma four_terms_pos:
  fixes z a b c d :: real
  assumes z: "0 \<le> z"
    and c3: "0 \<le> a + b + c + d"
    and c2: "0 \<le> 9 * a + 8 * b + 7 * c + 6 * d"
    and c1: "0 \<le> 26 * a + 19 * b + 14 * c + 11 * d"
    and c0: "0 < 24 * a + 12 * b + 8 * c + 6 * d"
  shows "0 < a / (z + 1) + b / (z + 2) + c / (z + 3) + d / (z + 4)"
proof -
  have eq: "a / (z + 1) + b / (z + 2) + c / (z + 3) + d / (z + 4)
        = ((a + b + c + d) * z ^ 3 + (9 * a + 8 * b + 7 * c + 6 * d) * z ^ 2
           + (26 * a + 19 * b + 14 * c + 11 * d) * z + (24 * a + 12 * b + 8 * c + 6 * d))
          / ((z + 1) * (z + 2) * (z + 3) * (z + 4))"
    using z by (simp add: divide_simps) (simp add: algebra_simps power3_eq_cube power2_eq_square)
  have "0 \<le> (a + b + c + d) * z ^ 3" "0 \<le> (9 * a + 8 * b + 7 * c + 6 * d) * z ^ 2"
    "0 \<le> (26 * a + 19 * b + 14 * c + 11 * d) * z"
    using z c3 c2 c1 by simp_all
  then have "0 < (a + b + c + d) * z ^ 3 + (9 * a + 8 * b + 7 * c + 6 * d) * z ^ 2
           + (26 * a + 19 * b + 14 * c + 11 * d) * z + (24 * a + 12 * b + 8 * c + 6 * d)"
    using c0 by linarith
  moreover have "0 < (z + 1) * (z + 2) * (z + 3) * (z + 4)"
    using z by simp
  ultimately show ?thesis
    unfolding eq by (rule divide_pos_pos)
qed

lemma two_terms_pos:
  fixes z a b :: real
  assumes "0 \<le> z" "0 \<le> a + b" "0 < 6 * a + 5 * b"
  shows "0 < a / (z + 5) + b / (z + 6)"
proof -
  have eq: "a / (z + 5) + b / (z + 6) = ((a + b) * z + (6 * a + 5 * b)) / ((z + 5) * (z + 6))"
    using assms(1) by (simp add: divide_simps) (simp add: algebra_simps)
  have "0 \<le> (a + b) * z" using assms by simp
  then have "0 < (a + b) * z + (6 * a + 5 * b)" using assms(3) by linarith
  moreover have "0 < (z + 5) * (z + 6)" using assms(1) by simp
  ultimately show ?thesis unfolding eq by (rule divide_pos_pos)
qed

lemma nine_sum_pos:
  fixes c0 :: real
  assumes "0 < c0" "0 < t1 + t2 + t3 + t4" "0 < t5 + t6" "0 \<le> t7" "0 \<le> t8"
  shows "0 < c0 + t1 + t2 + t3 + t4 + t5 + t6 + t7 + t8"
  using assms by linarith

lemma lanczos_x_pos:
  assumes "0 \<le> z"
  shows "0 < lanczos_x z"
proof -
  have a: "0 < 676.5203681218851 / (z + 1) + - 1259.1392167224028 / (z + 2)
     + 771.32342877765313 / (z + 3) + - 176.61502916214059 / (z + 4)"
    using assms by (rule four_terms_pos) simp_all
  have b: "0 < 12.507343278686905 / (z + 5) + - 0.13857109526572012 / (z + 6)"
    using assms by (rule two_terms_pos) simp_all
  have c: "0 \<le> 0.0000099843695780195716 / (z + 7)" "0 \<le> 0.00000015056327351493116 / (z + 8)"
    using assms by simp_all
  show ?thesis
    unfolding lanczos_x_unfold by (rule nine_sum_pos [OF _ a b c]) simp
qed

lemma gammaFunction_lanczos:
  assumes "1 / 2 \<le> z"
  shows "gammaFunction z
           = sqrt (2 * pi) * ((z + 13 / 2) powr (z - 1 / 2)) * exp (- (z + 13 / 2))
             * lanczos_x (z - 1)"
  using assms by (subst gammaFunction.simps) (simp add: Let_def algebra_simps)

lemma gammaFunction_pos:
  assumes "1 \<le> z"
  shows "0 < gammaFunction z"
proof -
  have "0 < lanczos_x (z - 1)" using assms by (intro lanczos_x_pos) simp
  moreover have "0 < (z + 13 / 2) powr (z - 1 / 2)" using assms by simp
  moreover have "0 < sqrt (2 * pi)" by simp
  ultimately show ?thesis
    using assms by (simp add: gammaFunction_lanczos)
qed

lemma weibull_eta_pos:
  assumes "0 < expectedLifeHours" "0 < beta"
  shows "0 < weibull_eta expectedLifeHours beta"
proof -
  have "0 < gammaFunction (1 + 1 / beta)"
    using assms(2) by (intro gammaFunction_pos) simp
  then show ?thesis
    using assms(1) by (simp add: weibull_eta_def)
qed

lemma Math_round_mono: "x \<le> y \<Longrightarrow> Math_round x \<le> Math_round y"
  by (simp add: Math_round_def floor_mono)

subsection \<open>Numerical bounds\<close>

lemma sin_525: "1 / 2 < sin (0.525 :: real)"
proof -
  have "\<bar>sin (0.525 :: real) - (\<Sum>m<5. sin_coeff m * 0.525 ^ m)\<bar>
          \<le> inverse (fact 5) * \<bar>0.525\<bar> ^ 5"
    by (rule Maclaurin_sin_bound)
  moreover have "(\<Sum>m<5. sin_coeff m * (0.525 :: real) ^ m) = 0.525 - 0.525 ^ 3 / 6"
    by (simp add: eval_nat_numeral sin_coeff_Suc cos_coeff_Suc)
  ultimately have "sin (0.525 :: real) \<ge> 0.525 - 0.525 ^ 3 / 6 - inverse (fact 5) * 0.525 ^ 5"
    by (simp add: abs_le_iff)
  moreover have "(1 / 2 :: real) < 0.525 - 0.525 ^ 3 / 6 - inverse (fact 5) * 0.525 ^ 5"
    by (simp add: eval_nat_numeral)
  ultimately show ?thesis by linarith
qed

lemma pi_upper: "pi < 3.15"
proof (rule ccontr)
  assume "\<not> pi < 3.15"
  then have p: "0.525 \<le> pi / 6" by simp
  have "sin (0.525 :: real) \<le> sin (pi / 6)"
    using p pi_gt_zero by (subst sin_mono_le_eq) simp_all
  then show False
    using sin_525 by (simp add: sin_30)
qed

lemma sqrt_two_pi_upper: "sqrt (2 * pi) \<le> 2.51"
proof -
  have "2 * pi \<le> (2.51 :: real)\<^sup>2"
    using pi_upper by (simp add: power2_eq_square)
  then show ?thesis
    by (intro real_le_lsqrt) simp_all
qed

lemma exp_sq_lower:
  fixes a b c :: real
  assumes "b \<le> exp a" "0 \<le> b" "c \<le> b * b" "a' = 2 * a"
  shows "c \<le> exp a'"
proof -
  have "b * b \<le> exp a * exp a"
    using assms(1,2) by (intro mult_mono) simp_all
  also have "\<dots> = exp a'"
    by (simp add: assms(4) exp_add [symmetric])
  finally show ?thesis using assms(3) by simp
qed

lemma exp_61_8_lower: "2048.636905555464 \<le> exp (61 / 8 :: real)"
proof -
  have "1 + (61 / 8192) + (61 / 8192)\<^sup>2 / 2 \<le> exp (61 / 8192 :: real)"
    by (rule exp_lower_Taylor_quadratic) simp
  then have e0: "1.007474012672 \<le> exp (61 / 8192 :: real)"
    by (simp add: power2_eq_square)
  have e1: "1.015003886209 \<le> exp (61 / 4096 :: real)"
    by (rule exp_sq_lower [OF e0]) simp_all
  have e2: "1.030232889019 \<le> exp (61 / 2048 :: real)"
    by (rule exp_sq_lower [OF e1]) simp_all
  have e3: "1.061379805616 \<le> exp (61 / 1024 :: real)"
    by (rule exp_sq_lower [OF e2]) simp_all
  have e4: "1.126527091769 \<le> exp (61 / 512 :: real)"
    by (rule exp_sq_lower [OF e3]) simp_all
  have e5: "1.269063288489 \<le> exp (61 / 256 :: real)"
    by (rule exp_sq_lower [OF e4]) simp_all
  have e6: "1.61052163019 \<le> exp (61 / 128 :: real)"
    by (rule exp_sq_lower [OF e5]) simp_all
  have e7: "2.593779921309 \<le> exp (61 / 64 :: real)"
    by (rule exp_sq_lower [OF e6]) simp_all
  have e8: "6.727694280185 \<le> exp (61 / 32 :: real)"
    by (rule exp_sq_lower [OF e7]) simp_all
  have e9: "45.261870327633 \<le> exp (61 / 16 :: real)"
    by (rule exp_sq_lower [OF e8]) simp_all
  show ?thesis
    by (rule exp_sq_lower [OF e9]) simp_all
qed

lemma powr_ratio_upper:
  fixes x u :: real
  assumes "0 < x" "0 \<le> u" "x ^ m \<le> u ^ Suc n"
  shows "x powr (real m / real (Suc n)) \<le> u"
proof -
  have "(x powr (real m / real (Suc n))) ^ Suc n = x powr (real m / real (Suc n) * real (Suc n))"
    using assms(1) by (simp only: powr_realpow [symmetric] powr_powr powr_gt_zero) 
  also have "\<dots> = x ^ m"
    using assms(1) by (simp add: powr_realpow)
  finally have "(x powr (real m / real (Suc n))) ^ Suc n \<le> u ^ Suc n"
    using assms(3) by simp
  then show ?thesis
    using assms(2) by (rule power_le_imp_le_base)
qed

lemma powr_ratio_lower:
  fixes x l :: real
  assumes "0 < x" "l ^ Suc n \<le> x ^ m"
  shows "l \<le> x powr (real m / real (Suc n))"
proof -
  have "(x powr (real m / real (Suc n))) ^ Suc n = x powr (real m / real (Suc n) * real (Suc n))"
    using assms(1) by (simp only: powr_realpow [symmetric] powr_powr powr_gt_zero) 
  also have "\<dots> = x ^ m"
    using assms(1) by (simp add: powr_realpow)
  finally have "l ^ Suc n \<le> (x powr (real m / real (Suc n))) ^ Suc n"
    using assms(2) by simp
  then show ?thesis
    by (rule power_le_imp_le_base) simp
qed

lemma powr_61_8: "(61 / 8 :: real) powr (5 / 8) \<le> 3.56"
proof -
  have "(61 / 8 :: real) powr (real 5 / real (Suc 7)) \<le> 3.56"
    by (rule powr_ratio_upper) (simp_all add: eval_nat_numeral)
  then show ?thesis by simp
qed

lemma powr_6931: "0.9552 \<le> (0.6931 :: real) powr (1 / 8)"
proof -
  have "0.9552 \<le> (0.6931 :: real) powr (real 1 / real (Suc 7))"
    by (rule powr_ratio_lower) (simp_all add: eval_nat_numeral)
  then show ?thesis by simp
qed

lemma lanczos_x_eighth: "lanczos_x (1 / 8) \<le> 216.240904"
  unfolding lanczos_x_unfold by simp

lemma gammaFunction_nine_eighths: "gammaFunction (1 + 1 / 8) < 0.9552"
proof -
  have g: "gammaFunction (1 + 1 / 8)
             = sqrt (2 * pi) * ((61 / 8) powr (5 / 8)) * exp (- (61 / 8)) * lanczos_x (1 / 8)"
    by (subst gammaFunction_lanczos) simp_all
  have e: "exp (- (61 / 8 :: real)) \<le> 1 / 2048.636905555464"
  proof -
    have "1 / exp (61 / 8 :: real) \<le> 1 / 2048.636905555464"
      using exp_61_8_lower by (intro divide_left_mono) simp_all
    then show ?thesis by (simp add: exp_minus inverse_eq_divide)
  qed
  have x: "0 < lanczos_x (1 / 8)"
    by (rule lanczos_x_pos) simp
  have x': "0 \<le> lanczos_x (1 / 8)"
    using x by simp
  have s1: "sqrt (2 * pi) * ((61 / 8) powr (5 / 8)) \<le> 2.51 * 3.56"
    by (rule mult_mono [OF sqrt_two_pi_upper powr_61_8]) simp_all
  have s2: "sqrt (2 * pi) * ((61 / 8) powr (5 / 8)) * exp (- (61 / 8))
               \<le> 2.51 * 3.56 * (1 / 2048.636905555464)"
    by (rule mult_mono [OF s1 e]) simp_all
  have "sqrt (2 * pi) * ((61 / 8) powr (5 / 8)) * exp (- (61 / 8)) * lanczos_x (1 / 8)
               \<le> 2.51 * 3.56 * (1 / 2048.636905555464) * 216.240904"
    by (rule mult_mono [OF s2 lanczos_x_eighth _ x']) simp
  also have "\<dots> < (0.9552 :: real)"
    by simp
  finally show ?thesis
    unfolding g .
qed

lemma median_above_mean: "10000 < b50_unrounded 10000 8"
proof -
  have p: "0 < gammaFunction (1 + 1 / 8)"
    by (rule gammaFunction_pos) simp
  have "gammaFunction (1 + 1 / 8) < 0.6931 powr (1 / 8)"
    using gammaFunction_nine_eighths powr_6931 by linarith
  then have "1 < 0.6931 powr (1 / 8) / gammaFunction (1 + 1 / 8)"
    using p by simp
  then have "10000 * 1 < 10000 * (0.6931 powr (1 / 8) / gammaFunction (1 + 1 / 8))"
    by (intro mult_strict_left_mono) simp_all
  then show ?thesis
    by (simp add: b50_unrounded_def weibull_eta_def)
qed

subsection \<open>The median life below the mean life up to a shape of 10 / 3\<close>

text \<open>
  \<open>B50 < meanLife\<close> is \<open>0.6931 ^ z < gammaFunction(1 + z)\<close> at \<open>z = 1 / shape\<close>. For
  \<open>z \<ge> 3 / 10\<close> it follows from the Lanczos formula: with \<open>u = z - 3 / 10\<close> and
  \<open>w = 10 * u\<close> the Lanczos sum is a quotient of two polynomials in \<open>w\<close> with whole
  coefficients, the power and the exponentials are bounded through
  \<open>2.0541 \<le> ln 7.8\<close>, \<open>ln 0.6931 \<le> - 0.3665\<close>, \<open>0.0023654489 \<le> exp (- 6.04677)\<close>,
  \<open>2.5063 \<le> sqrt (2 * pi)\<close> and \<open>1 + x + x\<^sup>2 / 2 \<le> exp x\<close>, and what is left is a
  polynomial in \<open>w\<close> whose coefficients are all positive.
\<close>

lemma sin_5235: "sin (0.5235 :: real) < 1 / 2"
proof -
  have "\<bar>sin (0.5235 :: real) - (\<Sum>m<5. sin_coeff m * 0.5235 ^ m)\<bar>
          \<le> inverse (fact 5) * \<bar>0.5235\<bar> ^ 5"
    by (rule Maclaurin_sin_bound)
  moreover have "(\<Sum>m<5. sin_coeff m * (0.5235 :: real) ^ m) = 0.5235 - 0.5235 ^ 3 / 6"
    by (simp add: eval_nat_numeral sin_coeff_Suc cos_coeff_Suc)
  ultimately have "sin (0.5235 :: real) \<le> 0.5235 - 0.5235 ^ 3 / 6 + inverse (fact 5) * 0.5235 ^ 5"
    by (simp add: abs_le_iff)
  moreover have "0.5235 - 0.5235 ^ 3 / 6 + inverse (fact 5) * 0.5235 ^ 5 < (1 / 2 :: real)"
    by (simp add: eval_nat_numeral)
  ultimately show ?thesis by linarith
qed

lemma pi_lower: "3.141 < pi"
proof (rule ccontr)
  assume "\<not> 3.141 < pi"
  then have p: "pi / 6 \<le> 0.5235" by simp
  have "0.5235 \<le> pi / 2"
    using pi_ge_two by simp
  then have "sin (pi / 6) \<le> sin (0.5235 :: real)"
    using p pi_gt_zero by (subst sin_mono_le_eq) simp_all
  then show False
    using sin_5235 by (simp add: sin_30)
qed

lemma sqrt_two_pi_lower: "2.5063 \<le> sqrt (2 * pi)"
proof -
  have "(2.5063 :: real)\<^sup>2 \<le> 2 * pi"
    using pi_lower by (simp add: power2_eq_square)
  then show ?thesis
    by (rule real_le_rsqrt)
qed

lemma exp_sq_upper:
  fixes a b c :: real
  assumes "exp a \<le> b" "b * b \<le> c" "a' = 2 * a"
  shows "exp a' \<le> c"
proof -
  have b: "0 \<le> b"
    using assms(1) exp_ge_zero [of a] by linarith
  have "exp a' = exp a * exp a"
    by (simp add: assms(3) exp_add [symmetric])
  also have "\<dots> \<le> b * b"
    using assms(1) assms(1) b by (rule mult_mono) simp
  finally show ?thesis using assms(2) by simp
qed

lemma ln_base_lower: "2.0541 \<le> ln (7.8 :: real)"
proof -
  have e0: "exp (20541 / 10485760000 :: real) \<le> 1.000001958946251"
    using exp_bound [of "20541 / 10485760000 :: real"] by (simp add: power2_eq_square)
  have e1: "exp (20541 / 5242880000 :: real) \<le> 1.00000391789634"
    by (rule exp_sq_upper [OF e0]) simp_all
  have e2: "exp (20541 / 2621440000 :: real) \<le> 1.00000783580803"
    by (rule exp_sq_upper [OF e1]) simp_all
  have e3: "exp (20541 / 1310720000 :: real) \<le> 1.00001567167746"
    by (rule exp_sq_upper [OF e2]) simp_all
  have e4: "exp (20541 / 655360000 :: real) \<le> 1.000031343600522"
    by (rule exp_sq_upper [OF e3]) simp_all
  have e5: "exp (20541 / 327680000 :: real) \<le> 1.000062688183466"
    by (rule exp_sq_upper [OF e4]) simp_all
  have e6: "exp (20541 / 163840000 :: real) \<le> 1.000125380296741"
    by (rule exp_sq_upper [OF e5]) simp_all
  have e7: "exp (20541 / 81920000 :: real) \<le> 1.000250776313701"
    by (rule exp_sq_upper [OF e6]) simp_all
  have e8: "exp (20541 / 40960000 :: real) \<le> 1.000501615516162"
    by (rule exp_sq_upper [OF e7]) simp_all
  have e9: "exp (20541 / 20480000 :: real) \<le> 1.001003482650451"
    by (rule exp_sq_upper [OF e8]) simp_all
  have e10: "exp (20541 / 10240000 :: real) \<le> 1.002007972278332"
    by (rule exp_sq_upper [OF e9]) simp_all
  have e11: "exp (20541 / 5120000 :: real) \<le> 1.004019976509335"
    by (rule exp_sq_upper [OF e10]) simp_all
  have e12: "exp (20541 / 2560000 :: real) \<le> 1.008056113229806"
    by (rule exp_sq_upper [OF e11]) simp_all
  have e13: "exp (20541 / 1280000 :: real) \<le> 1.016177127419984"
    by (rule exp_sq_upper [OF e12]) simp_all
  have e14: "exp (20541 / 640000 :: real) \<le> 1.032615954291531"
    by (rule exp_sq_upper [OF e13]) simp_all
  have e15: "exp (20541 / 320000 :: real) \<le> 1.06629570905741"
    by (rule exp_sq_upper [OF e14]) simp_all
  have e16: "exp (20541 / 160000 :: real) \<le> 1.136986539154245"
    by (rule exp_sq_upper [OF e15]) simp_all
  have e17: "exp (20541 / 80000 :: real) \<le> 1.292738390217948"
    by (rule exp_sq_upper [OF e16]) simp_all
  have e18: "exp (20541 / 40000 :: real) \<le> 1.671172545543292"
    by (rule exp_sq_upper [OF e17]) simp_all
  have e19: "exp (20541 / 20000 :: real) \<le> 2.792817676977647"
    by (rule exp_sq_upper [OF e18]) simp_all
  have e20: "exp (20541 / 10000 :: real) \<le> 7.799830576838821"
    by (rule exp_sq_upper [OF e19]) simp_all
  have "exp (2.0541 :: real) \<le> 7.8"
    using e20 by simp
  then show ?thesis
    by (subst ln_ge_iff) simp_all
qed

lemma ln_6931_upper: "ln (0.6931 :: real) \<le> - 0.3665"
proof -
  have e0: "exp (733 / 32768000 :: real) \<le> 1.000022369885155"
    using exp_bound [of "733 / 32768000 :: real"] by (simp add: power2_eq_square)
  have e1: "exp (733 / 16384000 :: real) \<le> 1.000044740270722"
    by (rule exp_sq_upper [OF e0]) simp_all
  have e2: "exp (733 / 8192000 :: real) \<le> 1.000089482543136"
    by (rule exp_sq_upper [OF e1]) simp_all
  have e3: "exp (733 / 4096000 :: real) \<le> 1.000178973093398"
    by (rule exp_sq_upper [OF e2]) simp_all
  have e4: "exp (733 / 2048000 :: real) \<le> 1.000357978218165"
    by (rule exp_sq_upper [OF e3]) simp_all
  have e5: "exp (733 / 1024000 :: real) \<le> 1.000716084584735"
    by (rule exp_sq_upper [OF e4]) simp_all
  have e6: "exp (733 / 512000 :: real) \<le> 1.001432681946603"
    by (rule exp_sq_upper [OF e5]) simp_all
  have e7: "exp (733 / 256000 :: real) \<le> 1.002867416470767"
    by (rule exp_sq_upper [OF e6]) simp_all
  have e8: "exp (733 / 128000 :: real) \<le> 1.005743055018751"
    by (rule exp_sq_upper [OF e7]) simp_all
  have e9: "exp (733 / 64000 :: real) \<le> 1.011519092718451"
    by (rule exp_sq_upper [OF e8]) simp_all
  have e10: "exp (733 / 32000 :: real) \<le> 1.023170874933959"
    by (rule exp_sq_upper [OF e9]) simp_all
  have e11: "exp (733 / 16000 :: real) \<le> 1.046878639313124"
    by (rule exp_sq_upper [OF e10]) simp_all
  have e12: "exp (733 / 8000 :: real) \<le> 1.095954885450098"
    by (rule exp_sq_upper [OF e11]) simp_all
  have e13: "exp (733 / 4000 :: real) \<le> 1.201117110941938"
    by (rule exp_sq_upper [OF e12]) simp_all
  have e14: "exp (733 / 2000 :: real) \<le> 1.442682314197508"
    by (rule exp_sq_upper [OF e13]) simp_all
  show ?thesis
  proof -
    have "exp (0.3665 :: real) \<le> 1 / 0.6931"
      using e14 by simp
    then have "0.6931 \<le> exp (- 0.3665 :: real)"
      by (simp add: exp_minus field_simps)
    then have "ln (0.6931 :: real) \<le> ln (exp (- 0.3665))"
      by (subst ln_le_cancel_iff) simp_all
    then show ?thesis by simp
  qed
qed

lemma exp_minus_G_lower: "0.0023654489 \<le> exp (- 6.04677 :: real)"
proof -
  have e0: "exp (604677 / 104857600000 :: real) \<le> 1.000005766682501"
    using exp_bound [of "604677 / 104857600000 :: real"] by (simp add: power2_eq_square)
  have e1: "exp (604677 / 52428800000 :: real) \<le> 1.000011533398257"
    by (rule exp_sq_upper [OF e0]) simp_all
  have e2: "exp (604677 / 26214400000 :: real) \<le> 1.000023066929534"
    by (rule exp_sq_upper [OF e1]) simp_all
  have e3: "exp (604677 / 13107200000 :: real) \<le> 1.000046134391152"
    by (rule exp_sq_upper [OF e2]) simp_all
  have e4: "exp (604677 / 6553600000 :: real) \<le> 1.000092270910687"
    by (rule exp_sq_upper [OF e3]) simp_all
  have e5: "exp (604677 / 3276800000 :: real) \<le> 1.000184550335295"
    by (rule exp_sq_upper [OF e4]) simp_all
  have e6: "exp (604677 / 1638400000 :: real) \<le> 1.000369134729417"
    by (rule exp_sq_upper [OF e5]) simp_all
  have e7: "exp (604677 / 819200000 :: real) \<le> 1.000738405719283"
    by (rule exp_sq_upper [OF e6]) simp_all
  have e8: "exp (604677 / 409600000 :: real) \<le> 1.001477356681573"
    by (rule exp_sq_upper [OF e7]) simp_all
  have e9: "exp (604677 / 204800000 :: real) \<le> 1.002956895945911"
    by (rule exp_sq_upper [OF e8]) simp_all
  have e10: "exp (604677 / 102400000 :: real) \<le> 1.005922535125457"
    by (rule exp_sq_upper [OF e9]) simp_all
  have e11: "exp (604677 / 51200000 :: real) \<le> 1.011880146673227"
    by (rule exp_sq_upper [OF e10]) simp_all
  have e12: "exp (604677 / 25600000 :: real) \<le> 1.023901431231432"
    by (rule exp_sq_upper [OF e11]) simp_all
  have e13: "exp (604677 / 12800000 :: real) \<le> 1.048374140877775"
    by (rule exp_sq_upper [OF e12]) simp_all
  have e14: "exp (604677 / 6400000 :: real) \<le> 1.099088339261213"
    by (rule exp_sq_upper [OF e13]) simp_all
  have e15: "exp (604677 / 3200000 :: real) \<le> 1.207995177499972"
    by (rule exp_sq_upper [OF e14]) simp_all
  have e16: "exp (604677 / 1600000 :: real) \<le> 1.459252348863189"
    by (rule exp_sq_upper [OF e15]) simp_all
  have e17: "exp (604677 / 800000 :: real) \<le> 2.129417417662735"
    by (rule exp_sq_upper [OF e16]) simp_all
  have e18: "exp (604677 / 400000 :: real) \<le> 4.534418538645431"
    by (rule exp_sq_upper [OF e17]) simp_all
  have e19: "exp (604677 / 200000 :: real) \<le> 20.560951483611367"
    by (rule exp_sq_upper [OF e18]) simp_all
  have e20: "exp (604677 / 100000 :: real) \<le> 422.752725911420474"
    by (rule exp_sq_upper [OF e19]) simp_all
  show ?thesis
  proof -
    have "exp (6.04677 :: real) \<le> 1 / 0.0023654489"
      using e20 by simp
    then show ?thesis
      by (simp add: exp_minus field_simps)
  qed
qed

lemma lanczos_step:
  fixes r d n c f g k :: real
  assumes "r * d = n / k" "f \<noteq> 0" "k \<noteq> 0" "10 * f = g" "c * (10 * k) = c'"
    and "d' = d * g" "n' = n * g + c' * d"
  shows "(r + c / f) * d' = n' / k"
proof -
  have "(r + c / f) * (d * (10 * f)) = (r * d) * (10 * f) + (c * (10 * k)) * d / k"
    using assms(2,3) by (simp add: algebra_simps)
  also have "\<dots> = (n * (10 * f) + (c * (10 * k)) * d) / k"
    by (simp add: assms(1) add_divide_distrib)
  finally show ?thesis
    by (simp add: assms(4-7))
qed

lemma lanczos_ratio:
  fixes u w :: real
  assumes "0 \<le> u" "w = 10 * u"
  shows "lanczos_x (3 / 10 + u) * (8583629335281 + 2012414261376 * w + 192094976492 * w ^ 2 + 9861038208 * w ^ 3 + 300246870 * w ^ 4 + 5588352 * w ^ 5 + 62412 * w ^ 6 + 384 * w ^ 7 + 1 * w ^ 8)
         = (145018221616774892720465754879188647320 + 14771566617868200882779266182942814680 * w + 658238475056975767563294233260116280 * w ^ 2 + 16760082430631046460705254553756600 * w ^ 3 + 266699889044133589527826019176200 * w ^ 4 + 2715956547752923226025383052040 * w ^ 5 + 17285250347220635963677046760 * w ^ 6 + 62858333333341577726502760 * w ^ 7 + 99999999999980993000000 * w ^ 8) / 10 ^ 23"
proof -
  have k: "(10 :: real) ^ 23 \<noteq> 0"
    by simp
  have s0: "(0.99999999999980993 :: real) * 1 = 99999999999980993000000 / 10 ^ 23"
    by simp
  have f1: "3 / 10 + u + 1 \<noteq> 0" "10 * (3 / 10 + u + 1) = w + 13"
    using assms by simp_all
  have c1: "676.5203681218851 * (10 * 10 ^ 23) = (676520368121885100000000000 :: real)"
    by simp
  have d1: "13 + 1 * w = (1) * (w + 13)"
    by (simp add: algebra_simps power_numeral_reduce power2_eq_square power3_eq_cube)
  have n1: "677820368121884852909000000 + 99999999999980993000000 * w
       = (99999999999980993000000) * (w + 13) + 676520368121885100000000000 * (1)"
    by (simp add: algebra_simps power_numeral_reduce power2_eq_square power3_eq_cube)
  have s1: "(0.99999999999980993 + 676.5203681218851 / (3 / 10 + u + 1)) * (13 + 1 * w)
       = (677820368121884852909000000 + 99999999999980993000000 * w) / 10 ^ 23"
    by (rule lanczos_step [OF s0 f1(1) k f1(2) c1 d1 n1])
  have f2: "3 / 10 + u + 2 \<noteq> 0" "10 * (3 / 10 + u + 2) = w + 23"
    using assms by simp_all
  have c2: "- 1259.1392167224028 * (10 * 10 ^ 23) = ((- 1259139216722402800000000000) :: real)"
    by simp
  have d2: "299 + 36 * w + 1 * w ^ 2 = (13 + 1 * w) * (w + 23)"
    by (simp add: algebra_simps power_numeral_reduce power2_eq_square power3_eq_cube)
  have n2: "(- 778941350587884783093000000) + (- 579018848600518384252000000) * w + 99999999999980993000000 * w ^ 2
       = (677820368121884852909000000 + 99999999999980993000000 * w) * (w + 23) + (- 1259139216722402800000000000) * (13 + 1 * w)"
    by (simp add: algebra_simps power_numeral_reduce power2_eq_square power3_eq_cube)
  have s2: "(0.99999999999980993 + 676.5203681218851 / (3 / 10 + u + 1) + - 1259.1392167224028 / (3 / 10 + u + 2)) * (299 + 36 * w + 1 * w ^ 2)
       = ((- 778941350587884783093000000) + (- 579018848600518384252000000) * w + 99999999999980993000000 * w ^ 2) / 10 ^ 23"
    by (rule lanczos_step [OF s1 f2(1) k f2(2) c2 d2 n2])
  have f3: "3 / 10 + u + 3 \<noteq> 0" "10 * (3 / 10 + u + 3) = w + 33"
    using assms by simp_all
  have c3: "771.32342877765313 * (10 * 10 ^ 23) = (771323428777653130000000000 :: real)"
    by simp
  have d3: "9867 + 1487 * w + 69 * w ^ 2 + 1 * w ^ 3 = (299 + 36 * w + 1 * w ^ 2) * (w + 33)"
    by (simp add: algebra_simps power_numeral_reduce power2_eq_square power3_eq_cube)
  have n3: "204920640635118088027931000000 + 7881080081590521216591000000 * w + 195604580177134118517000000 * w ^ 2 + 99999999999980993000000 * w ^ 3
       = ((- 778941350587884783093000000) + (- 579018848600518384252000000) * w + 99999999999980993000000 * w ^ 2) * (w + 33) + 771323428777653130000000000 * (299 + 36 * w + 1 * w ^ 2)"
    by (simp add: algebra_simps power_numeral_reduce power2_eq_square power3_eq_cube)
  have s3: "(0.99999999999980993 + 676.5203681218851 / (3 / 10 + u + 1) + - 1259.1392167224028 / (3 / 10 + u + 2) + 771.32342877765313 / (3 / 10 + u + 3)) * (9867 + 1487 * w + 69 * w ^ 2 + 1 * w ^ 3)
       = (204920640635118088027931000000 + 7881080081590521216591000000 * w + 195604580177134118517000000 * w ^ 2 + 99999999999980993000000 * w ^ 3) / 10 ^ 23"
    by (rule lanczos_step [OF s2 f3(1) k f3(2) c3 d3 n3])
  have f4: "3 / 10 + u + 4 \<noteq> 0" "10 * (3 / 10 + u + 4) = w + 43"
    using assms by simp_all
  have c4: "- 176.61502916214059 * (10 * 10 ^ 23) = ((- 176615029162140590000000000) :: real)"
    by simp
  have d4: "424281 + 73808 * w + 4454 * w ^ 2 + 112 * w ^ 3 + 1 * w ^ 4 = (9867 + 1487 * w + 69 * w ^ 2 + 1 * w ^ 3) * (w + 43)"
    by (simp add: algebra_simps power_numeral_reduce power2_eq_square power3_eq_cube)
  have n4: "7068927054567236583671033000000 + 281180535779407443011344000000 * w + 4105640017019587602822000000 * w ^ 2 + 23289551014992711216000000 * w ^ 3 + 99999999999980993000000 * w ^ 4
       = (204920640635118088027931000000 + 7881080081590521216591000000 * w + 195604580177134118517000000 * w ^ 2 + 99999999999980993000000 * w ^ 3) * (w + 43) + (- 176615029162140590000000000) * (9867 + 1487 * w + 69 * w ^ 2 + 1 * w ^ 3)"
    by (simp add: algebra_simps power_numeral_reduce power2_eq_square power3_eq_cube)
  have s4: "(0.99999999999980993 + 676.5203681218851 / (3 / 10 + u + 1) + - 1259.1392167224028 / (3 / 10 + u + 2) + 771.32342877765313 / (3 / 10 + u + 3) + - 176.61502916214059 / (3 / 10 + u + 4)) * (424281 + 73808 * w + 4454 * w ^ 2 + 112 * w ^ 3 + 1 * w ^ 4)
       = (7068927054567236583671033000000 + 281180535779407443011344000000 * w + 4105640017019587602822000000 * w ^ 2 + 23289551014992711216000000 * w ^ 3 + 99999999999980993000000 * w ^ 4) / 10 ^ 23"
    by (rule lanczos_step [OF s3 f4(1) k f4(2) c4 d4 n4])
  have f5: "3 / 10 + u + 5 \<noteq> 0" "10 * (3 / 10 + u + 5) = w + 53"
    using assms by simp_all
  have c5: "12.507343278686905 * (10 * 10 ^ 23) = (12507343278686905000000000 :: real)"
    by simp
  have d5: "22486893 + 4336105 * w + 309870 * w ^ 2 + 10390 * w ^ 3 + 165 * w ^ 4 + 1 * w ^ 5 = (424281 + 73808 * w + 4454 * w ^ 2 + 112 * w ^ 3 + 1 * w ^ 4) * (w + 53)"
    by (simp add: algebra_simps power_numeral_reduce power2_eq_square power3_eq_cube)
  have n5: "379959762005688097674869749000000 + 22894637443589154147512265000000 * w + 554487163644717060830910000000 * w ^ 2 + 6740808668027134657270000000 * w ^ 3 + 41096894293678608845000000 * w ^ 4 + 99999999999980993000000 * w ^ 5
       = (7068927054567236583671033000000 + 281180535779407443011344000000 * w + 4105640017019587602822000000 * w ^ 2 + 23289551014992711216000000 * w ^ 3 + 99999999999980993000000 * w ^ 4) * (w + 53) + 12507343278686905000000000 * (424281 + 73808 * w + 4454 * w ^ 2 + 112 * w ^ 3 + 1 * w ^ 4)"
    by (simp add: algebra_simps power_numeral_reduce power2_eq_square power3_eq_cube)
  have s5: "(0.99999999999980993 + 676.5203681218851 / (3 / 10 + u + 1) + - 1259.1392167224028 / (3 / 10 + u + 2) + 771.32342877765313 / (3 / 10 + u + 3) + - 176.61502916214059 / (3 / 10 + u + 4) + 12.507343278686905 / (3 / 10 + u + 5)) * (22486893 + 4336105 * w + 309870 * w ^ 2 + 10390 * w ^ 3 + 165 * w ^ 4 + 1 * w ^ 5)
       = (379959762005688097674869749000000 + 22894637443589154147512265000000 * w + 554487163644717060830910000000 * w ^ 2 + 6740808668027134657270000000 * w ^ 3 + 41096894293678608845000000 * w ^ 4 + 99999999999980993000000 * w ^ 5) / 10 ^ 23"
    by (rule lanczos_step [OF s4 f5(1) k f5(2) c5 d5 n5])
  have f6: "3 / 10 + u + 6 \<noteq> 0" "10 * (3 / 10 + u + 6) = w + 63"
    using assms by simp_all
  have c6: "- 0.13857109526572012 * (10 * 10 ^ 23) = ((- 138571095265720120000000) :: real)"
    by simp
  have d6: "1416674259 + 295661508 * w + 23857915 * w ^ 2 + 964440 * w ^ 3 + 20785 * w ^ 4 + 228 * w ^ 5 + 1 * w ^ 6 = (22486893 + 4336105 * w + 309870 * w ^ 2 + 10390 * w ^ 3 + 165 * w ^ 4 + 1 * w ^ 5) * (w + 63)"
    by (simp add: algebra_simps power_numeral_reduce power2_eq_square power3_eq_cube)
  have n6: "23934348972966217098610407027000000 + 1821721062132767643627209844000000 * w + 57784389727916340286275195000000 * w ^ 2 + 977718356050615712192120000000 * w ^ 3 + 9307048777810043194705000000 * w ^ 4 + 47258323198411691284000000 * w ^ 5 + 99999999999980993000000 * w ^ 6
       = (379959762005688097674869749000000 + 22894637443589154147512265000000 * w + 554487163644717060830910000000 * w ^ 2 + 6740808668027134657270000000 * w ^ 3 + 41096894293678608845000000 * w ^ 4 + 99999999999980993000000 * w ^ 5) * (w + 63) + (- 138571095265720120000000) * (22486893 + 4336105 * w + 309870 * w ^ 2 + 10390 * w ^ 3 + 165 * w ^ 4 + 1 * w ^ 5)"
    by (simp add: algebra_simps power_numeral_reduce power2_eq_square power3_eq_cube)
  have s6: "(0.99999999999980993 + 676.5203681218851 / (3 / 10 + u + 1) + - 1259.1392167224028 / (3 / 10 + u + 2) + 771.32342877765313 / (3 / 10 + u + 3) + - 176.61502916214059 / (3 / 10 + u + 4) + 12.507343278686905 / (3 / 10 + u + 5) + - 0.13857109526572012 / (3 / 10 + u + 6)) * (1416674259 + 295661508 * w + 23857915 * w ^ 2 + 964440 * w ^ 3 + 20785 * w ^ 4 + 228 * w ^ 5 + 1 * w ^ 6)
       = (23934348972966217098610407027000000 + 1821721062132767643627209844000000 * w + 57784389727916340286275195000000 * w ^ 2 + 977718356050615712192120000000 * w ^ 3 + 9307048777810043194705000000 * w ^ 4 + 47258323198411691284000000 * w ^ 5 + 99999999999980993000000 * w ^ 6) / 10 ^ 23"
    by (rule lanczos_step [OF s5 f6(1) k f6(2) c6 d6 n6])
  have f7: "3 / 10 + u + 7 \<noteq> 0" "10 * (3 / 10 + u + 7) = w + 73"
    using assms by simp_all
  have c7: "0.0000099843695780195716 * (10 * 10 ^ 23) = (9984369578019571600 :: real)"
    by simp
  have d7: "103417220907 + 22999964343 * w + 2037289303 * w ^ 2 + 94262035 * w ^ 3 + 2481745 * w ^ 4 + 37429 * w ^ 5 + 301 * w ^ 6 + 1 * w ^ 7 = (1416674259 + 295661508 * w + 23857915 * w ^ 2 + 964440 * w ^ 3 + 20785 * w ^ 4 + 228 * w ^ 5 + 1 * w ^ 6) * (w + 73)"
    by (simp add: algebra_simps power_numeral_reduce power2_eq_square power3_eq_cube)
  have n7: "1747207489171133221721578996898444400 + 156919989460652020949986918408972800 * w + 6039981750476901205502106648214000 * w ^ 2 + 129157839348936683101495588904000 * w ^ 3 + 1657133124355870544542380706000 * w ^ 4 + 12756908647730360446899324800 * w ^ 5 + 54558333182779881792571600 * w ^ 6 + 99999999999980993000000 * w ^ 7
       = (23934348972966217098610407027000000 + 1821721062132767643627209844000000 * w + 57784389727916340286275195000000 * w ^ 2 + 977718356050615712192120000000 * w ^ 3 + 9307048777810043194705000000 * w ^ 4 + 47258323198411691284000000 * w ^ 5 + 99999999999980993000000 * w ^ 6) * (w + 73) + 9984369578019571600 * (1416674259 + 295661508 * w + 23857915 * w ^ 2 + 964440 * w ^ 3 + 20785 * w ^ 4 + 228 * w ^ 5 + 1 * w ^ 6)"
    by (simp add: algebra_simps power_numeral_reduce power2_eq_square power3_eq_cube)
  have s7: "(0.99999999999980993 + 676.5203681218851 / (3 / 10 + u + 1) + - 1259.1392167224028 / (3 / 10 + u + 2) + 771.32342877765313 / (3 / 10 + u + 3) + - 176.61502916214059 / (3 / 10 + u + 4) + 12.507343278686905 / (3 / 10 + u + 5) + - 0.13857109526572012 / (3 / 10 + u + 6) + 0.0000099843695780195716 / (3 / 10 + u + 7)) * (103417220907 + 22999964343 * w + 2037289303 * w ^ 2 + 94262035 * w ^ 3 + 2481745 * w ^ 4 + 37429 * w ^ 5 + 301 * w ^ 6 + 1 * w ^ 7)
       = (1747207489171133221721578996898444400 + 156919989460652020949986918408972800 * w + 6039981750476901205502106648214000 * w ^ 2 + 129157839348936683101495588904000 * w ^ 3 + 1657133124355870544542380706000 * w ^ 4 + 12756908647730360446899324800 * w ^ 5 + 54558333182779881792571600 * w ^ 6 + 99999999999980993000000 * w ^ 7) / 10 ^ 23"
    by (rule lanczos_step [OF s6 f7(1) k f7(2) c7 d7 n7])
  have f8: "3 / 10 + u + 8 \<noteq> 0" "10 * (3 / 10 + u + 8) = w + 83"
    using assms by simp_all
  have c8: "0.00000015056327351493116 * (10 * 10 ^ 23) = (150563273514931160 :: real)"
    by simp
  have d8: "8583629335281 + 2012414261376 * w + 192094976492 * w ^ 2 + 9861038208 * w ^ 3 + 300246870 * w ^ 4 + 5588352 * w ^ 5 + 62412 * w ^ 6 + 384 * w ^ 7 + 1 * w ^ 8 = (103417220907 + 22999964343 * w + 2037289303 * w ^ 2 + 94262035 * w ^ 3 + 2481745 * w ^ 4 + 37429 * w ^ 5 + 301 * w ^ 6 + 1 * w ^ 7) * (w + 83)"
    by (simp add: algebra_simps power_numeral_reduce power2_eq_square power3_eq_cube)
  have n8: "145018221616774892720465754879188647320 + 14771566617868200882779266182942814680 * w + 658238475056975767563294233260116280 * w ^ 2 + 16760082430631046460705254553756600 * w ^ 3 + 266699889044133589527826019176200 * w ^ 4 + 2715956547752923226025383052040 * w ^ 5 + 17285250347220635963677046760 * w ^ 6 + 62858333333341577726502760 * w ^ 7 + 99999999999980993000000 * w ^ 8
       = (1747207489171133221721578996898444400 + 156919989460652020949986918408972800 * w + 6039981750476901205502106648214000 * w ^ 2 + 129157839348936683101495588904000 * w ^ 3 + 1657133124355870544542380706000 * w ^ 4 + 12756908647730360446899324800 * w ^ 5 + 54558333182779881792571600 * w ^ 6 + 99999999999980993000000 * w ^ 7) * (w + 83) + 150563273514931160 * (103417220907 + 22999964343 * w + 2037289303 * w ^ 2 + 94262035 * w ^ 3 + 2481745 * w ^ 4 + 37429 * w ^ 5 + 301 * w ^ 6 + 1 * w ^ 7)"
    by (simp add: algebra_simps power_numeral_reduce power2_eq_square power3_eq_cube)
  have s8: "(0.99999999999980993 + 676.5203681218851 / (3 / 10 + u + 1) + - 1259.1392167224028 / (3 / 10 + u + 2) + 771.32342877765313 / (3 / 10 + u + 3) + - 176.61502916214059 / (3 / 10 + u + 4) + 12.507343278686905 / (3 / 10 + u + 5) + - 0.13857109526572012 / (3 / 10 + u + 6) + 0.0000099843695780195716 / (3 / 10 + u + 7) + 0.00000015056327351493116 / (3 / 10 + u + 8)) * (8583629335281 + 2012414261376 * w + 192094976492 * w ^ 2 + 9861038208 * w ^ 3 + 300246870 * w ^ 4 + 5588352 * w ^ 5 + 62412 * w ^ 6 + 384 * w ^ 7 + 1 * w ^ 8)
       = (145018221616774892720465754879188647320 + 14771566617868200882779266182942814680 * w + 658238475056975767563294233260116280 * w ^ 2 + 16760082430631046460705254553756600 * w ^ 3 + 266699889044133589527826019176200 * w ^ 4 + 2715956547752923226025383052040 * w ^ 5 + 17285250347220635963677046760 * w ^ 6 + 62858333333341577726502760 * w ^ 7 + 99999999999980993000000 * w ^ 8) / 10 ^ 23"
    by (rule lanczos_step [OF s7 f8(1) k f8(2) c8 d8 n8])
  show ?thesis
    unfolding lanczos_x_unfold [of "3 / 10 + u"] by (rule s8)
qed

lemma lanczos_den_pos:
  fixes w :: real
  assumes "0 \<le> w"
  shows "0 < 8583629335281 + 2012414261376 * w + 192094976492 * w ^ 2 + 9861038208 * w ^ 3 + 300246870 * w ^ 4 + 5588352 * w ^ 5 + 62412 * w ^ 6 + 384 * w ^ 7 + 1 * w ^ 8"
  using assms by (intro add_pos_nonneg mult_nonneg_nonneg zero_le_power) simp_all

lemma lanczos_margin:
  fixes w :: real
  assumes "0 \<le> w"
  shows "50000000000000000000000000000000000000000000000 * (8583629335281 + 2012414261376 * w + 192094976492 * w ^ 2 + 9861038208 * w ^ 3 + 300246870 * w ^ 4 + 5588352 * w ^ 5 + 62412 * w ^ 6 + 384 * w ^ 7 + 1 * w ^ 8)
       < 592852457807 * (5000000000 + 710300000 * w + 50452609 * w ^ 2) * (145018221616774892720465754879188647320 + 14771566617868200882779266182942814680 * w + 658238475056975767563294233260116280 * w ^ 2 + 16760082430631046460705254553756600 * w ^ 3 + 266699889044133589527826019176200 * w ^ 4 + 2715956547752923226025383052040 * w ^ 5 + 17285250347220635963677046760 * w ^ 6 + 62858333333341577726502760 * w ^ 7 + 99999999999980993000000 * w ^ 8)"
proof -
  have "592852457807 * (5000000000 + 710300000 * w + 50452609 * w ^ 2) * (145018221616774892720465754879188647320 + 14771566617868200882779266182942814680 * w + 658238475056975767563294233260116280 * w ^ 2 + 16760082430631046460705254553756600 * w ^ 3 + 266699889044133589527826019176200 * w ^ 4 + 2715956547752923226025383052040 * w ^ 5 + 17285250347220635963677046760 * w ^ 6 + 62858333333341577726502760 * w ^ 7 + 99999999999980993000000 * w ^ 8)
        - 50000000000000000000000000000000000000000000000 * (8583629335281 + 2012414261376 * w + 192094976492 * w ^ 2 + 9861038208 * w ^ 3 + 300246870 * w ^ 4 + 5588352 * w ^ 5 + 62412 * w ^ 6 + 384 * w ^ 7 + 1 * w ^ 8)
      = 690578797476062049884376949512959588368518136200000000000 + 4233707598985378655531049877535445954966232720228572000000 * w + 2904428417319717662223926620643054948976620451348649469160 * w ^ 2 + 275647271322693842431787859406364534944548992791249436840 * w ^ 3 + 12524487858199849546669981434998481040518291039340877640 * w ^ 4 + 342251399849775514684908262139322671052305039158105800 * w ^ 5 + 6051583652163509299635009976803732445928165644180600 * w ^ 6 + 69502050430623183855199023816092776206056707814520 * w ^ 7 + 493784580328504299956836177417406035409428329880 * w ^ 8 + 1922262979685553661388757495397942593938457880 * w ^ 9 + 2991095324841988328811607175220223759000000 * w ^ 10"
    by (simp add: algebra_simps power_numeral_reduce power2_eq_square power3_eq_cube)
  moreover have "0 < 690578797476062049884376949512959588368518136200000000000 + 4233707598985378655531049877535445954966232720228572000000 * w + 2904428417319717662223926620643054948976620451348649469160 * w ^ 2 + 275647271322693842431787859406364534944548992791249436840 * w ^ 3 + 12524487858199849546669981434998481040518291039340877640 * w ^ 4 + 342251399849775514684908262139322671052305039158105800 * w ^ 5 + 6051583652163509299635009976803732445928165644180600 * w ^ 6 + 69502050430623183855199023816092776206056707814520 * w ^ 7 + 493784580328504299956836177417406035409428329880 * w ^ 8 + 1922262979685553661388757495397942593938457880 * w ^ 9 + 2991095324841988328811607175220223759000000 * w ^ 10"
    using assms by (intro add_pos_nonneg mult_nonneg_nonneg zero_le_power) simp_all
  ultimately show ?thesis
    by simp
qed

lemma lanczos_lower:
  fixes u :: real
  assumes "0 \<le> u"
  shows "1 < 2.5063 * 0.0023654489 * (1 + 1.4206 * u + (1.4206 * u)\<^sup>2 / 2)
               * lanczos_x (3 / 10 + u)"
proof -
  define w where "w = 10 * u"
  define X where "X = lanczos_x (3 / 10 + u)"
  define D where "D = 8583629335281 + 2012414261376 * w + 192094976492 * w ^ 2 + 9861038208 * w ^ 3 + 300246870 * w ^ 4 + 5588352 * w ^ 5 + 62412 * w ^ 6 + 384 * w ^ 7 + 1 * w ^ 8"
  define N where "N = 145018221616774892720465754879188647320 + 14771566617868200882779266182942814680 * w + 658238475056975767563294233260116280 * w ^ 2 + 16760082430631046460705254553756600 * w ^ 3 + 266699889044133589527826019176200 * w ^ 4 + 2715956547752923226025383052040 * w ^ 5 + 17285250347220635963677046760 * w ^ 6 + 62858333333341577726502760 * w ^ 7 + 99999999999980993000000 * w ^ 8"
  define T where "T = 5000000000 + 710300000 * w + 50452609 * w ^ 2"
  have w: "0 \<le> w"
    using assms by (simp add: w_def)
  have XD: "X * D = N / 10 ^ 23"
    unfolding X_def D_def N_def by (rule lanczos_ratio [OF assms w_def])
  have Dp: "0 < D"
    unfolding D_def by (rule lanczos_den_pos [OF w])
  have "50000000000000000000000000000000000000000000000 * D < 592852457807 * T * N"
    unfolding D_def T_def N_def by (rule lanczos_margin [OF w])
  also have "592852457807 * T * N = (592852457807 * T * X * 10 ^ 23) * D"
  proof -
    have N: "N = (X * D) * 10 ^ 23"
      unfolding XD by simp
    show ?thesis
      unfolding N by (simp add: algebra_simps)
  qed
  finally have "50000000000000000000000000000000000000000000000 < 592852457807 * T * X * 10 ^ 23"
    using Dp by simp
  then have k: "500000000000000000000000 < 592852457807 * T * X"
    by simp
  have t: "1 + 1.4206 * u + (1.4206 * u)\<^sup>2 / 2 = T / 5000000000"
    unfolding T_def w_def by (simp add: power2_eq_square)
  have "2.5063 * 0.0023654489 * (T / 5000000000) * X
          = (592852457807 * T * X) / 500000000000000000000000"
    by simp
  then show ?thesis
    unfolding t X_def [symmetric] using k by simp
qed

lemma gamma_above_median:
  fixes z :: real
  assumes "3 / 10 \<le> z"
  shows "0.6931 powr z < gammaFunction (1 + z)"
proof -
  define u where "u = z - 3 / 10"
  define S where "S = sqrt (2 * pi)"
  define P where "P = (z + 15 / 2) powr (z + 1 / 2)"
  define B where "B = exp ((z + 1 / 2) * 2.0541)"
  define E where "E = exp (- (z + 15 / 2))"
  define X where "X = lanczos_x z"
  define Q where "Q = exp (- 0.3665 * z)"
  define V where "V = exp (1.4206 * u - 6.04677)"
  define W where "W = 0.0023654489 * (1 + 1.4206 * u + (1.4206 * u)\<^sup>2 / 2)"
  have u: "0 \<le> u" and zu: "3 / 10 + u = z" and z: "0 \<le> z"
    using assms by (simp_all add: u_def)
  have X: "0 < X"
    unfolding X_def by (rule lanczos_x_pos [OF z])
  have g: "gammaFunction (1 + z) = S * P * E * X"
  proof -
    have h: "1 / 2 \<le> 1 + z"
      using z by simp
    have a: "1 + z + 13 / 2 = z + 15 / 2" "1 + z - 1 / 2 = z + 1 / 2" "1 + z - 1 = z"
      by simp_all
    show ?thesis
      unfolding S_def P_def E_def X_def gammaFunction_lanczos [OF h] a by (rule refl)
  qed
  have S: "2.5063 \<le> S"
    unfolding S_def by (rule sqrt_two_pi_lower)
  have B: "0 < B" and E: "0 < E" and Q: "0 < Q"
    by (simp_all add: B_def E_def Q_def)
  have BP: "B \<le> P"
  proof -
    have "ln (7.8 :: real) \<le> ln (z + 15 / 2)"
      using assms by simp
    then have "2.0541 \<le> ln (z + 15 / 2)"
      using ln_base_lower by linarith
    then have "(z + 1 / 2) * 2.0541 \<le> (z + 1 / 2) * ln (z + 15 / 2)"
      using z by (intro mult_left_mono) simp_all
    moreover have "P = exp ((z + 1 / 2) * ln (z + 15 / 2))"
      using z by (simp add: P_def powr_def)
    ultimately show ?thesis
      by (simp add: B_def)
  qed
  have QW: "0.6931 powr z \<le> Q"
  proof -
    have "z * ln (0.6931 :: real) \<le> z * (- 0.3665)"
      using ln_6931_upper z by (rule mult_left_mono)
    moreover have "(0.6931 :: real) powr z = exp (z * ln 0.6931)"
      by (simp add: powr_def)
    ultimately show ?thesis
      by (simp add: Q_def mult.commute)
  qed
  have BE: "B * E = Q * V"
  proof -
    have "(z + 1 / 2) * 2.0541 + - (z + 15 / 2) = - 0.3665 * z + (1.4206 * u - 6.04677)"
      unfolding u_def by (simp add: algebra_simps)
    then show ?thesis
      unfolding B_def E_def Q_def V_def exp_add [symmetric] by (rule arg_cong)
  qed
  have WV: "W \<le> V"
  proof -
    have a: "1 + 1.4206 * u + (1.4206 * u)\<^sup>2 / 2 \<le> exp (1.4206 * u)"
      using u by (intro exp_lower_Taylor_quadratic) simp
    have c: "0 \<le> 1 + 1.4206 * u + (1.4206 * u)\<^sup>2 / 2"
      using u by (intro add_nonneg_nonneg) simp_all
    have v: "V = exp (- 6.04677) * exp (1.4206 * u)"
      unfolding V_def exp_add [symmetric] by simp
    have "0.0023654489 * (1 + 1.4206 * u + (1.4206 * u)\<^sup>2 / 2)
            \<le> exp (- 6.04677) * exp (1.4206 * u)"
      by (rule mult_mono [OF exp_minus_G_lower a _ c]) simp
    then show ?thesis
      unfolding W_def v .
  qed
  have "1 < 2.5063 * W * X"
    using lanczos_lower [OF u] by (simp add: W_def X_def zu mult.assoc)
  also have "2.5063 * W * X \<le> 2.5063 * V * X"
    using WV X by (intro mult_right_mono mult_left_mono) simp_all
  finally have "Q * 1 < Q * (2.5063 * V * X)"
    using Q by (intro mult_strict_left_mono)
  also have "Q * (2.5063 * V * X) = (2.5063 * B) * (E * X)"
    using BE by (simp add: algebra_simps)
  also have "\<dots> \<le> (S * P) * (E * X)"
  proof (rule mult_right_mono)
    show "2.5063 * B \<le> S * P"
      using S BP B by (intro mult_mono) simp_all
    show "0 \<le> E * X"
      using E X by simp
  qed
  finally have "Q < S * P * E * X"
    by (simp add: mult.assoc)
  then show ?thesis
    using QW g by linarith
qed

lemma median_below_mean:
  assumes "0 < expectedLifeHours" "0 < beta" "beta \<le> 10 / 3"
  shows "b50_unrounded expectedLifeHours beta < expectedLifeHours"
proof -
  have "3 / 10 \<le> 1 / beta"
    using assms(2,3) by (simp add: field_simps)
  then have l: "0.6931 powr (1 / beta) < gammaFunction (1 + 1 / beta)"
    by (rule gamma_above_median)
  have p: "0 < gammaFunction (1 + 1 / beta)"
    using assms(2) by (intro gammaFunction_pos) simp
  have "0.6931 powr (1 / beta) / gammaFunction (1 + 1 / beta) < 1"
    using l p by simp
  then have "expectedLifeHours * (0.6931 powr (1 / beta) / gammaFunction (1 + 1 / beta))
               < expectedLifeHours * 1"
    using assms(1) by (intro mult_strict_left_mono)
  then show ?thesis
    by (simp add: b50_unrounded_def weibull_eta_def)
qed

subsection \<open>The claim\<close>

text \<open>
  Claim C6 as stated fails: for a shape of 8 and a mean life of 10000 hours the median life
  \<open>eta * 0.6931 ^ (1 / 8)\<close> lies above the mean life, unrounded and as reported. (A
  Weibull distribution has its median above its mean from a shape of about 3.44 on.)
\<close>

theorem C6_median_counterexample:
  "\<not> b50_unrounded 10000 8 < 10000
   \<and> \<not> cpa_b50_life (fc_parameters (projr (generateFailureCurve 10000 (Some 8) None)))
         < cpa_mean_life (fc_parameters (projr (generateFailureCurve 10000 (Some 8) None)))"
proof -
  have "Math_round 10000 \<le> Math_round (b50_unrounded 10000 8)"
    using median_above_mean by (intro Math_round_mono) simp
  then have "10000 \<le> Math_round (b50_unrounded 10000 8)"
    by (simp add: Math_round_def)
  then show ?thesis
    using median_above_mean by (simp add: generateFailureCurve_def Let_def js_default_def)
qed

text \<open>
  Claim C6, amended: for every mean life > 0 and every shape > 1 the quantities
  \<open>B10 = eta * 0.1054 ^ (1 / shape)\<close> and \<open>B50 = eta * 0.6931 ^ (1 / shape)\<close>, with
  \<open>eta = meanLife / gammaFunction(1 + 1 / shape)\<close>, satisfy \<open>0 < B10 < B50\<close>, and the
  reported rounded values satisfy \<open>b10_life \<le> b50_life\<close>, with \<open>mean_life\<close> the mean life
  given. For a shape of at most \<open>10 / 3\<close>, the default shape 2.5 among them, moreover
  \<open>B50 < meanLife\<close>, and the reported \<open>b50_life\<close> is at most the rounded mean life. (The
  numbers are real numbers: \<open>gammaFunction\<close> is the Lanczos formula of the source, evaluated
  exactly.)
\<close>

theorem C6_life_order:
  "0 < expectedLifeHours \<longrightarrow> 1 < beta
     \<longrightarrow> 0 < b10_unrounded expectedLifeHours beta
         \<and> b10_unrounded expectedLifeHours beta < b50_unrounded expectedLifeHours beta
         \<and> (beta \<le> 10 / 3 \<longrightarrow> b50_unrounded expectedLifeHours beta < expectedLifeHours)
         \<and> (\<forall>fc. generateFailureCurve expectedLifeHours (Some beta) points = Inr fc
               \<longrightarrow> cpa_b10_life (fc_parameters fc) \<le> cpa_b50_life (fc_parameters fc)
                   \<and> cpa_mean_life (fc_parameters fc) = expectedLifeHours
                   \<and> (beta \<le> 10 / 3
                        \<longrightarrow> cpa_b50_life (fc_parameters fc) \<le> Math_round expectedLifeHours))"
proof (intro impI)
  assume h: "0 < expectedLifeHours" "1 < beta"
  have b: "0 < beta"
    using h(2) by simp
  have e: "0 < weibull_eta expectedLifeHours beta"
    using h(1) b by (rule weibull_eta_pos)
  have p: "(0.1054 :: real) powr (1 / beta) < 0.6931 powr (1 / beta)"
    using b by (intro powr_less_mono2) simp_all
  have l: "b10_unrounded expectedLifeHours beta < b50_unrounded expectedLifeHours beta"
    unfolding b10_unrounded_def b50_unrounded_def using e p by simp
  have z: "0 < b10_unrounded expectedLifeHours beta"
    unfolding b10_unrounded_def using e by simp
  have m: "b50_unrounded expectedLifeHours beta < expectedLifeHours" if "beta \<le> 10 / 3"
    using h(1) b that by (rule median_below_mean)
  have r: "Math_round (b10_unrounded expectedLifeHours beta)
             \<le> Math_round (b50_unrounded expectedLifeHours beta)"
    using l by (intro Math_round_mono) simp
  have s: "Math_round (b50_unrounded expectedLifeHours beta) \<le> Math_round expectedLifeHours"
    if "beta \<le> 10 / 3"
    using m [OF that] by (intro Math_round_mono) simp
  show "0 < b10_unrounded expectedLifeHours beta
         \<and> b10_unrounded expectedLifeHours beta < b50_unrounded expectedLifeHours beta
         \<and> (beta \<le> 10 / 3 \<longrightarrow> b50_unrounded expectedLifeHours beta < expectedLifeHours)
         \<and> (\<forall>fc. generateFailureCurve expectedLifeHours (Some beta) points = Inr fc
               \<longrightarrow> cpa_b10_life (fc_parameters fc) \<le> cpa_b50_life (fc_parameters fc)
                   \<and> cpa_mean_life (fc_parameters fc) = expectedLifeHours
                   \<and> (beta \<le> 10 / 3
                        \<longrightarrow> cpa_b50_life (fc_parameters fc) \<le> Math_round expectedLifeHours))"
    using l z m r s by (auto simp: generateFailureCurve_def Let_def js_default_def)
qed

theorem C6_life_order_witness:
  "0 < b10_unrounded 10000 (5 / 2)
   \<and> b10_unrounded 10000 (5 / 2) < b50_unrounded 10000 (5 / 2)
   \<and> b50_unrounded 10000 (5 / 2) < 10000
   \<and> cpa_b10_life (fc_parameters (projr (generateFailureCurve 10000 (Some (5 / 2)) None)))
       \<le> cpa_b50_life (fc_parameters (projr (generateFailureCurve 10000 (Some (5 / 2)) None)))
   \<and> cpa_mean_life (fc_parameters (projr (generateFailureCurve 10000 (Some (5 / 2)) None)))
       = 10000
   \<and> cpa_b50_life (fc_parameters (projr (generateFailureCurve 10000 (Some (5 / 2)) None)))
       \<le> 10000"
proof -
  have "generateFailureCurve 10000 (Some (5 / 2)) None
          = Inr (projr (generateFailureCurve 10000 (Some (5 / 2)) None))"
    by (simp add: generateFailureCurve_def Let_def)
  moreover have "Math_round 10000 = 10000"
    by (simp add: Math_round_def)
  ultimately show ?thesis
    using C6_life_order [of 10000 "5 / 2" None] by simp
qed

section \<open>C7: a mean life or shape that is not positive\<close>

lemma curve_point_nonpositive:
  assumes "real i * step \<le> 0"
  shows "curve_point_of beta eta step i
           = \<lparr> pt_hours = Math_round (real i * step), pt_failure_probability = 0,
               pt_reliability = 1, pt_failure_rate = 0 \<rparr>"
  using assms
  by (simp add: curve_point_of_def Let_def weibullCDF_def weibullReliability_def weibullPDF_def
      Math_round_def)

lemma failure_curve_nonpositive_life:
  assumes "expectedLifeHours \<le> 0" "js_default points 50 > 0"
  shows "\<exists>fc. generateFailureCurve expectedLifeHours weibullShape points = Inr fc
              \<and> length (fc_curve fc) = js_default points 50 + 1
              \<and> (\<forall>p \<in> set (fc_curve fc).
                    pt_failure_probability p = 0 \<and> pt_reliability p = 1 \<and> pt_failure_rate p = 0)"
proof -
  have "real i * (expectedLifeHours * 2 / real (js_default points 50)) \<le> 0" for i
    using assms by (simp add: mult_nonneg_nonpos divide_nonpos_pos)
  then show ?thesis
    by (auto simp add: generateFailureCurve_def Let_def curve_point_nonpositive
        simp del: upt_Suc)
qed

lemma search_loop_skipped:
  assumes "expectedLifeHours < 0"
  shows "search_loop expectedLifeHours beta eta plannedCost unplannedCost
           (expectedLifeHours / 100) (expectedLifeHours / 100) best = Some best"
proof -
  have "\<not> expectedLifeHours / 100 \<le> expectedLifeHours * (3 / 2)"
    using assms by simp
  then show ?thesis
    by (subst search_loop.simps) simp
qed

lemma interval_negative_life:
  assumes "expectedLifeHours < 0"
  shows "optimalReplacementInterval expectedLifeHours weibullShape plannedCost multiplier
           = Some (Inr \<lparr> ri_optimal_interval_hours = Math_round expectedLifeHours,
                          ri_cost_per_hour = None, ri_vs_oem_interval = 100 \<rparr>)"
  using assms
  by (simp add: optimalReplacementInterval_def Let_def search_loop_skipped Math_round_def)

lemma search_loop_stuck:
  "search_loop 0 beta eta plannedCost unplannedCost 0 0 best = None"
proof -
  have "\<not> (L = 0 \<and> step = 0 \<and> t = 0)"
    if "search_loop L beta eta plannedCost unplannedCost step t best = Some y" for L step t y
    using that
  proof (induction rule: search_loop.raw_induct [rotated, consumes 1])
    case (1 loop L beta eta plannedCost unplannedCost step t best y)
    show ?case
    proof
      assume z: "L = 0 \<and> step = 0 \<and> t = 0"
      then have "loop L beta eta plannedCost unplannedCost step t
                   (if better (costRate beta eta plannedCost unplannedCost t) (snd best)
                    then (t, Some (costRate beta eta plannedCost unplannedCost t)) else best)
                 = Some y"
        using 1(2) by simp
      then have "\<not> (L = 0 \<and> step = 0 \<and> t = 0)" by (rule 1(1))
      then show False using z by simp
    qed
  qed
  then have "search_loop 0 beta eta plannedCost unplannedCost 0 0 best \<noteq> Some y" for y
    by blast
  then show ?thesis by (cases "search_loop 0 beta eta plannedCost unplannedCost 0 0 best") auto
qed

lemma interval_zero_life:
  "optimalReplacementInterval 0 weibullShape plannedCost multiplier = None"
  by (simp add: optimalReplacementInterval_def Let_def search_loop_stuck)

text \<open>
  Claim C7 as stated fails: neither operation checks its arguments. For a mean life of 0
  \<open>generateFailureCurve\<close> returns a curve, all of whose figures are 0 but the reliability;
  for a mean life of -100 \<open>optimalReplacementInterval\<close> returns a result whose cost rate
  is the \<open>Infinity\<close> it started from.
\<close>

theorem C7_no_error_counterexample:
  "generateFailureCurve 0 (Some (5 / 2)) (Some 2)
     = Inr \<lparr> fc_curve =
               [\<lparr> pt_hours = 0, pt_failure_probability = 0, pt_reliability = 1,
                   pt_failure_rate = 0 \<rparr>,
                \<lparr> pt_hours = 0, pt_failure_probability = 0, pt_reliability = 1,
                   pt_failure_rate = 0 \<rparr>,
                \<lparr> pt_hours = 0, pt_failure_probability = 0, pt_reliability = 1,
                   pt_failure_rate = 0 \<rparr>],
             fc_parameters =
               \<lparr> cpa_beta = 5 / 2, cpa_eta = 0, cpa_mean_life = 0, cpa_b10_life = 0,
                 cpa_b50_life = 0 \<rparr> \<rparr>
   \<and> optimalReplacementInterval (- 100) (5 / 2) 1000 None
     = Some (Inr \<lparr> ri_optimal_interval_hours = - 100, ri_cost_per_hour = None,
                    ri_vs_oem_interval = 100 \<rparr>)"
proof -
  have "[0 ..< Suc 2] = [0, 1, 2]"
    by (simp add: upt_rec)
  then show ?thesis
    using interval_negative_life [of "- 100" "5 / 2" 1000 None]
    by (simp add: generateFailureCurve_def Let_def js_default_def weibull_eta_def
        b10_unrounded_def b50_unrounded_def curve_point_nonpositive Math_round_def
        del: upt_Suc)
qed

text \<open>
  Claim C7, amended: the reliability operations have no error path. For a mean life that
  is not positive, whatever the shape, \<open>generateFailureCurve\<close> returns a curve of
  \<open>points + 1\<close> samples (\<open>points > 0\<close>), each with failure probability 0, reliability 1
  and failure rate 0. For a negative mean life, whatever the shape,
  \<open>optimalReplacementInterval\<close> makes no search step and returns the rounded mean life as
  the interval, a cost rate of \<open>Infinity\<close> and 100 per cent of the life; for a mean life
  of 0 its search loop does not end.
\<close>

theorem C7_no_domain_check:
  "(expectedLifeHours \<le> 0 \<longrightarrow> js_default points 50 > 0
      \<longrightarrow> (\<exists>fc. generateFailureCurve expectedLifeHours weibullShape points = Inr fc
                \<and> length (fc_curve fc) = js_default points 50 + 1
                \<and> (\<forall>p \<in> set (fc_curve fc).
                      pt_failure_probability p = 0 \<and> pt_reliability p = 1
                      \<and> pt_failure_rate p = 0)))
   \<and> (expectedLifeHours < 0
      \<longrightarrow> optimalReplacementInterval expectedLifeHours beta plannedCost multiplier
            = Some (Inr \<lparr> ri_optimal_interval_hours = Math_round expectedLifeHours,
                           ri_cost_per_hour = None, ri_vs_oem_interval = 100 \<rparr>))
   \<and> optimalReplacementInterval 0 beta plannedCost multiplier = None
   \<and> generateFailureCurve expectedLifeHours weibullShape points \<noteq> Inl e
   \<and> optimalReplacementInterval expectedLifeHours beta plannedCost multiplier \<noteq> Some (Inl e)"
proof -
  have "generateFailureCurve expectedLifeHours weibullShape points \<noteq> Inl e"
    by (simp add: generateFailureCurve_def Let_def)
  moreover have "optimalReplacementInterval expectedLifeHours beta plannedCost multiplier
                   \<noteq> Some (Inl e)"
    by (simp add: optimalReplacementInterval_def Let_def split: option.splits prod.splits)
  ultimately show ?thesis
    using failure_curve_nonpositive_life [of expectedLifeHours points weibullShape]
      interval_negative_life [of expectedLifeHours beta plannedCost multiplier]
      interval_zero_life [of beta plannedCost multiplier]
    by blast
qed

theorem C7_no_domain_check_witness:
  "(\<exists>fc. generateFailureCurve (- 8760) (Some 0) None = Inr fc
          \<and> length (fc_curve fc) = 51
          \<and> pt_failure_probability (last (fc_curve fc)) = 0
          \<and> pt_reliability (last (fc_curve fc)) = 1
          \<and> pt_failure_rate (last (fc_curve fc)) = 0)
   \<and> optimalReplacementInterval (- 8760) 0 1000 None
     = Some (Inr \<lparr> ri_optimal_interval_hours = - 8760, ri_cost_per_hour = None,
                    ri_vs_oem_interval = 100 \<rparr>)
   \<and> optimalReplacementInterval 0 (5 / 2) 1000 None = None"
proof -
  note T = C7_no_domain_check [of "- 8760" None "Some 0" 0 1000 None]
  have d: "js_default (None :: nat option) 50 = 50"
    by (simp add: js_default_def)
  from T obtain fc where fc: "generateFailureCurve (- 8760) (Some 0) None = Inr fc"
    "length (fc_curve fc) = 51"
    "\<forall>p \<in> set (fc_curve fc).
       pt_failure_probability p = 0 \<and> pt_reliability p = 1 \<and> pt_failure_rate p = 0"
    by (auto simp: d)
  have "fc_curve fc \<noteq> []" using fc(2) by auto
  then have "last (fc_curve fc) \<in> set (fc_curve fc)" by (rule last_in_set)
  then have "pt_failure_probability (last (fc_curve fc)) = 0
             \<and> pt_reliability (last (fc_curve fc)) = 1
             \<and> pt_failure_rate (last (fc_curve fc)) = 0"
    using fc(3) by blast
  then have a: "\<exists>fc. generateFailureCurve (- 8760) (Some 0) None = Inr fc
          \<and> length (fc_curve fc) = 51
          \<and> pt_failure_probability (last (fc_curve fc)) = 0
          \<and> pt_reliability (last (fc_curve fc)) = 1
          \<and> pt_failure_rate (last (fc_curve fc)) = 0"
    using fc(1,2) by blast
  have b: "optimalReplacementInterval (- 8760) 0 1000 None
     = Some (Inr \<lparr> ri_optimal_interval_hours = - 8760, ri_cost_per_hour = None,
                    ri_vs_oem_interval = 100 \<rparr>)"
    using T by (simp add: Math_round_def)
  have c: "optimalReplacementInterval 0 (5 / 2) 1000 None = None"
    using C7_no_domain_check [of 0 None None "5 / 2" 1000 None] by simp
  show ?thesis using a b c by blast
qed

section \<open>C8: the lowest total cost of ownership of two scenarios\<close>

lemma demo_flat_labor: "totalAnnualLaborCost (demo_flat_data name rate) = rate"
  by (simp add: totalAnnualLaborCost_def laborCostPerYear_def laborHoursPerYear_def
      servicesPerYear_def totalUnits_def getLaborRate_def toLowerCase_def lower_char_def
      js_or_str_def demo_flat_data_def demo_flat_scenario_def demo_task_def demo_unit_def
      demo_scenario_def)

lemma demo_flat_parts: "totalAnnualPartsCost (demo_flat_data name rate) = 0"
  by (simp add: totalAnnualPartsCost_def partsCostPerYear_def partsPerService_def
      demo_flat_data_def demo_task_def)

lemma demo_flat_maintenance: "totalAnnualMaintenanceCost (demo_flat_data name rate) = rate"
  by (simp add: totalAnnualMaintenanceCost_def annualMaintenanceCostBase_def annualOverhead_def
      demo_flat_labor demo_flat_parts overheadMarkup_def)
     (simp add: demo_flat_data_def demo_flat_scenario_def)

lemma demo_flat_year: "yearTotalCost (demo_flat_data name rate) (Suc 0) = rate"
  by (simp add: yearTotalCost_def yearMaintenanceCost_def yearFuelCost_def yearDowntimeCost_def
      yearComponentCost_def componentReplacements_def inflationMultiplier_def
      demo_flat_maintenance)
     (simp add: demo_flat_data_def demo_flat_scenario_def)

lemma demo_flat_npv: "tco_total_npv (r_tco (runAnalysis now (demo_flat_data name rate))) = round2 rate"
proof -
  have p: "analysisPeriod (demo_flat_data name rate) = 1"
    by (simp add: analysisPeriod_def demo_flat_data_def demo_flat_scenario_def)
  have dm: "discountMultiplier (demo_flat_data name rate) (Suc 0) = 1"
    by (simp add: discountMultiplier_def discountRate_def demo_flat_data_def
        demo_flat_scenario_def)
  have "npvTotal (demo_flat_data name rate) = rate"
    by (simp add: npvTotal_def projection_def p Let_def yearNpv_def demo_flat_year dm
        split: prod.splits)
  then show ?thesis
    by (simp add: runAnalysis_def tco_of_def)
qed

text \<open>
  Claim C8: for a comparison of exactly two computed scenarios whose total NPVs are 100
  and 80, in either order, \<open>lowest_tco\<close> names the scenario with NPV 80 and
  \<open>savings_vs_highest\<close> is 20.
\<close>

theorem C8_lowest_tco:
  "tco_total_npv (r_tco a) = 100 \<Longrightarrow> tco_total_npv (r_tco b) = 80 \<Longrightarrow>
     co_lowest_tco (compare_results [a, b])
       = Some \<lparr> lt_scenario_id = r_scenario_id b, lt_scenario_name = r_scenario_name b,
                lt_tco_npv = 80, lt_savings_vs_highest = 20 \<rparr>
     \<and> co_lowest_tco (compare_results [b, a])
       = Some \<lparr> lt_scenario_id = r_scenario_id b, lt_scenario_name = r_scenario_name b,
                lt_tco_npv = 80, lt_savings_vs_highest = 20 \<rparr>"
  by (simp add: compare_results_def lowest_tco_of_def sorted_by_npv_def comparison_row_of_def
      round2_def Math_round_def)

theorem C8_lowest_tco_witness:
  "tco_total_npv (r_tco (runAnalysis demo_now (demo_flat_data ''Plan A'' 100))) = 100
   \<and> tco_total_npv (r_tco (runAnalysis demo_now (demo_flat_data ''Plan B'' 80))) = 80
   \<and> co_lowest_tco (compare_results [runAnalysis demo_now (demo_flat_data ''Plan A'' 100),
                                      runAnalysis demo_now (demo_flat_data ''Plan B'' 80)])
     = Some \<lparr> lt_scenario_id = Some 1, lt_scenario_name = ''Plan B'',
              lt_tco_npv = 80, lt_savings_vs_highest = 20 \<rparr>"
proof -
  have a: "tco_total_npv (r_tco (runAnalysis demo_now (demo_flat_data ''Plan A'' 100))) = 100"
    by (simp add: demo_flat_npv round2_def Math_round_def)
  have b: "tco_total_npv (r_tco (runAnalysis demo_now (demo_flat_data ''Plan B'' 80))) = 80"
    by (simp add: demo_flat_npv round2_def Math_round_def)
  have i: "r_scenario_id (runAnalysis demo_now (demo_flat_data ''Plan B'' 80)) = Some 1"
    by (simp add: runAnalysis_def demo_flat_data_def demo_flat_scenario_def demo_scenario_def)
  have n: "r_scenario_name (runAnalysis demo_now (demo_flat_data ''Plan B'' 80)) = ''Plan B''"
    by (simp add: runAnalysis_def demo_flat_data_def demo_flat_scenario_def demo_scenario_def)
  show ?thesis
    using C8_lowest_tco [OF a b] a b by (simp add: i n)
qed

section \<open>C9: the staffing ramp\<close>

lemma sum_list_le:
  fixes f g :: "'a \<Rightarrow> real"
  shows "(\<And>x. x \<in> set xs \<Longrightarrow> f x \<le> g x) \<Longrightarrow> sum_list (map f xs) \<le> sum_list (map g xs)"
  by (induction xs) (auto intro: add_mono)

lemma sum_list_less:
  fixes f g :: "'a \<Rightarrow> real"
  assumes "\<And>x. x \<in> set xs \<Longrightarrow> f x \<le> g x" "u \<in> set xs" "f u < g u"
  shows "sum_list (map f xs) < sum_list (map g xs)"
  using assms
proof (induction xs)
  case Nil
  then show ?case by simp
next
  case (Cons a xs)
  show ?case
  proof (cases "u = a")
    case True
    have "sum_list (map f xs) \<le> sum_list (map g xs)"
      using Cons.prems(1) by (intro sum_list_le) simp
    then show ?thesis using Cons.prems(3) True by simp
  next
    case False
    then have "u \<in> set xs" using Cons.prems(2) by simp
    then have "sum_list (map f xs) < sum_list (map g xs)"
      using Cons.IH Cons.prems(1,3) by simp
    moreover have "f a \<le> g a" using Cons.prems(1) by simp
    ultimately show ?thesis by simp
  qed
qed

lemma unitsActive_le: "unitsActive c m \<le> cfa_totalUnits c"
  unfolding unitsActive_def cfa_totalUnits_def by (rule sum_list_le) simp

lemma techsRequired_int: "\<exists>k::int. techsRequired c = of_int k"
  by (auto simp: techsRequired_def Math_ceil_def intro: exI [of _ 0])

lemma techsRequired_nonneg:
  assumes "0 \<le> cfa_totalAnnualLaborHours c"
  shows "0 \<le> techsRequired c"
proof (cases "cfa_availableHoursPerTech c > 0")
  case True
  then have "0 \<le> cfa_totalAnnualLaborHours c / cfa_availableHoursPerTech c * (115 / 100)"
    using assms by simp
  then show ?thesis using True by (simp add: techsRequired_def Math_ceil_def)
next
  case False
  then show ?thesis by (simp add: techsRequired_def)
qed

lemma proportionalTechs_le:
  assumes "0 \<le> cfa_totalAnnualLaborHours c"
  shows "proportionalTechs c m \<le> techsRequired c"
proof (cases "cfa_totalUnits c > 0")
  case True
  obtain k :: int where k: "techsRequired c = of_int k"
    using techsRequired_int by blast
  have T: "0 \<le> techsRequired c" using assms by (rule techsRequired_nonneg)
  have "unitsActive c m / cfa_totalUnits c \<le> 1"
    using True unitsActive_le [of c m] by simp
  then have "(unitsActive c m / cfa_totalUnits c) * techsRequired c \<le> 1 * techsRequired c"
    using T by (rule mult_right_mono)
  then have "(unitsActive c m / cfa_totalUnits c) * techsRequired c \<le> of_int k"
    by (simp add: k)
  then have "\<lceil>(unitsActive c m / cfa_totalUnits c) * techsRequired c\<rceil> \<le> k"
    by (simp add: ceiling_le_iff)
  then show ?thesis
    using True by (simp add: proportionalTechs_def Math_ceil_def k)
next
  case False
  then show ?thesis
    using techsRequired_nonneg [OF assms] by (simp add: proportionalTechs_def)
qed

lemma rampMonths_bounds: "12 \<le> rampMonths c" "rampMonths c \<le> 36"
  by (simp_all add: rampMonths_def)

lemma length_staffingTimeline: "length (staffingTimeline c) = nat \<lfloor>rampMonths c\<rfloor>"
  by (simp add: staffingTimeline_def del: upt_Suc)

lemma length_staffingTimeline_bounds:
  "12 \<le> length (staffingTimeline c)" "length (staffingTimeline c) \<le> 36"
proof -
  have a: "12 \<le> \<lfloor>rampMonths c\<rfloor>"
    by (rule iffD2 [OF le_floor_iff]) (use rampMonths_bounds(1) [of c] in simp)
  have b: "\<lfloor>rampMonths c\<rfloor> \<le> 36"
    by (rule iffD2 [OF floor_le_iff]) (use rampMonths_bounds(2) [of c] in simp)
  show "12 \<le> length (staffingTimeline c)" "length (staffingTimeline c) \<le> 36"
    unfolding length_staffingTimeline using a b by linarith+
qed

lemma foldl_max_witness:
  fixes k :: real
  assumes "foldl (\<lambda>m u. if unit_rate u > 0 then max m (Math_ceil (unit_qty u / unit_rate u)) else m)
             a us > k" "a \<le> k"
  shows "\<exists>u \<in> set us. unit_rate u > 0 \<and> Math_ceil (unit_qty u / unit_rate u) > k"
  using assms
proof (induction us arbitrary: a)
  case Nil
  then show ?case by simp
next
  case (Cons u us)
  show ?case
  proof (cases "unit_rate u > 0 \<and> Math_ceil (unit_qty u / unit_rate u) > k")
    case True
    then show ?thesis by auto
  next
    case False
    then have "(if unit_rate u > 0 then max a (Math_ceil (unit_qty u / unit_rate u)) else a) \<le> k"
      using Cons.prems(2) by auto
    then have "\<exists>u \<in> set us. unit_rate u > 0 \<and> Math_ceil (unit_qty u / unit_rate u) > k"
      using Cons.prems(1) by (intro Cons.IH) simp_all
    then show ?thesis by auto
  qed
qed

lemma last_staffingTimeline:
  "tl_units_active (last (staffingTimeline c)) = unitsActive c (nat \<lfloor>rampMonths c\<rfloor>)"
proof -
  have "12 \<le> \<lfloor>rampMonths c\<rfloor>"
    by (rule iffD2 [OF le_floor_iff]) (use rampMonths_bounds(1) [of c] in simp)
  then have "1 \<le> nat \<lfloor>rampMonths c\<rfloor>" by linarith
  then have "[1 ..< Suc (nat \<lfloor>rampMonths c\<rfloor>)] \<noteq> []" by simp
  then show ?thesis
    by (simp add: staffingTimeline_def last_map del: upt_Suc)
qed

lemma ramp_ends_early:
  assumes "maxCommissioningMonths c > 36"
  shows "tl_units_active (last (staffingTimeline c)) < cfa_totalUnits c"
proof -
  have r: "rampMonths c = 36"
    using assms by (simp add: rampMonths_def)
  obtain u where u: "u \<in> set (cfg_fleet_units c)" "unit_rate u > 0"
    "Math_ceil (unit_qty u / unit_rate u) > 36"
    using foldl_max_witness [where a = 0 and us = "cfg_fleet_units c" and k = 36] assms
    by (auto simp: maxCommissioningMonths_def)
  have "\<lceil>unit_qty u / unit_rate u\<rceil> > 36"
    using u(3) by (simp add: Math_ceil_def)
  then have "unit_qty u / unit_rate u > 36"
    by (simp add: less_ceiling_iff)
  then have "unit_rate u * 36 < unit_qty u"
    using u(2) by (simp add: field_simps)
  then have "min (unit_qty u) (unit_rate u * real (36::nat)) < unit_qty u"
    by simp
  then have "unitsActive c 36 < cfa_totalUnits c"
    unfolding unitsActive_def cfa_totalUnits_def
    by (intro sum_list_less [where u = u]) (simp_all add: u(1))
  then show ?thesis
    by (simp add: last_staffingTimeline r)
qed

lemma demo_slow_months: "maxCommissioningMonths demo_slow_config = 31"
  by (simp add: maxCommissioningMonths_def demo_slow_config_def demo_config_def demo_cfg_unit_def
      unit_rate_def unit_qty_def js_or_def Math_ceil_def)

text \<open>
  Claim C9 as stated fails in its last clause: a commissioning horizon of 31 months is
  longer than 30 months, the ramp then has 36 rows, and its last row has all 31 units
  active, so the ramp does not end before full deployment.
\<close>

theorem C9_horizon_counterexample:
  "maxCommissioningMonths demo_slow_config > 30
   \<and> \<not> tl_units_active (last (staffingTimeline demo_slow_config)) < cfa_totalUnits demo_slow_config
   \<and> tl_units_active (last (staffingTimeline demo_slow_config)) = 31
   \<and> cfa_totalUnits demo_slow_config = 31"
proof -
  have r: "rampMonths demo_slow_config = 36"
    by (simp add: rampMonths_def demo_slow_months)
  have t: "cfa_totalUnits demo_slow_config = 31"
    by (simp add: cfa_totalUnits_def demo_slow_config_def demo_config_def demo_cfg_unit_def
        unit_qty_def js_or_def)
  have a: "unitsActive demo_slow_config 36 = 31"
    by (simp add: unitsActive_def demo_slow_config_def demo_config_def demo_cfg_unit_def
        unit_rate_def unit_qty_def js_or_def)
  show ?thesis
    by (simp add: last_staffingTimeline r t a demo_slow_months)
qed

text \<open>
  Claim C9, amended: in every monthly row of the staffing ramp \<open>units_active\<close> is at most
  the total unit count and, for non-negative annual labor hours, \<open>technicians\<close> is at most
  the required technician count; the number of rows is
  \<open>min(36, max(12, maxCommissioningMonths + 6))\<close>, between 12 and 36; and for a
  commissioning horizon longer than 36 months the ramp ends before full deployment: its
  last row has fewer units active than the fleet has.
\<close>

theorem C9_staffing_ramp:
  "(\<forall>row \<in> set (staffingTimeline c).
       tl_units_active row \<le> cfa_totalUnits c
       \<and> (0 \<le> cfa_totalAnnualLaborHours c \<longrightarrow> tl_technicians row \<le> techsRequired c))
   \<and> 12 \<le> length (staffingTimeline c) \<and> length (staffingTimeline c) \<le> 36
   \<and> length (staffingTimeline c) = nat \<lfloor>min 36 (max 12 (maxCommissioningMonths c + 6))\<rfloor>
   \<and> (maxCommissioningMonths c > 36
        \<longrightarrow> tl_units_active (last (staffingTimeline c)) < cfa_totalUnits c)"
proof -
  have "\<forall>row \<in> set (staffingTimeline c).
          tl_units_active row \<le> cfa_totalUnits c
          \<and> (0 \<le> cfa_totalAnnualLaborHours c \<longrightarrow> tl_technicians row \<le> techsRequired c)"
    unfolding staffingTimeline_def
    by (simp add: unitsActive_le proportionalTechs_le del: upt_Suc)
  then show ?thesis
    using length_staffingTimeline_bounds [of c] length_staffingTimeline [of c]
      ramp_ends_early [of c]
    by (simp add: rampMonths_def)
qed

theorem C9_staffing_ramp_witness:
  "tl_units_active (last (staffingTimeline demo_long_config)) \<le> cfa_totalUnits demo_long_config
   \<and> tl_technicians (last (staffingTimeline demo_long_config)) \<le> techsRequired demo_long_config
   \<and> length (staffingTimeline demo_long_config) = 36
   \<and> maxCommissioningMonths demo_long_config = 50
   \<and> tl_units_active (last (staffingTimeline demo_long_config)) < cfa_totalUnits demo_long_config"
proof -
  have m: "maxCommissioningMonths demo_long_config = 50"
    by (simp add: maxCommissioningMonths_def demo_long_config_def demo_config_def
        demo_cfg_unit_def unit_rate_def unit_qty_def js_or_def Math_ceil_def)
  have u: "cfa_totalUnits demo_long_config = 100"
    by (simp add: cfa_totalUnits_def demo_long_config_def demo_config_def demo_cfg_unit_def
        unit_qty_def js_or_def)
  have ts: "cfg_pm_tasks demo_long_config = [demo_cfg_task]"
    by (simp add: demo_long_config_def demo_config_def)
  have t: "task_active demo_cfg_task" "ct_is_one_time demo_cfg_task"
    "ct_labor_hours demo_cfg_task = 2"
    by (simp_all add: task_active_def demo_cfg_task_def)
  have h: "0 \<le> cfa_totalAnnualLaborHours demo_long_config"
    by (simp add: cfa_totalAnnualLaborHours_def ts cfa_laborHoursPerYear_def t u)
  have "staffingTimeline demo_long_config \<noteq> []"
    using length_staffingTimeline_bounds(1) [of demo_long_config] by auto
  then have l: "last (staffingTimeline demo_long_config) \<in> set (staffingTimeline demo_long_config)"
    by (rule last_in_set)
  have g: "36 < maxCommissioningMonths demo_long_config"
    by (simp add: m)
  have n: "nat \<lfloor>min 36 (max 12 (maxCommissioningMonths demo_long_config + 6))\<rfloor> = 36"
    by (simp add: m)
  show ?thesis
    using C9_staffing_ramp [of demo_long_config] l h g n m by auto
qed

section \<open>C10: the labor rate of an unrecognised skill level\<close>

text \<open>
  Claim C10 as stated fails for \<open>getLaborRate\<close>, which lower-cases the skill level before
  it compares: \<open>Specialist\<close> is neither the string \<open>specialist\<close> nor the string \<open>engineer\<close>,
  and is charged at the specialist rate, not at the base rate.
\<close>

theorem C10_case_counterexample:
  "''Specialist'' \<noteq> ''specialist'' \<and> ''Specialist'' \<noteq> ''engineer''
   \<and> getLaborRate demo_scenario (Some ''Specialist'') = 180
   \<and> sc_labor_rate demo_scenario = 120"
  by (simp add: getLaborRate_def js_or_str_def toLowerCase_def lower_char_def demo_scenario_def)

text \<open>
  Claim C10, amended: in \<open>runAnalysis\<close> a skill level that, lower-cased (an absent or empty
  one counting as \<open>technician\<close>), is neither \<open>specialist\<close> nor \<open>engineer\<close> resolves to the base
  rate of the scenario, which is the rate of the task's row; in \<open>calculateFullAnalysis\<close>,
  which compares exactly, so does every skill level other than the strings \<open>specialist\<close>
  and \<open>engineer\<close>. Neither lookup has an error path.
\<close>

theorem C10_base_rate_fallback:
  "(toLowerCase (js_or_str (t_skill_level task) ''technician'') \<noteq> ''specialist''
      \<longrightarrow> toLowerCase (js_or_str (t_skill_level task) ''technician'') \<noteq> ''engineer''
      \<longrightarrow> getLaborRate (d_scenario d) (t_skill_level task) = sc_labor_rate (d_scenario d)
          \<and> tr_labor_rate (task_row_of d task) = sc_labor_rate (d_scenario d))
   \<and> (ct_skill_level ctask \<noteq> Some ''specialist''
      \<longrightarrow> ct_skill_level ctask \<noteq> Some ''engineer''
      \<longrightarrow> task_rate c ctask = labor_rate c)"
  by (simp add: getLaborRate_def task_row_of_def task_rate_def Let_def)

theorem C10_base_rate_fallback_witness:
  "getLaborRate (d_scenario demo_data)
       (t_skill_level (demo_task\<lparr>t_skill_level := Some ''specialst''\<rparr>)) = 120
   \<and> getLaborRate (d_scenario demo_data) (t_skill_level (demo_task\<lparr>t_skill_level := None\<rparr>)) = 120
   \<and> task_rate demo_config (demo_cfg_task\<lparr>ct_skill_level := Some ''Specialist''\<rparr>) = 100"
  using C10_base_rate_fallback [of "demo_task\<lparr>t_skill_level := Some ''specialst''\<rparr>" demo_data
                    "demo_cfg_task\<lparr>ct_skill_level := Some ''Specialist''\<rparr>" demo_config]
        C10_base_rate_fallback [of "demo_task\<lparr>t_skill_level := None\<rparr>" demo_data
                    "demo_cfg_task\<lparr>ct_skill_level := Some ''Specialist''\<rparr>" demo_config]
  by (simp add: js_or_str_def toLowerCase_def lower_char_def demo_data_def demo_scenario_def
        demo_config_def labor_rate_def js_default_def)

end
